(* ===== verification/Prelude.thy ===== *)
theory Prelude
  imports Complex_Main "HOL-Library.Sublist"
begin

text \<open>
  Shared vocabulary of the development. The program is a single Flask module
  (\<^verbatim>\<open>src/sleep-test-tool/app.py\<close>) whose Python strings are modelled as
  \<^typ>\<open>string\<close> holding their UTF-8 encoding; \<open>utf8\<close> below writes the non-ASCII
  literals of the source (its Chinese messages) by their code points. The theory also
  holds the list lemmas that the history store and the pagination share, and the
  named collection \<open>py_simps\<close> into which the Python primitives put their evaluation
  rules.
\<close>

named_theorems py_simps "evaluation rules of the Python primitives of the model"

subsection \<open>UTF-8 encoding of code points\<close>

fun utf8_char :: "nat \<Rightarrow> string" where
  "utf8_char c =
    (if c < 0x80 then [char_of c]
     else if c < 0x800 then [char_of (0xC0 + c div 0x40), char_of (0x80 + c mod 0x40)]
     else if c < 0x10000 then
       [char_of (0xE0 + c div 0x1000), char_of (0x80 + c div 0x40 mod 0x40),
        char_of (0x80 + c mod 0x40)]
     else
       [char_of (0xF0 + c div 0x40000), char_of (0x80 + c div 0x1000 mod 0x40),
        char_of (0x80 + c div 0x40 mod 0x40), char_of (0x80 + c mod 0x40)])"

definition utf8 :: "nat list \<Rightarrow> string" where
  "utf8 cs = concat (map utf8_char cs)"

declare utf8_char.simps [simp del]

lemma utf8_Nil [simp]: "utf8 [] = []"
  by (simp add: utf8_def)

lemma utf8_Cons: "utf8 (c # cs) = utf8_char c @ utf8 cs"
  by (simp add: utf8_def)

lemma utf8_append [simp]: "utf8 (cs @ ds) = utf8 cs @ utf8 ds"
  by (simp add: utf8_def)

text \<open>
  Every byte of the encoding of a non-ASCII code point is at least 128: an ASCII
  character never occurs inside the encoding of another character. This is what lets
  a byte-wise search for an ASCII pattern agree with Python's search on code points.
\<close>

lemma utf8_char_high_byte:
  assumes "128 \<le> c" and "c < 0x110000" and "b \<in> set (utf8_char c)"
  shows "128 \<le> (of_char b :: nat)"
proof -
  have "c div 0x40000 < 16" using assms(2) by simp
  then show ?thesis
    using assms by (auto simp: utf8_char.simps split: if_splits)
qed

lemma utf8_high_bytes:
  assumes "\<forall>c \<in> set cs. 128 \<le> c \<and> c < 0x110000" and "b \<in> set (utf8 cs)"
  shows "128 \<le> (of_char b :: nat)"
  using assms by (auto simp: utf8_def intro: utf8_char_high_byte)

lemma ascii_notin_utf8:
  assumes "\<forall>c \<in> set cs. 128 \<le> c \<and> c < 0x110000" and "(of_char a :: nat) < 128"
  shows "a \<notin> set (utf8 cs)"
  using utf8_high_bytes [OF assms(1)] assms(2) by force

subsection \<open>Lists\<close>

text \<open>Keeping the last \<open>n\<close> elements, the effect of Python's \<open>xs[-n:]\<close>.\<close>

lemma length_drop_last: "length (drop (length xs - n) xs) = min n (length xs)"
  by simp

lemma drop_last_snoc:
  "0 < n \<Longrightarrow> drop (length (xs @ [x]) - n) (xs @ [x]) = drop (length xs - (n - 1)) xs @ [x]"
  by (simp add: Suc_diff_le)

lemma last_drop_snoc: "0 < n \<Longrightarrow> last (drop (length (xs @ [x]) - n) (xs @ [x])) = x"
  by (simp add: drop_last_snoc)

lemma take_drop_concat_blocks:
  "0 < k \<Longrightarrow> concat (map (\<lambda>p. take k (drop (p * k) xs)) [0..<m]) = take (m * k) xs"
proof (induction m)
  case 0
  then show ?case by simp
next
  case (Suc m)
  have "take (m * k) xs @ take k (drop (m * k) xs) = take (m * k + k) xs"
    by (simp add: take_add)
  with Suc show ?case by (simp add: add.commute)
qed

text \<open>Finding a text inside a concatenation, for the error messages built by appending.\<close>

lemma sublist_Cons_mono [simp]: "sublist xs ys \<Longrightarrow> sublist xs (y # ys)"
  by (auto simp: sublist_Cons_right)

lemma sublist_append_mono [simp]: "sublist xs ys \<Longrightarrow> sublist xs (zs @ ys)"
  by (metis append_assoc sublist_def)

end
