(* ===== verification/PyLang.thy ===== *)
theory PyLang
  imports Prelude
begin

text \<open>
  The Python primitives that \<^verbatim>\<open>app.py\<close> relies on, as executable HOL functions:
  the values a JSON document decodes to (\<open>jval\<close>), Python truthiness (\<open>if x:\<close>,
  \<open>x or y\<close>), \<open>dict.get\<close> with a default, hashability of dictionary keys,
  \<open>str()\<close> and \<open>repr()\<close>, list slicing \<open>xs[a:b]\<close> with negative indices,
  floor division \<open>//\<close>, \<open>str.replace\<close> and the \<open>int()\<close> conversion Flask applies
  to query arguments. Exceptions are values of \<open>exc\<close>: a class and the text
  \<open>str(e)\<close>.
\<close>

subsection \<open>Values and exceptions\<close>

text \<open>
  A decoded JSON value: \<open>None\<close>, \<open>bool\<close>, \<open>int\<close>, \<open>str\<close>, \<open>list\<close> and \<open>dict\<close>
  (kept as the list of key/value pairs in document order). JSON numbers with a
  fraction or an exponent (Python floats) are not modelled.
\<close>

datatype jval =
    JNone
  | JBool bool
  | JInt int
  | JStr string
  | JList "jval list"
  | JDict "(string \<times> jval) list"

datatype exc_class = Exception | TypeError | AttributeError | ZeroDivisionError | OSError
  | HTTPException

datatype exc = Exc exc_class string

fun exc_str :: "exc \<Rightarrow> string" where
  "exc_str (Exc _ m) = m"

fun exc_class_of :: "exc \<Rightarrow> exc_class" where
  "exc_class_of (Exc c _) = c"

fun truthy :: "jval \<Rightarrow> bool" where
  "truthy JNone = False"
| "truthy (JBool b) = b"
| "truthy (JInt i) = (i \<noteq> 0)"
| "truthy (JStr s) = (s \<noteq> [])"
| "truthy (JList xs) = (xs \<noteq> [])"
| "truthy (JDict kvs) = (kvs \<noteq> [])"

text \<open>
  \<open>json.loads\<close> keeps the last value of a repeated key, so \<open>d.get(k, dflt)\<close> on a
  decoded object reads the last binding of \<open>k\<close>.
\<close>

definition py_get :: "(string \<times> jval) list \<Rightarrow> string \<Rightarrow> jval \<Rightarrow> jval" where
  "py_get kvs k dflt = (case map_of (rev kvs) k of None \<Rightarrow> dflt | Some v \<Rightarrow> v)"

fun hashable :: "jval \<Rightarrow> bool" where
  "hashable (JList _) = False"
| "hashable (JDict _) = False"
| "hashable _ = True"

fun py_type_name :: "jval \<Rightarrow> string" where
  "py_type_name JNone = ''NoneType''"
| "py_type_name (JBool _) = ''bool''"
| "py_type_name (JInt _) = ''int''"
| "py_type_name (JStr _) = ''str''"
| "py_type_name (JList _) = ''list''"
| "py_type_name (JDict _) = ''dict''"

definition quoted :: "string \<Rightarrow> string" where
  "quoted s = CHR 0x27 # s @ [CHR 0x27]"

definition unhashable_error :: "jval \<Rightarrow> exc" where
  "unhashable_error v = Exc TypeError (''unhashable type: '' @ quoted (py_type_name v))"

definition no_attribute_error :: "jval \<Rightarrow> string \<Rightarrow> exc" where
  "no_attribute_error v a =
     Exc AttributeError (quoted (py_type_name v) @ '' object has no attribute '' @ quoted a)"

subsection \<open>\<open>str()\<close> and \<open>repr()\<close>\<close>

fun dec_nat :: "nat \<Rightarrow> string" where
  "dec_nat n = (if n < 10 then [char_of (48 + n)] else dec_nat (n div 10) @ [char_of (48 + n mod 10)])"

declare dec_nat.simps [simp del]

definition dec_int :: "int \<Rightarrow> string" where
  "dec_int i = (if i < 0 then CHR ''-'' # dec_nat (nat (- i)) else dec_nat (nat i))"

definition hex_digit :: "nat \<Rightarrow> char" where
  "hex_digit n = (if n < 10 then char_of (48 + n) else char_of (87 + n))"

text \<open>
  \<open>repr\<close> of a string: single quotes unless the text holds a single quote and no
  double quote; the chosen quote and the backslash are escaped, tab, newline and
  carriage return by name, other control characters as \<open>\x\<close> escapes. Bytes of
  non-ASCII characters are copied, as Python copies printable non-ASCII characters.
\<close>

definition repr_char :: "char \<Rightarrow> char \<Rightarrow> string" where
  "repr_char q c =
     (if c = q \<or> c = CHR 0x5C then [CHR 0x5C, c]
      else if c = CHR 0x09 then [CHR 0x5C, CHR ''t'']
      else if c = CHR 0x0A then [CHR 0x5C, CHR ''n'']
      else if c = CHR 0x0D then [CHR 0x5C, CHR ''r'']
      else if of_char c < (32::nat) \<or> of_char c = (127::nat) then
        [CHR 0x5C, CHR ''x'', hex_digit (of_char c div 16), hex_digit (of_char c mod 16)]
      else [c])"

definition repr_string :: "string \<Rightarrow> string" where
  "repr_string s =
     (let q = (if CHR 0x27 \<in> set s \<and> CHR 0x22 \<notin> set s then CHR 0x22 else CHR 0x27)
      in q # concat (map (repr_char q) s) @ [q])"

fun join :: "string \<Rightarrow> string list \<Rightarrow> string" where
  "join sep [] = []"
| "join sep [x] = x"
| "join sep (x # xs) = x @ sep @ join sep xs"

text \<open>
  The items of the dictionary \<open>json.loads\<close> builds: each key once, at the place of
  its first occurrence, with its last value.
\<close>

definition dict_items :: "(string \<times> jval) list \<Rightarrow> (string \<times> jval) list" where
  "dict_items kvs = map (\<lambda>k. (k, py_get kvs k JNone)) (remdups (map fst kvs))"

fun py_repr :: "jval \<Rightarrow> string" where
  "py_repr JNone = ''None''"
| "py_repr (JBool b) = (if b then ''True'' else ''False'')"
| "py_repr (JInt i) = dec_int i"
| "py_repr (JStr s) = repr_string s"
| "py_repr (JList xs) = CHR ''['' # join '', '' (map py_repr xs) @ '']''"
| "py_repr (JDict kvs) =
     CHR ''{'' # join '', '' (map (\<lambda>(k, v). repr_string k @ '': '' @ py_repr v) kvs) @ ''}''"

text \<open>\<open>str(v)\<close>: the text itself for a string, \<open>repr\<close> otherwise.\<close>

fun py_str :: "jval \<Rightarrow> string" where
  "py_str (JStr s) = s"
| "py_str (JDict kvs) = py_repr (JDict (dict_items kvs))"
| "py_str v = py_repr v"

subsection \<open>Slicing and floor division\<close>

text \<open>
  CPython's slice adjustment (\<open>PySlice_AdjustIndices\<close>, step 1): a negative bound
  counts from the end and is clipped at 0, a bound past the end is clipped to the
  length, an omitted lower bound is 0 and an omitted upper bound the length; an empty
  range gives the empty list, never an error.
\<close>

definition py_norm :: "int \<Rightarrow> int \<Rightarrow> nat" where
  "py_norm n i = nat (if i < 0 then max 0 (n + i) else min n i)"

definition py_slice :: "'a list \<Rightarrow> int option \<Rightarrow> int option \<Rightarrow> 'a list" where
  "py_slice xs lo hi =
     (let n = int (length xs);
          a = py_norm n (case lo of None \<Rightarrow> 0 | Some i \<Rightarrow> i);
          b = py_norm n (case hi of None \<Rightarrow> n | Some i \<Rightarrow> i)
      in take (b - a) (drop a xs))"

definition py_floordiv :: "int \<Rightarrow> int \<Rightarrow> exc + int" where
  "py_floordiv a b =
     (if b = 0 then Inl (Exc ZeroDivisionError ''integer division or modulo by zero'')
      else Inr (a div b))"

subsection \<open>\<open>str.replace\<close>\<close>

text \<open>
  \<open>s.replace(old, new)\<close> replaces every occurrence of \<open>old\<close>, scanning left to right
  without overlaps; an empty \<open>old\<close> matches before every character and at the end.
\<close>

function py_replace :: "string \<Rightarrow> string \<Rightarrow> string \<Rightarrow> string" where
  "py_replace s old new =
     (if old = [] then
        (case s of [] \<Rightarrow> new | c # cs \<Rightarrow> new @ c # py_replace cs old new)
      else if take (length old) s = old \<and> s \<noteq> [] then
        new @ py_replace (drop (length old) s) old new
      else (case s of [] \<Rightarrow> [] | c # cs \<Rightarrow> c # py_replace cs old new))"
  by pat_completeness auto
termination
  by (relation "measure (\<lambda>(s, old, new). length s)") auto

declare py_replace.simps [simp del]

subsection \<open>\<open>int()\<close> of a query argument\<close>

text \<open>
  \<open>int(s)\<close> on a text: surrounding whitespace is stripped, one optional sign, then
  decimal digits with single underscores between them. Only ASCII whitespace and
  digits are modelled (Python also accepts other Unicode spaces and digits).
\<close>

definition py_space :: "char \<Rightarrow> bool" where
  "py_space c = (let n = (of_char c :: nat) in (9 \<le> n \<and> n \<le> 13) \<or> (28 \<le> n \<and> n \<le> 32))"

definition is_digit :: "char \<Rightarrow> bool" where
  "is_digit c = (let n = (of_char c :: nat) in 48 \<le> n \<and> n \<le> 57)"

definition py_strip :: "string \<Rightarrow> string" where
  "py_strip s = rev (dropWhile py_space (rev (dropWhile py_space s)))"

fun digits_ok :: "string \<Rightarrow> bool" where
  "digits_ok [] = False"
| "digits_ok [c] = is_digit c"
| "digits_ok (c # d # cs) =
     (is_digit c \<and> (if d = CHR ''_'' then digits_ok cs else digits_ok (d # cs)))"

definition digits_val :: "string \<Rightarrow> nat" where
  "digits_val s = foldl (\<lambda>acc c. 10 * acc + (of_char c - 48)) 0 (filter is_digit s)"

definition py_int :: "string \<Rightarrow> int option" where
  "py_int s =
     (case py_strip s of
        [] \<Rightarrow> None
      | c # cs \<Rightarrow>
          (if c = CHR ''-'' then (if digits_ok cs then Some (- int (digits_val cs)) else None)
           else if c = CHR ''+'' then (if digits_ok cs then Some (int (digits_val cs)) else None)
           else if digits_ok (c # cs) then Some (int (digits_val (c # cs))) else None))"

text \<open>
  \<open>request.args.get(key, default, type=int)\<close>: the default when the argument is
  absent or \<open>int()\<close> rejects it.
\<close>

definition arg_int :: "string option \<Rightarrow> int \<Rightarrow> int" where
  "arg_int a dflt = (case a of None \<Rightarrow> dflt | Some s \<Rightarrow> (case py_int s of None \<Rightarrow> dflt | Some i \<Rightarrow> i))"

subsection \<open>Lemmas on slicing and replacement\<close>

lemma py_slice_nonneg [py_simps]:
  assumes "0 \<le> lo" and "0 \<le> hi"
  shows "py_slice xs (Some lo) (Some hi) = take (nat hi - nat lo) (drop (nat lo) xs)"
proof -
  have lo: "py_norm (int (length xs)) lo = min (length xs) (nat lo)"
    using assms(1) by (auto simp: py_norm_def min_def)
  have hi: "py_norm (int (length xs)) hi = min (length xs) (nat hi)"
    using assms(2) by (auto simp: py_norm_def min_def)
  show ?thesis by (auto simp: py_slice_def lo hi min_def Let_def)
qed

lemma py_slice_suffix [py_simps]:
  assumes "0 < k"
  shows "py_slice xs (Some (- k)) None = drop (length xs - nat k) xs"
proof -
  have "py_norm (int (length xs)) (- k) = length xs - nat k"
    using assms by (simp add: py_norm_def max_def nat_diff_distrib)
  then show ?thesis by (simp add: py_slice_def py_norm_def)
qed

lemma py_slice_empty_hi_zero [py_simps]:
  "lo < 0 \<Longrightarrow> py_slice xs (Some lo) (Some 0) = []"
  by (simp add: py_slice_def py_norm_def)

lemma py_slice_neg [py_simps]:
  assumes "lo < 0" and "hi < 0" and "lo \<le> hi" and "- lo \<le> int (length xs)"
  shows "py_slice xs (Some lo) (Some hi) = take (nat (hi - lo)) (drop (nat (int (length xs) + lo)) xs)"
proof -
  have "py_norm (int (length xs)) lo = nat (int (length xs) + lo)"
    using assms by (simp add: py_norm_def)
  moreover have "py_norm (int (length xs)) hi = nat (int (length xs) + hi)"
    using assms by (simp add: py_norm_def)
  moreover have "nat (int (length xs) + hi) - nat (int (length xs) + lo) = nat (hi - lo)"
    using assms by simp
  ultimately show ?thesis by (simp add: py_slice_def)
qed

lemma py_floordiv_pos [py_simps]: "0 < b \<Longrightarrow> py_floordiv a b = Inr (a div b)"
  by (simp add: py_floordiv_def)

lemma py_replace_Nil [py_simps]: "old \<noteq> [] \<Longrightarrow> py_replace [] old new = []"
  by (simp add: py_replace.simps)

lemma py_replace_Cons_nomatch [py_simps]:
  "old \<noteq> [] \<Longrightarrow> hd old \<noteq> c \<Longrightarrow> py_replace (c # cs) old new = c # py_replace cs old new"
  by (subst py_replace.simps) (cases old, auto)

text \<open>A text with no occurrence of the pattern's first character is left unchanged.\<close>

lemma py_replace_Cons_match [py_simps]:
  "old \<noteq> [] \<Longrightarrow> take (length old) (c # cs) = old \<Longrightarrow>
   py_replace (c # cs) old new = new @ py_replace (drop (length old) (c # cs)) old new"
  by (subst py_replace.simps) simp

lemma py_replace_absent:
  assumes "old \<noteq> []" and "hd old \<notin> set s"
  shows "py_replace s old new = s"
  using assms(2)
proof (induction s)
  case Nil
  show ?case using assms(1) by (rule py_replace_Nil)
next
  case (Cons c cs)
  then show ?case using assms(1) by (simp add: py_replace_Cons_nomatch)
qed

lemma py_replace_append_absent:
  assumes "old \<noteq> []" and "hd old \<notin> set s"
  shows "py_replace (s @ t) old new = s @ py_replace t old new"
  using assms(2)
proof (induction s)
  case Nil
  then show ?case by simp
next
  case (Cons c cs)
  then show ?case using assms(1) by (simp add: py_replace_Cons_nomatch)
qed

lemma py_replace_match:
  assumes "old \<noteq> []"
  shows "py_replace (old @ t) old new = new @ py_replace t old new"
  using assms by (subst py_replace.simps) (cases old, auto)

subsection \<open>\<open>int()\<close> inverts \<open>str()\<close> on integers\<close>

lemmas [py_simps] = char_of_eq_iff

text \<open>The definitions that evaluate a query argument on a concrete text.\<close>

lemmas py_int_eval = arg_int_def py_int_def py_strip_def py_space_def is_digit_def digits_val_def

lemma dec_nat_digits: "\<forall>c \<in> set (dec_nat n). is_digit c"
proof (induction n rule: dec_nat.induct)
  case (1 n)
  then show ?case by (subst dec_nat.simps) (auto simp: is_digit_def)
qed

lemma dec_nat_not_Nil: "dec_nat n \<noteq> []"
  by (subst dec_nat.simps) simp

lemma digits_ok_digits: "xs \<noteq> [] \<Longrightarrow> \<forall>c \<in> set xs. is_digit c \<Longrightarrow> digits_ok xs"
  by (induction xs rule: digits_ok.induct) (auto simp: is_digit_def)

lemma digits_val_dec_nat: "digits_val (dec_nat n) = n"
proof -
  have "foldl (\<lambda>acc c. 10 * acc + (of_char c - 48)) 0 (dec_nat n) = n"
  proof (induction n rule: dec_nat.induct)
    case (1 n)
    then show ?case by (subst dec_nat.simps) auto
  qed
  moreover have "filter is_digit (dec_nat n) = dec_nat n"
    using dec_nat_digits by (simp add: filter_id_conv)
  ultimately show ?thesis by (simp add: digits_val_def)
qed

lemma digit_not_space: "is_digit c \<Longrightarrow> \<not> py_space c"
  by (simp add: is_digit_def py_space_def Let_def)

lemma py_strip_id:
  assumes "xs \<noteq> []" and "\<not> py_space (hd xs)" and "\<not> py_space (last xs)"
  shows "py_strip xs = xs"
proof -
  have "dropWhile py_space xs = xs" using assms by (simp add: dropWhile_eq_self_iff)
  moreover have "dropWhile py_space (rev xs) = rev xs"
    using assms by (simp add: dropWhile_eq_self_iff hd_rev)
  ultimately show ?thesis by (simp add: py_strip_def)
qed

lemma py_int_dec_int: "py_int (dec_int i) = Some i"
proof -
  let ?d = "dec_nat (nat \<bar>i\<bar>)"
  have ne: "?d \<noteq> []" by (rule dec_nat_not_Nil)
  have dig: "\<forall>c \<in> set ?d. is_digit c" by (rule dec_nat_digits)
  have hd: "is_digit (hd ?d)" and lst: "is_digit (last ?d)"
    using ne dig by auto
  have ok: "digits_ok ?d" using ne dig by (rule digits_ok_digits)
  show ?thesis
  proof (cases "i < 0")
    case True
    have "\<not> py_space (CHR ''-'')" by (simp add: py_space_def)
    then have "py_strip (CHR ''-'' # ?d) = CHR ''-'' # ?d"
      using ne lst by (intro py_strip_id) (auto simp: digit_not_space)
    with True ok show ?thesis by (simp add: py_int_def dec_int_def digits_val_dec_nat)
  next
    case False
    have "py_strip ?d = ?d"
      using ne hd lst by (intro py_strip_id) (auto simp: digit_not_space)
    moreover have "hd ?d \<noteq> CHR ''-'' \<and> hd ?d \<noteq> CHR ''+''"
      using hd by (auto simp: is_digit_def)
    moreover obtain c cs where d: "?d = c # cs" using ne by (cases ?d) auto
    moreover have "digits_val (c # cs) = nat \<bar>i\<bar>"
      using digits_val_dec_nat d by metis
    ultimately show ?thesis using False ok by (simp add: py_int_def dec_int_def)
  qed
qed
lemma dec_int_of_nat: "dec_int (int n) = dec_nat n"
  by (simp add: dec_int_def)

lemma arg_int_dec_int: "arg_int (Some (dec_int i)) d = i"
  by (simp add: arg_int_def py_int_dec_int)

lemma arg_int_dec_nat: "arg_int (Some (dec_nat n)) d = int n"
  using arg_int_dec_int [of "int n" d] by (simp add: dec_int_of_nat)

subsection \<open>Query arguments\<close>


end
