(* ===== verification/HistoryFile.thy ===== *)
theory HistoryFile
  imports PyLang
begin

text \<open>
  The history file of \<^verbatim>\<open>app.py\<close> (lines 14--30): \<^verbatim>\<open>data/test_history.json\<close>,
  read whole by \<open>load_test_history\<close> and rewritten whole by \<open>save_test_history\<close>.
  Its contents are a value of \<open>hist_file\<close>; the outcome of a write is an input,
  as the program does not determine it.
\<close>

subsection \<open>Records and the file\<close>

text \<open>The dictionary built at lines 162--171, one field per key.\<close>

record test_record =
  model :: jval
  prompt :: jval
  response :: jval
  test_type :: jval
  local_time :: jval
  local_hour :: jval
  use_mock :: jval
  response_time :: rat \<comment> \<open>seconds: the exact value of the float (\<open>0.5\<close> or \<open>total_seconds()\<close>)\<close>

text \<open>The stored record: the same dictionary with the keys \<open>id\<close> and \<open>timestamp\<close> added.\<close>

record entry = test_record +
  record_id :: string
  timestamp :: string

text \<open>
  The contents of the history file: absent; present but not readable as JSON (an
  empty or truncated file, bad permissions); a JSON array of records; or a JSON
  document of another kind (an object, a string, a number).
\<close>

datatype hist_file = NoFile | Garbled | ListDoc "entry list" | OtherDoc jval

datatype loaded = Loaded "entry list" | LoadedOther jval

text \<open>How the write of the file ends: \<open>open(.., 'w')\<close> fails (the file is untouched), or
  the file is truncated and \<open>json.dump\<close> fails part way (the file is left garbled).\<close>

datatype write_outcome = WriteOk | OpenFails string | DumpFails string

subsection \<open>Operations\<close>

definition load_test_history :: "hist_file \<Rightarrow> loaded" where
  "load_test_history f =
     (case f of
        NoFile \<Rightarrow> Loaded []
      | Garbled \<Rightarrow> Loaded []
      | ListDoc h \<Rightarrow> Loaded h
      | OtherDoc v \<Rightarrow> LoadedOther v)"

definition save_test_history :: "write_outcome \<Rightarrow> entry list \<Rightarrow> hist_file \<Rightarrow> (exc + unit) \<times> hist_file" where
  "save_test_history w h f =
     (case w of
        WriteOk \<Rightarrow> (Inr (), ListDoc h)
      | OpenFails m \<Rightarrow> (Inl (Exc OSError m), f)
      | DumpFails m \<Rightarrow> (Inl (Exc OSError m), Garbled))"

subsection \<open>Lemmas\<close>

lemma load_Loaded_cases:
  "load_test_history f = Loaded h \<longleftrightarrow>
     (f = NoFile \<and> h = []) \<or> (f = Garbled \<and> h = []) \<or> f = ListDoc h"
  by (cases f) (auto simp: load_test_history_def)

lemma save_load_roundtrip:
  "save_test_history WriteOk h f = (Inr (), ListDoc h)"
  "load_test_history (ListDoc h) = Loaded h"
  by (simp_all add: save_test_history_def load_test_history_def)

text \<open>
  C7: save and load. A completed save is read back unchanged by the next load; a save
  whose \<open>open\<close> fails leaves what was there to be read again; a save that fails
  after the truncation is read back as an empty history, whatever was written.
\<close>

theorem save_then_load:
  "load_test_history (snd (save_test_history w h f)) =
     (case w of WriteOk \<Rightarrow> Loaded h | OpenFails m \<Rightarrow> load_test_history f | DumpFails m \<Rightarrow> Loaded [])"
  by (cases w) (simp_all add: save_test_history_def load_test_history_def)

end
