(* ===== verification/HistoryStore.thy ===== *)
theory HistoryStore
  imports HistoryFile
begin

text \<open>
  The append of \<^verbatim>\<open>app.py\<close> (lines 32--44): \<open>add_test_record\<close> loads the
  history, stamps the record with a fresh id and the time, appends it, keeps the last
  100 records and saves the file (theory \<open>HistoryFile\<close>). The random id
  (\<open>str(uuid.uuid4())\<close>), the time stamp and the outcome of the write are inputs, as
  they are not determined by the program. Then the store's specification: at most 100
  records with distinct ids, the last 100 kept, oldest first.
\<close>

subsection \<open>Operations\<close>

definition stamp :: "test_record \<Rightarrow> string \<Rightarrow> string \<Rightarrow> entry" where
  "stamp r u t =
     \<lparr>model = model r, prompt = prompt r, response = response r, test_type = test_type r,
      local_time = local_time r, local_hour = local_hour r, use_mock = use_mock r,
      response_time = response_time r, record_id = u, timestamp = t\<rparr>"

definition add_test_record ::
  "test_record \<Rightarrow> string \<Rightarrow> string \<Rightarrow> write_outcome \<Rightarrow> hist_file \<Rightarrow> (exc + entry) \<times> hist_file" where
  "add_test_record r u t w f =
     (case load_test_history f of
        LoadedOther v \<Rightarrow> (Inl (no_attribute_error v ''append''), f)
      | Loaded h \<Rightarrow>
          (let e = stamp r u t;
               h1 = h @ [e];
               h2 = (if length h1 > 100 then py_slice h1 (Some (-100)) None else h1)
           in (case save_test_history w h2 f of
                 (Inl x, f') \<Rightarrow> (Inl x, f')
               | (Inr _, f') \<Rightarrow> (Inr e, f'))))"

subsection \<open>Specification\<close>

text \<open>
  What the store promises: the file, when it is an array, holds at most 100 records
  with pairwise distinct ids; appending keeps the last 100 records of the old history
  followed by the new one, oldest first.
\<close>

definition keep_last :: "nat \<Rightarrow> 'a list \<Rightarrow> 'a list" where
  "keep_last n xs = drop (length xs - n) xs"

definition stored_ok :: "hist_file \<Rightarrow> bool" where
  "stored_ok f = (case f of ListDoc h \<Rightarrow> length h \<le> 100 \<and> distinct (map record_id h) | _ \<Rightarrow> True)"

fun stored_ids :: "hist_file \<Rightarrow> string list" where
  "stored_ids (ListDoc h) = map record_id h"
| "stored_ids _ = []"

text \<open>Applying a sequence of requests, each writing successfully.\<close>

fun add_records :: "(test_record \<times> string \<times> string) list \<Rightarrow> hist_file \<Rightarrow> hist_file" where
  "add_records [] f = f"
| "add_records ((r, u, t) # rs) f = add_records rs (snd (add_test_record r u t WriteOk f))"

definition stamp_all :: "(test_record \<times> string \<times> string) list \<Rightarrow> entry list" where
  "stamp_all rs = map (\<lambda>(r, u, t). stamp r u t) rs"

text \<open>A request record used by the concrete instances below.\<close>

definition demo_record :: "string \<Rightarrow> test_record" where
  "demo_record p =
     \<lparr>model = JStr ''gpt-4'', prompt = JStr p, response = JStr ''ok'', test_type = JStr ''urge'',
      local_time = JNone, local_hour = JNone, use_mock = JBool True, response_time = 1 / 2\<rparr>"

subsection \<open>Lemmas\<close>

lemma keep_last_length [simp]: "length (keep_last n xs) = min n (length xs)"
  by (simp add: keep_last_def)

lemma keep_last_snoc: "0 < n \<Longrightarrow> keep_last n (xs @ [x]) = keep_last (n - 1) xs @ [x]"
  by (simp add: keep_last_def drop_last_snoc)

lemma keep_last_short [simp]: "length xs \<le> n \<Longrightarrow> keep_last n xs = xs"
  by (simp add: keep_last_def)

lemma keep_last_set: "set (keep_last n xs) \<subseteq> set xs"
  by (simp add: keep_last_def set_drop_subset)

lemma distinct_keep_last: "distinct xs \<Longrightarrow> distinct (keep_last n xs)"
  by (simp add: keep_last_def distinct_drop)

lemma map_keep_last: "map f (keep_last n xs) = keep_last n (map f xs)"
  by (simp add: keep_last_def drop_map)

text \<open>The trimming of lines 40--41 is \<open>keep_last 100\<close>.\<close>

lemma trim_is_keep_last:
  "(if length xs > 100 then py_slice xs (Some (-100)) None else xs) = keep_last 100 xs"
  using py_slice_suffix [of 100 xs] by (simp add: keep_last_def)

lemma stamp_fields [simp]:
  "record_id (stamp r u t) = u" "timestamp (stamp r u t) = t"
  "test_record.truncate (stamp r u t) = r"
  by (simp_all add: stamp_def test_record.truncate_def)

lemma add_test_record_Loaded:
  assumes "load_test_history f = Loaded h"
  shows "add_test_record r u t w f =
           (case save_test_history w (keep_last 100 (h @ [stamp r u t])) f of
              (Inl x, f') \<Rightarrow> (Inl x, f') | (Inr _, f') \<Rightarrow> (Inr (stamp r u t), f'))"
  using assms by (simp add: add_test_record_def Let_def trim_is_keep_last del: keep_last_short)

lemma add_test_record_Inr:
  assumes "add_test_record r u t w f = (Inr x, f')"
  shows "\<exists>h. load_test_history f = Loaded h \<and> w = WriteOk \<and> x = stamp r u t \<and>
             f' = ListDoc (keep_last 100 (h @ [stamp r u t]))"
proof (cases "load_test_history f")
  case (Loaded h)
  then show ?thesis using assms
    by (cases w) (auto simp: add_test_record_Loaded save_test_history_def)
next
  case (LoadedOther v)
  then show ?thesis using assms by (simp add: add_test_record_def)
qed

lemma last_keep_last [simp]: "0 < n \<Longrightarrow> xs \<noteq> [] \<Longrightarrow> last (keep_last n xs) = last xs"
  by (simp add: keep_last_def)

lemma keep_last_keep_last_append:
  assumes "n \<le> m"
  shows "keep_last n (keep_last m xs @ ys) = keep_last n (xs @ ys)"
proof -
  have "length xs + length ys - (length xs - m + n) + (length xs - m) = length xs + length ys - n"
    using assms by arith
  then show ?thesis by (auto simp: keep_last_def drop_append min_def)
qed

lemma stamp_all_simps [simp]:
  "stamp_all [] = []" "stamp_all ((r, u, t) # rs) = stamp r u t # stamp_all rs"
  "map record_id (stamp_all rs) = map (\<lambda>(r, u, t). u) rs"
  by (auto simp: stamp_all_def)

subsection \<open>Properties of \<open>add_test_record\<close>\<close>

lemma add_test_record_ok:
  assumes "load_test_history f = Loaded h"
  shows "add_test_record r u t WriteOk f =
           (Inr (stamp r u t), ListDoc (keep_last 100 (h @ [stamp r u t])))"
  using add_test_record_Loaded [OF assms] by (simp add: save_load_roundtrip)

lemma add_test_record_evicts_oldest:
  assumes "load_test_history f = Loaded h" and "length h = 100"
  shows "add_test_record r u t WriteOk f = (Inr (stamp r u t), ListDoc (tl h @ [stamp r u t]))"
proof -
  have "keep_last 100 (h @ [stamp r u t]) = drop 1 h @ [stamp r u t]"
    using assms(2) by (simp add: keep_last_def)
  then show ?thesis using add_test_record_ok [OF assms(1)] by (simp add: drop_Suc)
qed

lemma add_test_record_not_list:
  "add_test_record r u t w (OtherDoc v) = (Inl (no_attribute_error v ''append''), OtherDoc v)"
  by (simp add: add_test_record_def load_test_history_def)

lemma add_test_record_open_fails:
  assumes "load_test_history f = Loaded h"
  shows "add_test_record r u t (OpenFails m) f = (Inl (Exc OSError m), f)"
  using add_test_record_Loaded [OF assms] by (simp add: save_test_history_def)

lemma add_test_record_dump_fails:
  assumes "load_test_history f = Loaded h"
  shows "add_test_record r u t (DumpFails m) f = (Inl (Exc OSError m), Garbled)"
  using add_test_record_Loaded [OF assms] by (simp add: save_test_history_def)

lemma stored_ok_keep_last:
  assumes "distinct (map record_id h)" and "record_id e \<notin> set (map record_id h)"
  shows "stored_ok (ListDoc (keep_last 100 (h @ [e])))"
  using assms by (simp add: stored_ok_def map_keep_last distinct_keep_last)

lemma stored_ok_Loaded:
  "stored_ok f \<Longrightarrow> load_test_history f = Loaded h \<Longrightarrow> distinct (map record_id h)"
  by (auto simp: load_Loaded_cases stored_ok_def)

lemma stored_ids_Loaded:
  "load_test_history f = Loaded h \<Longrightarrow> stored_ids f = map record_id h"
  by (auto simp: load_Loaded_cases)

lemma add_test_record_stored_ok:
  assumes "stored_ok f" and "u \<notin> set (stored_ids f)"
  shows "stored_ok (snd (add_test_record r u t w f))"
proof (cases "load_test_history f")
  case (Loaded h)
  have "stored_ok (ListDoc (keep_last 100 (h @ [stamp r u t])))"
    using assms stored_ok_Loaded [OF assms(1) Loaded] stored_ids_Loaded [OF Loaded]
    by (intro stored_ok_keep_last) auto
  with assms(1) show ?thesis
    by (cases w) (simp_all add: add_test_record_Loaded [OF Loaded] save_test_history_def stored_ok_def)
next
  case (LoadedOther v)
  with assms(1) show ?thesis by (simp add: add_test_record_def)
qed

text \<open>
  C6: requests handled one after another, each writing successfully, leave in the file
  the last 100 of the old records followed by the new ones, oldest first.
\<close>

theorem sequential_appends_keep_last:
  assumes "load_test_history f = Loaded h" and "rs \<noteq> []"
  shows "add_records rs f = ListDoc (keep_last 100 (h @ stamp_all rs))"
  using assms
proof (induction rs arbitrary: f h)
  case Nil
  then show ?case by simp
next
  case (Cons x rs)
  obtain r u t where x: "x = (r, u, t)" by (cases x) auto
  let ?h' = "keep_last 100 (h @ [stamp r u t])"
  have step: "snd (add_test_record r u t WriteOk f) = ListDoc ?h'"
    using add_test_record_ok [OF Cons.prems(1)] by simp
  show ?case
  proof (cases "rs = []")
    case True
    with x step show ?thesis by simp
  next
    case False
    have "add_records rs (ListDoc ?h') = ListDoc (keep_last 100 (?h' @ stamp_all rs))"
      using Cons.IH [OF _ False] by (simp add: save_load_roundtrip)
    with x step show ?thesis by (simp add: keep_last_keep_last_append)
  qed
qed

subsection \<open>Properties of the store\<close>

text \<open>
  C1: a successful append returns the record stamped with the drawn id and time, and
  writes back the most recent (at most 99) records of the old history followed by the
  new record, so the file holds \<open>min 100 (n + 1)\<close> records.
\<close>

theorem add_test_record_appends:
  assumes "load_test_history f = Loaded h"
  shows "\<exists>h'. add_test_record r u t WriteOk f = (Inr (stamp r u t), ListDoc h') \<and>
              length h' = min 100 (length h + 1) \<and> butlast h' = keep_last 99 h \<and>
              last h' = stamp r u t"
proof -
  have "keep_last 100 (h @ [stamp r u t]) = keep_last 99 h @ [stamp r u t]"
    by (simp add: keep_last_snoc)
  then show ?thesis using add_test_record_ok [OF assms] by auto
qed

theorem add_test_record_appends_witness:
  "load_test_history (ListDoc [stamp (demo_record ''a'') ''id-1'' ''t1'']) =
     Loaded [stamp (demo_record ''a'') ''id-1'' ''t1''] \<and>
   (\<exists>h'. add_test_record (demo_record ''b'') ''id-2'' ''t2'' WriteOk
            (ListDoc [stamp (demo_record ''a'') ''id-1'' ''t1'']) =
          (Inr (stamp (demo_record ''b'') ''id-2'' ''t2''), ListDoc h') \<and>
        length h' = 2 \<and> butlast h' = [stamp (demo_record ''a'') ''id-1'' ''t1''] \<and>
        last h' = stamp (demo_record ''b'') ''id-2'' ''t2'')"
  using add_test_record_appends [of "ListDoc [stamp (demo_record ''a'') ''id-1'' ''t1'']"
      "[stamp (demo_record ''a'') ''id-1'' ''t1'']" "demo_record ''b''" "''id-2''" "''t2''"]
  by (simp add: save_load_roundtrip numeral_2_eq_2)

text \<open>
  C2: the store invariant. Whatever the outcome of the write, an append keeps the file
  at 100 records or fewer with pairwise distinct ids, provided the drawn id is not
  already stored.
\<close>

theorem add_test_record_preserves_stored_ok:
  assumes "stored_ok f" and "u \<notin> set (stored_ids f)"
  shows "stored_ok (snd (add_test_record r u t w f))"
  using assms by (rule add_test_record_stored_ok)

theorem add_test_record_preserves_stored_ok_witness:
  "stored_ok (ListDoc [stamp (demo_record ''a'') ''id-1'' ''t1'']) \<and>
   ''id-2'' \<notin> set (stored_ids (ListDoc [stamp (demo_record ''a'') ''id-1'' ''t1''])) \<and>
   stored_ok (snd (add_test_record (demo_record ''b'') ''id-2'' ''t2'' WriteOk
                     (ListDoc [stamp (demo_record ''a'') ''id-1'' ''t1''])))"
proof -
  have ok: "stored_ok (ListDoc [stamp (demo_record ''a'') ''id-1'' ''t1''])"
    by (simp add: stored_ok_def)
  have fresh: "''id-2'' \<notin> set (stored_ids (ListDoc [stamp (demo_record ''a'') ''id-1'' ''t1'']))"
    by simp
  show ?thesis
    using ok fresh add_test_record_preserves_stored_ok [OF ok fresh] by simp
qed

text \<open>
  C3: FIFO eviction. When the file already holds 100 records, a successful append drops
  exactly the oldest one.
\<close>

theorem add_test_record_evicts_oldest_at_capacity:
  assumes "load_test_history f = Loaded h" and "length h = 100"
  shows "add_test_record r u t WriteOk f = (Inr (stamp r u t), ListDoc (tl h @ [stamp r u t]))"
  using assms by (rule add_test_record_evicts_oldest)

theorem add_test_record_evicts_oldest_at_capacity_witness:
  "load_test_history (ListDoc (map (\<lambda>i. stamp (demo_record ''p'') (dec_nat i) ''t'') [0..<100])) =
     Loaded (map (\<lambda>i. stamp (demo_record ''p'') (dec_nat i) ''t'') [0..<100]) \<and>
   length (map (\<lambda>i. stamp (demo_record ''p'') (dec_nat i) ''t'') [0..<100]) = 100 \<and>
   add_test_record (demo_record ''q'') ''new'' ''t'' WriteOk
     (ListDoc (map (\<lambda>i. stamp (demo_record ''p'') (dec_nat i) ''t'') [0..<100])) =
   (Inr (stamp (demo_record ''q'') ''new'' ''t''),
    ListDoc (map (\<lambda>i. stamp (demo_record ''p'') (dec_nat i) ''t'') [1..<100] @
             [stamp (demo_record ''q'') ''new'' ''t'']))"
proof -
  let ?h = "map (\<lambda>i. stamp (demo_record ''p'') (dec_nat i) ''t'') [0..<100]"
  have l: "load_test_history (ListDoc ?h) = Loaded ?h" by (simp add: save_load_roundtrip)
  have n: "length ?h = 100" by simp
  have tl: "tl ?h = map (\<lambda>i. stamp (demo_record ''p'') (dec_nat i) ''t'') [1..<100]"
    by (simp add: upt_rec map_tl)
  show ?thesis
    using l n add_test_record_evicts_oldest_at_capacity [OF l n, of "demo_record ''q''" "''new''" "''t''"]
    by (simp only: tl)
qed

text \<open>
  C4: error paths of \<open>add_test_record\<close>. A history document that is not a JSON array
  makes \<open>history.append\<close> raise \<open>AttributeError\<close>; an \<open>open\<close> that fails raises
  \<open>OSError\<close>. In both cases the file is left as it was.
\<close>

theorem add_test_record_failures_keep_file:
  "add_test_record r u t w (OtherDoc v) = (Inl (no_attribute_error v ''append''), OtherDoc v) \<and>
   (load_test_history f = Loaded h \<longrightarrow>
      add_test_record r u t (OpenFails m) f = (Inl (Exc OSError m), f))"
  using add_test_record_not_list add_test_record_open_fails by blast

theorem add_test_record_failures_keep_file_witness:
  "add_test_record (demo_record ''a'') ''i'' ''t'' WriteOk (OtherDoc (JDict [])) =
     (Inl (no_attribute_error (JDict []) ''append''), OtherDoc (JDict [])) \<and>
   load_test_history NoFile = Loaded [] \<and>
   add_test_record (demo_record ''a'') ''i'' ''t'' (OpenFails ''Permission denied'') NoFile =
     (Inl (Exc OSError ''Permission denied''), NoFile)"
  using add_test_record_failures_keep_file [of "demo_record ''a''" "''i''" "''t''" WriteOk "JDict []"
      NoFile "[]" "''Permission denied''"]
  by (simp add: load_test_history_def)

text \<open>
  C5: a write that fails after \<open>open(.., 'w')\<close> has truncated the file leaves it
  unreadable; the next load treats it as an empty history, so the next successful
  append writes a file holding the new record only: every earlier record is lost.
\<close>

theorem dump_failure_loses_history:
  assumes "load_test_history f = Loaded h"
  shows "add_test_record r u t (DumpFails m) f = (Inl (Exc OSError m), Garbled) \<and>
         add_test_record r' u' t' WriteOk Garbled = (Inr (stamp r' u' t'), ListDoc [stamp r' u' t'])"
proof -
  have "load_test_history Garbled = Loaded []" by (simp add: load_test_history_def)
  from add_test_record_ok [OF this] show ?thesis
    using add_test_record_dump_fails [OF assms] by simp
qed

theorem dump_failure_loses_history_witness:
  "load_test_history (ListDoc [stamp (demo_record ''a'') ''id-1'' ''t1'']) =
     Loaded [stamp (demo_record ''a'') ''id-1'' ''t1''] \<and>
   add_test_record (demo_record ''b'') ''id-2'' ''t2'' (DumpFails ''No space left on device'')
     (ListDoc [stamp (demo_record ''a'') ''id-1'' ''t1'']) =
     (Inl (Exc OSError ''No space left on device''), Garbled) \<and>
   add_test_record (demo_record ''c'') ''id-3'' ''t3'' WriteOk Garbled =
     (Inr (stamp (demo_record ''c'') ''id-3'' ''t3''), ListDoc [stamp (demo_record ''c'') ''id-3'' ''t3''])"
  using dump_failure_loses_history [of "ListDoc [stamp (demo_record ''a'') ''id-1'' ''t1'']"
      "[stamp (demo_record ''a'') ''id-1'' ''t1'']" "demo_record ''b''" "''id-2''" "''t2''"
      "''No space left on device''" "demo_record ''c''" "''id-3''" "''t3''"]
  by (simp add: save_load_roundtrip)

text \<open>
  The scenario of 101 records appended one after another to an empty store, which
  keeps exactly the last 100.
\<close>

theorem append_101_records:
  "load_test_history NoFile = Loaded [] \<and>
   map (\<lambda>i. (demo_record (dec_nat i), dec_nat i, ''t'')) [0..<101] \<noteq> [] \<and>
   add_records (map (\<lambda>i. (demo_record (dec_nat i), dec_nat i, ''t'')) [0..<101]) NoFile =
   ListDoc (map (\<lambda>i. stamp (demo_record (dec_nat i)) (dec_nat i) ''t'') [1..<101])"
proof -
  let ?rs = "map (\<lambda>i. (demo_record (dec_nat i), dec_nat i, ''t'')) [0..<101]"
  have l: "load_test_history NoFile = Loaded []" by (simp add: load_test_history_def)
  have ne: "?rs \<noteq> []" by simp
  have "keep_last 100 ([] @ stamp_all ?rs) =
        map (\<lambda>i. stamp (demo_record (dec_nat i)) (dec_nat i) ''t'') [1..<101]"
    by (simp add: keep_last_def stamp_all_def drop_map)
  then show ?thesis using l ne sequential_appends_keep_last [OF l ne] by simp
qed

end
