(* ===== verification/MockResponder.thy ===== *)
theory MockResponder
  imports PyLang
begin

text \<open>
  \<open>generate_mock_response\<close> (\<^verbatim>\<open>app.py\<close> lines 229--259): a table from model to
  type to canned text, built with f-strings in which \<open>{local_time or "..."}\<close> is
  replaced by the time the client sent or by a fallback phrase; a lookup of the model
  (falling back to the Gemma entry) and of the type (falling back to a default text);
  and, when a time was sent, \<open>str.replace('{local_time}', local_time)\<close> on the result.
  The texts are written as in the source: ASCII runs as literals, the other characters
  by their Unicode code points (\<open>utf8\<close>).
\<close>

subsection \<open>The canned texts (lines 233--248, 253)\<close>

definition gemma_urge :: "string \<Rightarrow> string" where
  "gemma_urge t =
     ''[Gemma'' @ utf8 [0x6A21, 0x62DF] @ ''] '' @ utf8 [0x73B0, 0x5728, 0x5DF2, 0x7ECF] @ t
     @ utf8 [0x4E86, 0xFF0C, 0x591C, 0x6DF1, 0x4E86, 0x3002, 0x8003, 0x8651, 0x5230, 0x60A8,
     0x9700, 0x8981, 0x5145, 0x8DB3, 0x7684, 0x7761, 0x7720, 0xFF0C, 0x5EFA, 0x8BAE, 0x60A8,
     0x5F00, 0x59CB, 0x51C6, 0x5907, 0x4F11, 0x606F, 0x3002, 0x53EF, 0x4EE5, 0x5148, 0x505A,
     0x51E0, 0x4E2A, 0x6DF1, 0x547C, 0x5438, 0xFF0C, 0x653E, 0x677E, 0x4E00, 0x4E0B, 0x7D27,
     0x5F20, 0x7684, 0x5FC3, 0x60C5, 0xFF0C, 0x6709, 0x52A9, 0x4E8E, 0x66F4, 0x5FEB, 0x5165,
     0x7761, 0x3002]"

definition gemma_urge_fallback :: string where
  "gemma_urge_fallback = utf8 [0x6DF1, 0x591C]"

definition gemma_praise :: string where
  "gemma_praise =
     ''[Gemma'' @ utf8 [0x6A21, 0x62DF] @ ''] '' @ utf8 [0x505A, 0x5F97, 0x975E, 0x5E38,
     0x597D, 0xFF01, 0x51B3, 0x5B9A, 0x65E9, 0x7761, 0x662F, 0x5BF9, 0x81EA, 0x5DF1, 0x5065,
     0x5EB7, 0x8D1F, 0x8D23, 0x7684, 0x8868, 0x73B0, 0x3002, 0x826F, 0x597D, 0x7684, 0x7761,
     0x7720, 0x4F1A, 0x8BA9, 0x60A8, 0x660E, 0x5929, 0x7CBE, 0x529B, 0x5145, 0x6C9B, 0xFF0C,
     0x5FC3, 0x60C5, 0x6109, 0x5FEB, 0x3002, 0x795D, 0x60A8, 0x6709, 0x4E2A, 0x7F8E, 0x597D,
     0x7684, 0x68A6, 0xFF01]"

definition llama_urge :: "string \<Rightarrow> string" where
  "llama_urge t =
     ''[Llama'' @ utf8 [0x6A21, 0x62DF] @ ''] '' @ utf8 [0x65F6, 0x95F4, 0x4E0D, 0x65E9,
     0x4E86, 0xFF0C, 0x5DF2, 0x7ECF] @ t @ utf8 [0x3002, 0x4E3A, 0x4E86, 0x60A8, 0x7684,
     0x8EAB, 0x5FC3, 0x5065, 0x5EB7, 0xFF0C, 0x5EFA, 0x8BAE, 0x60A8, 0x73B0, 0x5728, 0x653E,
     0x4E0B, 0x624B, 0x4E2D, 0x7684, 0x4E8B, 0x60C5, 0xFF0C, 0x51C6, 0x5907, 0x4F11, 0x606F,
     0x3002, 0x9002, 0x5F53, 0x7684, 0x4F11, 0x606F, 0x80FD, 0x63D0, 0x9AD8, 0x660E, 0x5929,
     0x7684, 0x5DE5, 0x4F5C, 0x6548, 0x7387, 0x3002]"

definition llama_urge_fallback :: string where
  "llama_urge_fallback = utf8 [0x5F88, 0x665A]"

definition llama_praise :: string where
  "llama_praise =
     ''[Llama'' @ utf8 [0x6A21, 0x62DF] @ ''] '' @ utf8 [0x5F88, 0x68D2, 0x7684, 0x9009,
     0x62E9, 0xFF01, 0x65E9, 0x7761, 0x65E9, 0x8D77, 0x8EAB, 0x4F53, 0x597D, 0x3002, 0x60A8,
     0x6B63, 0x5728, 0x517B, 0x6210, 0x4E00, 0x4E2A, 0x5065, 0x5EB7, 0x7684, 0x751F, 0x6D3B,
     0x4E60, 0x60EF, 0xFF0C, 0x8FD9, 0x5C06, 0x5BF9, 0x60A8, 0x7684, 0x957F, 0x671F, 0x5065,
     0x5EB7, 0x5927, 0x6709, 0x88E8, 0x76CA, 0x3002, 0x665A, 0x5B89, 0xFF01]"

definition gpt4_urge :: "string \<Rightarrow> string" where
  "gpt4_urge t =
     ''[GPT-4'' @ utf8 [0x6A21, 0x62DF] @ ''] '' @ utf8 [0x6839, 0x636E, 0x65F6, 0x95F4] @ t
     @ utf8 [0xFF0C, 0x73B0, 0x5728, 0x662F, 0x8FDB, 0x5165, 0x7761, 0x7720, 0x6A21, 0x5F0F,
     0x7684, 0x7406, 0x60F3, 0x65F6, 0x673A, 0x3002, 0x6211, 0x5EFA, 0x8BAE, 0x60A8, 0x8FDB,
     0x884C, 0x4E00, 0x4E2A, 0x7B80, 0x77ED, 0x7684, 0x7761, 0x524D, 0x4EEA, 0x5F0F, 0xFF1A,
     0x8C03, 0x6697, 0x706F, 0x5149, 0x3001, 0x907F, 0x514D, 0x7535, 0x5B50, 0x8BBE, 0x5907,
     0x3001, 0x505A, 0x4E00, 0x4E9B, 0x8F7B, 0x67D4, 0x7684, 0x4F38, 0x5C55, 0x3002]"

definition gpt4_urge_fallback :: string where
  "gpt4_urge_fallback = utf8 [0x663E, 0x793A]"

definition gpt4_praise :: string where
  "gpt4_praise =
     ''[GPT-4'' @ utf8 [0x6A21, 0x62DF] @ ''] '' @ utf8 [0x6781, 0x597D, 0x7684, 0x51B3,
     0x5B9A, 0xFF01] @ '' prioritize sleep '' @ utf8 [0x662F, 0x5BF9, 0x4E2A, 0x4EBA,
     0x5065, 0x5EB7, 0x548C, 0x5E78, 0x798F, 0x7684, 0x91CD, 0x8981, 0x6295, 0x8D44, 0x3002,
     0x60A8, 0x4F1A, 0x6CE8, 0x610F, 0x5230, 0x660E, 0x5929, 0x7684, 0x8BA4, 0x77E5, 0x529F,
     0x80FD, 0x548C, 0x60C5, 0x7EEA, 0x72B6, 0x6001, 0x90FD, 0x6709, 0x663E, 0x8457, 0x6539,
     0x5584, 0x3002]"

definition claude_urge :: "string \<Rightarrow> string" where
  "claude_urge t =
     ''[Claude'' @ utf8 [0x6A21, 0x62DF] @ ''] '' @ utf8 [0x6CE8, 0x610F, 0x5230, 0x73B0,
     0x5728, 0x662F] @ t @ utf8 [0x3002, 0x4F5C, 0x4E3A, 0x60A8, 0x7684, 0x7761, 0x7720,
     0x52A9, 0x624B, 0xFF0C, 0x6211, 0x60F3, 0x63D0, 0x9192, 0x60A8, 0xFF0C, 0x5145, 0x8DB3,
     0x7684, 0x7761, 0x7720, 0x5BF9, 0x4E8E, 0x4FDD, 0x6301, 0x8EAB, 0x4F53, 0x548C, 0x5FC3,
     0x7406, 0x5065, 0x5EB7, 0x81F3, 0x5173, 0x91CD, 0x8981, 0x3002]"

definition claude_urge_fallback :: string where
  "claude_urge_fallback = utf8 [0x4F11, 0x606F, 0x65F6, 0x95F4]"

definition claude_praise :: string where
  "claude_praise =
     ''[Claude'' @ utf8 [0x6A21, 0x62DF] @ ''] '' @ utf8 [0x6211, 0x5F88, 0x6B23, 0x8D4F,
     0x60A8, 0x9009, 0x62E9, 0x73B0, 0x5728, 0x4F11, 0x606F, 0x3002, 0x8FD9, 0x79CD, 0x81EA,
     0x89C9, 0x7684, 0x7761, 0x7720, 0x4E60, 0x60EF, 0x5C55, 0x73B0, 0x4E86, 0x60A8, 0x7684,
     0x667A, 0x6167, 0x548C, 0x5BF9, 0x5065, 0x5EB7, 0x7684, 0x91CD, 0x89C6, 0x3002, 0x60A8,
     0x4F1A, 0x4E3A, 0x6B64, 0x611F, 0x5230, 0x6EE1, 0x610F, 0x7684, 0x3002]"

definition mock_default :: string where
  "mock_default = ''['' @ utf8 [0x9ED8, 0x8BA4, 0x6A21, 0x62DF] @ ''] '' @ utf8 [0x8BE5, 0x4F11, 0x606F, 0x4E86, 0xFF0C, 0x665A, 0x5B89, 0xFF01]"


subsection \<open>The resolver\<close>

text \<open>\<open>{v or d}\<close> in an f-string: \<open>str(v)\<close> when \<open>v\<close> is truthy, else \<open>d\<close>.\<close>

definition fmt_or :: "jval \<Rightarrow> string \<Rightarrow> string" where
  "fmt_or v d = (if truthy v then py_str v else d)"

text \<open>The dictionary \<open>responses\<close> of lines 232--249, built for the given time.\<close>

definition mock_responses :: "jval \<Rightarrow> (string \<times> (string \<times> string) list) list" where
  "mock_responses lt =
     [(''@cf/google/gemma-3-12b-it'',
         [(''urge'', gemma_urge (fmt_or lt gemma_urge_fallback)), (''praise'', gemma_praise)]),
      (''@cf/meta/llama-3.1-8b-instruct'',
         [(''urge'', llama_urge (fmt_or lt llama_urge_fallback)), (''praise'', llama_praise)]),
      (''gpt-4'',
         [(''urge'', gpt4_urge (fmt_or lt gpt4_urge_fallback)), (''praise'', gpt4_praise)]),
      (''claude-3-sonnet'',
         [(''urge'', claude_urge (fmt_or lt claude_urge_fallback)), (''praise'', claude_praise)])]"

text \<open>
  \<open>d.get(k, dflt)\<close> on a dictionary with string keys: an unhashable key (a list or a
  dictionary) raises \<open>TypeError\<close>; a key of another type is never equal to a string.
\<close>

definition py_dict_get :: "jval \<Rightarrow> (string \<times> 'a) list \<Rightarrow> 'a \<Rightarrow> exc + 'a" where
  "py_dict_get k d dflt =
     (if hashable k then
        (case k of
           JStr s \<Rightarrow> (case map_of d s of Some v \<Rightarrow> Inr v | None \<Rightarrow> Inr dflt)
         | _ \<Rightarrow> Inr dflt)
      else Inl (unhashable_error k))"

definition replace_arg_error :: "jval \<Rightarrow> exc" where
  "replace_arg_error v =
     Exc TypeError (''replace() argument 2 must be str, not '' @ py_type_name v)"

definition generate_mock_response :: "jval \<Rightarrow> jval \<Rightarrow> jval \<Rightarrow> jval \<Rightarrow> exc + string" where
  "generate_mock_response model test_type local_time local_hour =
     (let responses = mock_responses local_time
      in case py_dict_get model responses (the (map_of responses ''@cf/google/gemma-3-12b-it'')) of
           Inl e \<Rightarrow> Inl e
         | Inr model_responses \<Rightarrow>
             (case py_dict_get test_type model_responses mock_default of
                Inl e \<Rightarrow> Inl e
              | Inr default_response \<Rightarrow>
                  (if truthy local_time then
                     (case local_time of
                        JStr s \<Rightarrow> Inr (py_replace default_response ''{local_time}'' s)
                      | _ \<Rightarrow> Inl (replace_arg_error local_time))
                   else Inr default_response)))"

text \<open>
  What the spec describes: the template chosen by the two lookups, with the time put
  in by the f-string, and no further replacement.
\<close>

definition mock_lookup :: "jval \<Rightarrow> jval \<Rightarrow> jval \<Rightarrow> exc + string" where
  "mock_lookup model test_type local_time =
     (let responses = mock_responses local_time
      in case py_dict_get model responses (the (map_of responses ''@cf/google/gemma-3-12b-it'')) of
           Inl e \<Rightarrow> Inl e
         | Inr model_responses \<Rightarrow> py_dict_get test_type model_responses mock_default)"

subsection \<open>Lemmas\<close>

lemmas mock_text_defs = gemma_urge_def gemma_urge_fallback_def gemma_praise_def
  llama_urge_def llama_urge_fallback_def llama_praise_def gpt4_urge_def gpt4_urge_fallback_def
  gpt4_praise_def claude_urge_def claude_urge_fallback_def claude_praise_def mock_default_def

lemma brace_notin_utf8 [simp]:
  "list_all (\<lambda>c. 128 \<le> c \<and> c < 0x110000) cs \<Longrightarrow> CHR ''{'' \<notin> set (utf8 cs)"
  by (rule ascii_notin_utf8) (simp_all add: list_all_iff)

text \<open>No canned text holds a brace, so none holds the placeholder \<open>{local_time}\<close>.\<close>

lemma mock_texts_brace_free:
  "CHR ''{'' \<notin> set gemma_praise" "CHR ''{'' \<notin> set llama_praise"
  "CHR ''{'' \<notin> set gpt4_praise" "CHR ''{'' \<notin> set claude_praise"
  "CHR ''{'' \<notin> set mock_default"
  "CHR ''{'' \<notin> set gemma_urge_fallback" "CHR ''{'' \<notin> set llama_urge_fallback"
  "CHR ''{'' \<notin> set gpt4_urge_fallback" "CHR ''{'' \<notin> set claude_urge_fallback"
  by (simp_all add: mock_text_defs)

lemma mock_urge_brace_free:
  "CHR ''{'' \<notin> set t \<Longrightarrow> CHR ''{'' \<notin> set (gemma_urge t)"
  "CHR ''{'' \<notin> set t \<Longrightarrow> CHR ''{'' \<notin> set (llama_urge t)"
  "CHR ''{'' \<notin> set t \<Longrightarrow> CHR ''{'' \<notin> set (gpt4_urge t)"
  "CHR ''{'' \<notin> set t \<Longrightarrow> CHR ''{'' \<notin> set (claude_urge t)"
  by (simp_all add: mock_text_defs)

lemma fmt_or_JStr_brace_free:
  "CHR ''{'' \<notin> set s \<Longrightarrow> CHR ''{'' \<notin> set d \<Longrightarrow> CHR ''{'' \<notin> set (fmt_or (JStr s) d)"
  by (simp add: fmt_or_def)

lemma mock_responses_brace_free:
  assumes "CHR ''{'' \<notin> set s"
  shows "\<forall>(k, tbl) \<in> set (mock_responses (JStr s)). \<forall>(ty, r) \<in> set tbl. CHR ''{'' \<notin> set r"
  using assms by (simp add: mock_responses_def mock_texts_brace_free mock_urge_brace_free
                             fmt_or_JStr_brace_free)

lemma py_dict_get_Inr:
  "py_dict_get k d dflt = Inr v \<Longrightarrow> v = dflt \<or> v \<in> snd ` set d"
  by (auto simp: py_dict_get_def split: if_splits jval.splits option.splits
           dest: map_of_SomeD intro: rev_image_eqI)

lemma mock_lookup_brace_free:
  assumes "mock_lookup m ty (JStr s) = Inr r" and "CHR ''{'' \<notin> set s"
  shows "CHR ''{'' \<notin> set r"
proof -
  let ?R = "mock_responses (JStr s)"
  have tbl: "\<forall>(k, tbl) \<in> set ?R. \<forall>(ty, r) \<in> set tbl. CHR ''{'' \<notin> set r"
    by (rule mock_responses_brace_free [OF assms(2)])
  obtain mr where mr: "py_dict_get m ?R (the (map_of ?R ''@cf/google/gemma-3-12b-it'')) = Inr mr"
    and r: "py_dict_get ty mr mock_default = Inr r"
    using assms(1) by (auto simp: mock_lookup_def Let_def split: sum.splits)
  have "mr \<in> snd ` set ?R"
    using py_dict_get_Inr [OF mr] by (auto simp: mock_responses_def)
  then obtain k where k: "(k, mr) \<in> set ?R" by auto
  have "\<forall>(ty, r) \<in> set mr. CHR ''{'' \<notin> set r" using bspec [OF tbl k] by simp
  then show ?thesis
    using py_dict_get_Inr [OF r] mock_texts_brace_free(5) by auto
qed

text \<open>The resolver is the lookup followed by the replacement of the placeholder.\<close>

lemma generate_via_lookup:
  "generate_mock_response m ty lt lh =
     (case mock_lookup m ty lt of
        Inl e \<Rightarrow> Inl e
      | Inr r \<Rightarrow>
          (if truthy lt then
             (case lt of JStr s \<Rightarrow> Inr (py_replace r ''{local_time}'' s) | _ \<Rightarrow> Inl (replace_arg_error lt))
           else Inr r))"
  by (simp add: generate_mock_response_def mock_lookup_def Let_def split: sum.split)

lemma generate_eq_lookup_falsy:
  "\<not> truthy lt \<Longrightarrow> generate_mock_response m ty lt lh = mock_lookup m ty lt"
  by (simp add: generate_via_lookup split: sum.split)

lemma generate_eq_lookup_no_brace:
  assumes "CHR ''{'' \<notin> set s"
  shows "generate_mock_response m ty (JStr s) lh = mock_lookup m ty (JStr s)"
proof (cases "mock_lookup m ty (JStr s)")
  case (Inl e)
  then show ?thesis by (simp add: generate_via_lookup)
next
  case (Inr r)
  have "CHR ''{'' \<notin> set r" by (rule mock_lookup_brace_free [OF Inr assms])
  then have "py_replace r ''{local_time}'' s = r" by (intro py_replace_absent) simp_all
  with Inr show ?thesis by (simp add: generate_via_lookup)
qed

lemmas mock_eval = mock_lookup_def mock_responses_def py_dict_get_def fmt_or_def

subsection \<open>Properties of the mock resolver\<close>

text \<open>
  The spec's scenario. In mock mode, model Gemma, type \<open>urge\<close> and local time
  \<open>23:30\<close> give the Gemma urge text with the time put in its place.
\<close>

theorem mock_gemma_urge_scenario:
  "generate_mock_response (JStr ''@cf/google/gemma-3-12b-it'') (JStr ''urge'') (JStr ''23:30'') lh =
     Inr (gemma_urge ''23:30'')"
proof -
  have "CHR ''{'' \<notin> set ''23:30''" by simp
  then have "generate_mock_response (JStr ''@cf/google/gemma-3-12b-it'') (JStr ''urge'') (JStr ''23:30'') lh =
             mock_lookup (JStr ''@cf/google/gemma-3-12b-it'') (JStr ''urge'') (JStr ''23:30'')"
    by (rule generate_eq_lookup_no_brace)
  then show ?thesis by (simp add: mock_eval)
qed

text \<open>
  A model missing from the table is answered from the Gemma entry (the spec's
  scenario \<open>unknown-model\<close>/\<open>praise\<close> is the witness).
\<close>

theorem mock_unknown_model_falls_back:
  assumes "hashable m" and "m \<notin> JStr ` set (map fst (mock_responses lt))"
  shows "generate_mock_response m ty lt lh =
         generate_mock_response (JStr ''@cf/google/gemma-3-12b-it'') ty lt lh"
proof -
  have "py_dict_get m (mock_responses lt) d = Inr d" for d :: "(string \<times> string) list"
  proof (cases m)
    case (JStr s)
    then have "s \<notin> fst ` set (mock_responses lt)" using assms(2) by force
    then have "map_of (mock_responses lt) s = None" by (simp add: map_of_eq_None_iff)
    with JStr show ?thesis by (simp add: py_dict_get_def)
  qed (insert assms(1), simp_all add: py_dict_get_def)
  then show ?thesis by (simp add: generate_mock_response_def py_dict_get_def mock_responses_def)
qed

theorem mock_unknown_model_falls_back_witness:
  "hashable (JStr ''unknown-model'') \<and>
   JStr ''unknown-model'' \<notin> JStr ` set (map fst (mock_responses JNone)) \<and>
   generate_mock_response (JStr ''unknown-model'') (JStr ''praise'') JNone JNone = Inr gemma_praise"
proof -
  have h: "hashable (JStr ''unknown-model'')" by simp
  have n: "JStr ''unknown-model'' \<notin> JStr ` set (map fst (mock_responses JNone))"
    by (auto simp: mock_responses_def)
  have "generate_mock_response (JStr ''@cf/google/gemma-3-12b-it'') (JStr ''praise'') JNone JNone =
        Inr gemma_praise"
    by (simp add: generate_eq_lookup_falsy mock_eval)
  then show ?thesis using h n mock_unknown_model_falls_back [OF h n, of "JStr ''praise''" JNone] by simp
qed

text \<open>
  A type missing from the model's entry gives the default text, for any model
  the lookup accepts, whether or not a time was sent.
\<close>

theorem mock_unknown_type_default:
  assumes "hashable m" and "hashable ty" and "ty \<noteq> JStr ''urge''" and "ty \<noteq> JStr ''praise''"
  shows "generate_mock_response m ty (JStr s) lh = Inr mock_default \<and>
         generate_mock_response m ty JNone lh = Inr mock_default"
proof -
  have tbl: "py_dict_get ty r mock_default = Inr mock_default"
    if "r \<in> snd ` set (mock_responses lt)" for r lt
    using assms that by (cases ty) (auto simp: py_dict_get_def mock_responses_def)
  have look: "mock_lookup m ty lt = Inr mock_default" for lt
  proof -
    have "\<exists>mr. py_dict_get m (mock_responses lt)
        (the (map_of (mock_responses lt) ''@cf/google/gemma-3-12b-it'')) = Inr mr"
      using assms(1) by (cases m) (auto simp: py_dict_get_def split: option.split)
    then obtain mr where mr: "py_dict_get m (mock_responses lt)
        (the (map_of (mock_responses lt) ''@cf/google/gemma-3-12b-it'')) = Inr mr" ..
    have "mr \<in> snd ` set (mock_responses lt)"
      using py_dict_get_Inr [OF mr] by (auto simp: mock_responses_def)
    with mr tbl show ?thesis by (simp add: mock_lookup_def)
  qed
  have "py_replace mock_default ''{local_time}'' s = mock_default"
    using mock_texts_brace_free(5) by (intro py_replace_absent) simp_all
  then show ?thesis by (simp add: generate_via_lookup look)
qed

theorem mock_unknown_type_default_witness:
  "hashable (JStr ''gpt-4'') \<and> hashable (JStr ''nap'') \<and> JStr ''nap'' \<noteq> JStr ''urge'' \<and>
   JStr ''nap'' \<noteq> JStr ''praise'' \<and>
   generate_mock_response (JStr ''gpt-4'') (JStr ''nap'') (JStr ''23:30'') JNone = Inr mock_default \<and>
   generate_mock_response (JStr ''gpt-4'') (JStr ''nap'') JNone JNone = Inr mock_default"
  using mock_unknown_type_default [of "JStr ''gpt-4''" "JStr ''nap''" "''23:30''" JNone] by simp

text \<open>
  C17: the replacement of lines 256--257 changes nothing on the inputs the spec has in
  mind. Without a time, the result is the template looked up; with a time that holds
  no brace, it is again that template, the f-string having already put the time in.
\<close>

theorem mock_replace_is_identity:
  "(\<not> truthy lt \<longrightarrow> generate_mock_response m ty lt lh = mock_lookup m ty lt) \<and>
   (CHR ''{'' \<notin> set s \<longrightarrow> generate_mock_response m ty (JStr s) lh = mock_lookup m ty (JStr s))"
  using generate_eq_lookup_falsy generate_eq_lookup_no_brace by blast

theorem mock_replace_is_identity_witness:
  "\<not> truthy JNone \<and>
   generate_mock_response (JStr ''gpt-4'') (JStr ''urge'') JNone JNone =
     mock_lookup (JStr ''gpt-4'') (JStr ''urge'') JNone \<and>
   CHR ''{'' \<notin> set ''22:15'' \<and>
   generate_mock_response (JStr ''gpt-4'') (JStr ''urge'') (JStr ''22:15'') JNone =
     mock_lookup (JStr ''gpt-4'') (JStr ''urge'') (JStr ''22:15'')"
  using mock_replace_is_identity [of JNone "JStr ''gpt-4''" "JStr ''urge''" JNone "''22:15''"] by simp


text \<open>
  C19: the error paths. An unhashable model or type (a JSON list or object) makes the
  dictionary lookup raise \<open>TypeError\<close>; a time that is truthy but not a string (a
  number, \<open>true\<close>, a list) passes the f-string but makes \<open>str.replace\<close> raise
  \<open>TypeError\<close>.
\<close>

theorem mock_errors:
  "(\<not> hashable m \<longrightarrow> generate_mock_response m ty lt lh = Inl (unhashable_error m)) \<and>
   (hashable m \<and> \<not> hashable ty \<longrightarrow> generate_mock_response m ty lt lh = Inl (unhashable_error ty)) \<and>
   (hashable m \<and> hashable ty \<and> truthy lt \<and> (\<forall>s. lt \<noteq> JStr s) \<longrightarrow>
      generate_mock_response m ty lt lh = Inl (replace_arg_error lt))"
proof (intro conjI impI)
  show "generate_mock_response m ty lt lh = Inl (unhashable_error m)" if "\<not> hashable m"
    using that by (simp add: generate_mock_response_def py_dict_get_def)
  have m: "\<exists>mr. py_dict_get m (mock_responses lt)
             (the (map_of (mock_responses lt) ''@cf/google/gemma-3-12b-it'')) = Inr mr \<and>
             mr \<in> snd ` set (mock_responses lt)" if "hashable m"
    using that by (cases m) (auto simp: py_dict_get_def mock_responses_def split: option.split)
  show "generate_mock_response m ty lt lh = Inl (unhashable_error ty)"
    if "hashable m \<and> \<not> hashable ty"
    using that m by (auto simp: generate_mock_response_def py_dict_get_def)
  show "generate_mock_response m ty lt lh = Inl (replace_arg_error lt)"
    if "hashable m \<and> hashable ty \<and> truthy lt \<and> (\<forall>s. lt \<noteq> JStr s)"
  proof -
    have "\<exists>r. mock_lookup m ty lt = Inr r"
      using that m by (cases ty) (auto simp: mock_lookup_def py_dict_get_def split: option.split)
    then show ?thesis using that by (cases lt) (auto simp: generate_via_lookup)
  qed
qed

theorem mock_errors_witness:
  "\<not> hashable (JList []) \<and>
   generate_mock_response (JList []) (JStr ''urge'') JNone JNone = Inl (unhashable_error (JList [])) \<and>
   hashable (JStr ''gpt-4'') \<and> \<not> hashable (JDict []) \<and>
   generate_mock_response (JStr ''gpt-4'') (JDict []) JNone JNone = Inl (unhashable_error (JDict [])) \<and>
   hashable (JStr ''gpt-4'') \<and> hashable (JStr ''urge'') \<and> truthy (JInt 23) \<and> (\<forall>s. JInt 23 \<noteq> JStr s) \<and>
   generate_mock_response (JStr ''gpt-4'') (JStr ''urge'') (JInt 23) JNone = Inl (replace_arg_error (JInt 23))"
proof -
  note e1 = mock_errors [of "JList []" "JStr ''urge''" JNone JNone]
  note e2 = mock_errors [of "JStr ''gpt-4''" "JDict []" JNone JNone]
  note e3 = mock_errors [of "JStr ''gpt-4''" "JStr ''urge''" "JInt 23" JNone]
  show ?thesis using e1 e2 e3 by simp
qed

text \<open>
  Without a time (absent, \<open>null\<close> or empty), the urge text carries the model's
  fallback phrase in place of the time.
\<close>

theorem mock_absent_time_fallback:
  assumes "\<not> truthy lt"
  shows "generate_mock_response (JStr ''@cf/google/gemma-3-12b-it'') (JStr ''urge'') lt lh =
           Inr (gemma_urge gemma_urge_fallback) \<and>
         generate_mock_response (JStr ''claude-3-sonnet'') (JStr ''urge'') lt lh =
           Inr (claude_urge claude_urge_fallback)"
  using assms by (simp add: generate_eq_lookup_falsy mock_eval)

theorem mock_absent_time_fallback_witness:
  "\<not> truthy (JStr []) \<and>
   generate_mock_response (JStr ''@cf/google/gemma-3-12b-it'') (JStr ''urge'') (JStr []) JNone =
     Inr (gemma_urge gemma_urge_fallback) \<and>
   generate_mock_response (JStr ''claude-3-sonnet'') (JStr ''urge'') (JStr []) JNone =
     Inr (claude_urge claude_urge_fallback)"
  using mock_absent_time_fallback [of "JStr []" JNone] by simp

end
