(* ===== verification/RealApi.thy ===== *)
theory RealApi
  imports PyLang
begin

text \<open>
  \<open>call_real_api\<close> (\<^verbatim>\<open>app.py\<close> lines 190--227): builds the JSON payload
  \<open>{type, localTime?, localHour?}\<close>, sends one POST with a 10 second timeout to the
  fixed worker URL, and turns the reply into the \<open>message\<close> field or an exception.
  The network and the remote worker are not part of the program: they are the input
  \<open>transport\<close>, a function from the request sent to the outcome of the exchange.
  Every exception leaves the function as a plain \<open>Exception\<close> whose text tells the
  cases apart.
\<close>

subsection \<open>Requests and outcomes\<close>

record http_request =
  req_url :: string
  req_json :: jval
  req_timeout :: nat \<comment> \<open>seconds\<close>

text \<open>The body of a reply: decodable JSON, or text on which \<open>response.json()\<close> raises
  with the given message.\<close>

datatype http_body = JsonBody jval | NotJson string

text \<open>
  How \<open>client.post\<close> ends: a reply with its status code, or one of the exceptions the
  code tells apart (\<open>httpx.TimeoutException\<close>, \<open>httpx.NetworkError\<close>, any other),
  each with its text \<open>str(e)\<close>.
\<close>

datatype http_outcome =
    Reply nat http_body
  | TimeoutExc string
  | NetworkExc string
  | OtherExc string

subsection \<open>The function\<close>

definition api_payload :: "jval \<Rightarrow> jval \<Rightarrow> jval \<Rightarrow> jval" where
  "api_payload test_type local_time local_hour =
     JDict ([(''type'', test_type)]
            @ (if truthy local_time then [(''localTime'', local_time)] else [])
            @ (if local_hour \<noteq> JNone then [(''localHour'', local_hour)] else []))"

definition api_request :: "jval \<Rightarrow> jval \<Rightarrow> jval \<Rightarrow> http_request" where
  "api_request test_type local_time local_hour =
     \<lparr>req_url = ''https://sleep.vuntun.app/api/'', req_json = api_payload test_type local_time local_hour,
      req_timeout = 10\<rparr>"

definition no_content_text :: string where
  "no_content_text = utf8 [0x65E0, 0x54CD, 0x5E94, 0x5185, 0x5BB9]"

definition timeout_text :: string where
  "timeout_text = ''API'' @ utf8 [0x8BF7, 0x6C42, 0x8D85, 0x65F6]"

definition network_prefix :: string where
  "network_prefix = utf8 [0x7F51, 0x7EDC, 0x9519, 0x8BEF] @ '': ''"

definition call_error_prefix :: string where
  "call_error_prefix = utf8 [0x8C03, 0x7528] @ ''API'' @ utf8 [0x65F6, 0x51FA, 0x9519] @ '': ''"

text \<open>
  The message of a reply whose status is not 200 (lines 213--219): the status code,
  and the \<open>error\<close> field when the body is a JSON object that has one. For any other
  body, \<open>'error' in error_detail\<close> or the indexing raises and the bare \<open>except\<close> drops
  the detail.
\<close>

definition status_error_msg :: "nat \<Rightarrow> http_body \<Rightarrow> string" where
  "status_error_msg status body =
     ''API'' @ utf8 [0x8BF7, 0x6C42, 0x5931, 0x8D25] @ '' ('' @ utf8 [0x72B6, 0x6001] @ '': ''
     @ dec_nat status @ '')''
     @ (case body of
          JsonBody (JDict kvs) \<Rightarrow>
            (if ''error'' \<in> fst ` set kvs then '': '' @ py_str (py_get kvs ''error'' JNone) else [])
        | _ \<Rightarrow> [])"

definition call_real_api :: "(http_request \<Rightarrow> http_outcome) \<Rightarrow> jval \<Rightarrow> jval \<Rightarrow> jval \<Rightarrow> exc + jval" where
  "call_real_api transport test_type local_time local_hour =
     (case transport (api_request test_type local_time local_hour) of
        TimeoutExc _ \<Rightarrow> Inl (Exc Exception timeout_text)
      | NetworkExc m \<Rightarrow> Inl (Exc Exception (network_prefix @ m))
      | OtherExc m \<Rightarrow> Inl (Exc Exception (call_error_prefix @ m))
      | Reply status body \<Rightarrow>
          (if status = 200 then
             (case body of
                JsonBody (JDict kvs) \<Rightarrow> Inr (py_get kvs ''message'' (JStr no_content_text))
              | JsonBody v \<Rightarrow> Inl (Exc Exception (call_error_prefix @ exc_str (no_attribute_error v ''get'')))
              | NotJson m \<Rightarrow> Inl (Exc Exception (call_error_prefix @ m)))
           else Inl (Exc Exception (call_error_prefix @ status_error_msg status body))))"

subsection \<open>Properties of \<open>call_real_api\<close>\<close>

lemma call_real_api_status:
  assumes "transport (api_request ty lt lh) = Reply st body" and "st \<noteq> 200"
  shows "call_real_api transport ty lt lh = Inl (Exc Exception (call_error_prefix @ status_error_msg st body))"
  using assms by (simp add: call_real_api_def)

text \<open>
  C20: the request. One POST to the worker URL with a 10 second timeout, whose JSON
  body has the type, the local time only when it is truthy, and the local hour
  whenever it is not \<open>null\<close>, whatever its value (no range check), and nothing else.
\<close>

theorem api_request_fields:
  "req_url (api_request ty lt lh) = ''https://sleep.vuntun.app/api/'' \<and>
   req_timeout (api_request ty lt lh) = 10 \<and>
   (\<exists>kvs. req_json (api_request ty lt lh) = JDict kvs \<and>
      map_of kvs ''type'' = Some ty \<and>
      map_of kvs ''localTime'' = (if truthy lt then Some lt else None) \<and>
      map_of kvs ''localHour'' = (if lh = JNone then None else Some lh) \<and>
      set (map fst kvs) \<subseteq> {''type'', ''localTime'', ''localHour''})"
  by (auto simp: api_request_def api_payload_def)

text \<open>
  A 200 reply whose body is a JSON object gives its \<open>message\<close> field, or the
  fixed placeholder text when the field is missing.
\<close>

theorem call_real_api_success:
  assumes "transport (api_request ty lt lh) = Reply 200 (JsonBody (JDict kvs))"
  shows "call_real_api transport ty lt lh =
           Inr (case map_of (rev kvs) ''message'' of Some v \<Rightarrow> v | None \<Rightarrow> JStr no_content_text)"
  using assms by (simp add: call_real_api_def py_get_def)

theorem call_real_api_success_witness:
  "(\<lambda>_. Reply 200 (JsonBody (JDict [(''message'', JStr ''Time for bed'')])))
     (api_request (JStr ''urge'') JNone JNone) = Reply 200 (JsonBody (JDict [(''message'', JStr ''Time for bed'')])) \<and>
   call_real_api (\<lambda>_. Reply 200 (JsonBody (JDict [(''message'', JStr ''Time for bed'')])))
     (JStr ''urge'') JNone JNone = Inr (JStr ''Time for bed'')"
  using call_real_api_success [of "\<lambda>_. Reply 200 (JsonBody (JDict [(''message'', JStr ''Time for bed'')]))"
      "JStr ''urge''" JNone JNone "[(''message'', JStr ''Time for bed'')]"] by simp

text \<open>
  C21: a reply with another status raises an exception whose text starts with the
  generic prefix (the message is wrapped a second time by the last \<open>except\<close>) and
  contains the status code and, when the body is a JSON object with an \<open>error\<close>
  field, that field's text. The spec's scenario (503, \<open>rate limited\<close>) is the witness.
\<close>

theorem call_real_api_status_error:
  assumes "transport (api_request ty lt lh) = Reply st body" and "st \<noteq> 200"
  shows "\<exists>m. call_real_api transport ty lt lh = Inl (Exc Exception m) \<and>
             prefix call_error_prefix m \<and> sublist (dec_nat st) m \<and>
             (\<forall>kvs. body = JsonBody (JDict kvs) \<and> ''error'' \<in> fst ` set kvs \<longrightarrow>
                sublist (py_str (py_get kvs ''error'' JNone)) m)"
proof -
  let ?m = "call_error_prefix @ status_error_msg st body"
  have "sublist (dec_nat st) ?m" by (simp add: status_error_msg_def)
  moreover have "sublist (py_str (py_get kvs ''error'' JNone)) ?m"
    if "body = JsonBody (JDict kvs)" and "''error'' \<in> fst ` set kvs" for kvs
    using that by (simp add: status_error_msg_def)
  ultimately show ?thesis
    using call_real_api_status [of transport ty lt lh st body, OF assms] by (auto simp: prefix_def)
qed

theorem call_real_api_status_error_witness:
  "(\<lambda>_. Reply 503 (JsonBody (JDict [(''error'', JStr ''rate limited'')])))
     (api_request (JStr ''urge'') (JStr ''23:30'') (JInt 23)) =
     Reply 503 (JsonBody (JDict [(''error'', JStr ''rate limited'')])) \<and> (503::nat) \<noteq> 200 \<and>
   (\<exists>m. call_real_api (\<lambda>_. Reply 503 (JsonBody (JDict [(''error'', JStr ''rate limited'')])))
          (JStr ''urge'') (JStr ''23:30'') (JInt 23) = Inl (Exc Exception m) \<and>
        prefix call_error_prefix m \<and> sublist ''503'' m \<and> sublist ''rate limited'' m)"
proof -
  have d: "dec_nat 503 = ''503''" by (simp add: dec_nat.simps py_simps)
  have e: "py_str (py_get [(''error'', JStr ''rate limited'')] ''error'' JNone) = ''rate limited''"
    by (simp add: py_get_def)
  show ?thesis
    using call_real_api_status_error
        [of "\<lambda>_. Reply 503 (JsonBody (JDict [(''error'', JStr ''rate limited'')]))"
            "JStr ''urge''" "JStr ''23:30''" "JInt 23" 503 "JsonBody (JDict [(''error'', JStr ''rate limited'')])"]
    by (auto simp: d e)
qed

text \<open>
  C22: every failure leaves \<open>call_real_api\<close> as a plain \<open>Exception\<close>; a timeout and a
  network error are told apart only by their text, and a 200 reply whose JSON body is
  not an object fails on \<open>data.get\<close> with the generic prefix.
\<close>

theorem call_real_api_failures:
  "(call_real_api transport ty lt lh = Inl e \<longrightarrow> exc_class_of e = Exception) \<and>
   (transport (api_request ty lt lh) = TimeoutExc x \<longrightarrow>
      call_real_api transport ty lt lh = Inl (Exc Exception timeout_text)) \<and>
   (transport (api_request ty lt lh) = NetworkExc m \<longrightarrow>
      call_real_api transport ty lt lh = Inl (Exc Exception (network_prefix @ m))) \<and>
   (transport (api_request ty lt lh) = Reply 200 (JsonBody (JList xs)) \<longrightarrow>
      call_real_api transport ty lt lh =
        Inl (Exc Exception (call_error_prefix @ quoted ''list'' @ '' object has no attribute '' @ quoted ''get'')))"
  by (auto simp: call_real_api_def no_attribute_error_def
           split: http_outcome.splits http_body.splits jval.splits if_splits)

theorem call_real_api_failures_witness:
  "(\<lambda>_. TimeoutExc ''timed out'') (api_request (JStr ''urge'') JNone JNone) = TimeoutExc ''timed out'' \<and>
   call_real_api (\<lambda>_. TimeoutExc ''timed out'') (JStr ''urge'') JNone JNone = Inl (Exc Exception timeout_text) \<and>
   exc_class_of (Exc Exception timeout_text) = Exception \<and>
   (\<lambda>_. NetworkExc ''connection refused'') (api_request (JStr ''urge'') JNone JNone) = NetworkExc ''connection refused'' \<and>
   call_real_api (\<lambda>_. NetworkExc ''connection refused'') (JStr ''urge'') JNone JNone =
     Inl (Exc Exception (network_prefix @ ''connection refused'')) \<and>
   (\<lambda>_. Reply 200 (JsonBody (JList []))) (api_request (JStr ''urge'') JNone JNone) = Reply 200 (JsonBody (JList [])) \<and>
   call_real_api (\<lambda>_. Reply 200 (JsonBody (JList []))) (JStr ''urge'') JNone JNone =
     Inl (Exc Exception (call_error_prefix @ quoted ''list'' @ '' object has no attribute '' @ quoted ''get''))"
proof -
  note t = call_real_api_failures [of "\<lambda>_. TimeoutExc ''timed out''" "JStr ''urge''" JNone JNone
      "Exc Exception timeout_text" "''timed out''"]
  note n = call_real_api_failures [of "\<lambda>_. NetworkExc ''connection refused''" "JStr ''urge''" JNone JNone
      _ _ "''connection refused''"]
  note l = call_real_api_failures [of "\<lambda>_. Reply 200 (JsonBody (JList []))" "JStr ''urge''" JNone JNone
      _ _ _ "[]"]
  show ?thesis using t n l by simp
qed

end
