(* ===== verification/Orchestrator.thy ===== *)
theory Orchestrator
  imports HistoryStore MockResponder RealApi
begin

text \<open>
  \<open>test_endpoint\<close> (\<^verbatim>\<open>POST /api/test\<close>, \<^verbatim>\<open>app.py\<close> lines 129--188): reads the
  JSON body, takes each field with its default, rejects an empty prompt (400), resolves
  the reply with the mock resolver or the real API, and stores the record through
  \<open>add_test_record\<close>; any exception of the body becomes the 500 reply. What the
  program does not determine is gathered in \<open>env\<close>: the transport to the worker, the
  two clock readings around the real call, the id \<open>uuid4\<close> draws, the time stamp and
  the outcome of the file write.
\<close>

subsection \<open>Inputs and replies\<close>

record env =
  transport :: "http_request \<Rightarrow> http_outcome"
  clock_start :: int \<comment> \<open>\<open>datetime.now()\<close> before the call, in microseconds\<close>
  clock_end :: int \<comment> \<open>\<open>datetime.now()\<close> after the call, in microseconds\<close>
  new_uuid :: string
  now_iso :: string
  write_result :: write_outcome

text \<open>The request body: decoded JSON, or a body on which \<open>request.json\<close> raises (not
  JSON, wrong content type), with the text of that exception.\<close>

datatype request_body = JsonReq jval | BadJson string

text \<open>The replies of lines 145--148, 175--181 and 185--188.\<close>

datatype test_response =
    TestOk jval string rat jval \<comment> \<open>response, test_id, response_time (seconds), use_mock\<close>
  | TestBadRequest string
  | TestServerError string

subsection \<open>The handler\<close>

definition prompt_empty_text :: string where
  "prompt_empty_text = ''Prompt '' @ utf8 [0x4E0D, 0x80FD, 0x4E3A, 0x7A7A]"

definition server_error_prefix :: string where
  "server_error_prefix = utf8 [0x670D, 0x52A1, 0x5668, 0x9519, 0x8BEF] @ '': ''"

definition mock_latency :: rat where
  "mock_latency = 1 / 2"

text \<open>Line 159: \<open>(end_time - start_time).total_seconds()\<close> of a difference of
  microsecond clock readings, as its exact value in seconds.\<close>

definition total_seconds :: "int \<Rightarrow> rat" where
  "total_seconds us = of_int us / 1000000"

text \<open>Lines 150--159: the reply and the time it took, or the resolver's exception.\<close>

definition resolve :: "env \<Rightarrow> jval \<Rightarrow> jval \<Rightarrow> jval \<Rightarrow> jval \<Rightarrow> jval \<Rightarrow> exc + (jval \<times> rat)" where
  "resolve e use_mock_v model_v type_v time_v hour_v =
     (if truthy use_mock_v then
        (case generate_mock_response model_v type_v time_v hour_v of
           Inl x \<Rightarrow> Inl x
         | Inr s \<Rightarrow> Inr (JStr s, mock_latency))
      else
        (case call_real_api (transport e) type_v time_v hour_v of
           Inl x \<Rightarrow> Inl x
         | Inr r \<Rightarrow> Inr (r, total_seconds (clock_end e - clock_start e))))"

definition test_endpoint :: "env \<Rightarrow> request_body \<Rightarrow> hist_file \<Rightarrow> test_response \<times> hist_file" where
  "test_endpoint e req f =
     (case req of
        BadJson m \<Rightarrow> (TestServerError (server_error_prefix @ m), f)
      | JsonReq (JDict kvs) \<Rightarrow>
          (let use_mock_v = py_get kvs ''use_mock'' (JBool False);
               model_v = py_get kvs ''model'' (JStr ''@cf/google/gemma-3-12b-it'');
               prompt_v = py_get kvs ''prompt'' (JStr []);
               type_v = py_get kvs ''type'' (JStr ''urge'');
               time_v = py_get kvs ''local_time'' JNone;
               hour_v = py_get kvs ''local_hour'' JNone
           in if \<not> truthy prompt_v then (TestBadRequest prompt_empty_text, f)
              else
                (case resolve e use_mock_v model_v type_v time_v hour_v of
                   Inl x \<Rightarrow> (TestServerError (server_error_prefix @ exc_str x), f)
                 | Inr (resp, rt) \<Rightarrow>
                     (let r = \<lparr>model = model_v, prompt = prompt_v, response = resp, test_type = type_v,
                               local_time = time_v, local_hour = hour_v, use_mock = use_mock_v,
                               response_time = rt\<rparr>
                      in case add_test_record r (new_uuid e) (now_iso e) (write_result e) f of
                           (Inl x, f') \<Rightarrow> (TestServerError (server_error_prefix @ exc_str x), f')
                         | (Inr saved, f') \<Rightarrow> (TestOk resp (record_id saved) rt use_mock_v, f'))))
      | JsonReq v \<Rightarrow> (TestServerError (server_error_prefix @ exc_str (no_attribute_error v ''get'')), f))"

text \<open>The fields of a request object, with the defaults of lines 134--141.\<close>

abbreviation req_use_mock :: "(string \<times> jval) list \<Rightarrow> jval" where
  "req_use_mock kvs \<equiv> py_get kvs ''use_mock'' (JBool False)"

abbreviation req_model :: "(string \<times> jval) list \<Rightarrow> jval" where
  "req_model kvs \<equiv> py_get kvs ''model'' (JStr ''@cf/google/gemma-3-12b-it'')"

abbreviation req_prompt :: "(string \<times> jval) list \<Rightarrow> jval" where
  "req_prompt kvs \<equiv> py_get kvs ''prompt'' (JStr [])"

abbreviation req_type :: "(string \<times> jval) list \<Rightarrow> jval" where
  "req_type kvs \<equiv> py_get kvs ''type'' (JStr ''urge'')"

abbreviation req_time :: "(string \<times> jval) list \<Rightarrow> jval" where
  "req_time kvs \<equiv> py_get kvs ''local_time'' JNone"

abbreviation req_hour :: "(string \<times> jval) list \<Rightarrow> jval" where
  "req_hour kvs \<equiv> py_get kvs ''local_hour'' JNone"

text \<open>The record a request with the given fields stores.\<close>

definition request_record :: "(string \<times> jval) list \<Rightarrow> jval \<Rightarrow> rat \<Rightarrow> test_record" where
  "request_record kvs resp rt =
     \<lparr>model = req_model kvs, prompt = req_prompt kvs, response = resp, test_type = req_type kvs,
      local_time = req_time kvs, local_hour = req_hour kvs, use_mock = req_use_mock kvs,
      response_time = rt\<rparr>"

text \<open>An environment for the concrete instances below: a worker that answers 200.\<close>

definition demo_env :: env where
  "demo_env =
     \<lparr>transport = (\<lambda>_. Reply 200 (JsonBody (JDict [(''message'', JStr ''Time to sleep'')]))),
      clock_start = 0, clock_end = 1200000, new_uuid = ''5f0c-demo'', now_iso = ''2025-01-01T23:30:00'',
      write_result = WriteOk\<rparr>"

text \<open>Requests served one after another, each with its own environment.\<close>

fun serve :: "(env \<times> request_body) list \<Rightarrow> hist_file \<Rightarrow> test_response list \<times> hist_file" where
  "serve [] f = ([], f)"
| "serve ((e, req) # rs) f =
     (let (out, f') = test_endpoint e req f; (outs, f'') = serve rs f' in (out # outs, f''))"

subsection \<open>Lemmas\<close>

lemma test_endpoint_dict:
  assumes "truthy (req_prompt kvs)"
  shows "test_endpoint e (JsonReq (JDict kvs)) f =
           (case resolve e (req_use_mock kvs) (req_model kvs) (req_type kvs) (req_time kvs) (req_hour kvs) of
              Inl x \<Rightarrow> (TestServerError (server_error_prefix @ exc_str x), f)
            | Inr (resp, rt) \<Rightarrow>
                (case add_test_record (request_record kvs resp rt) (new_uuid e) (now_iso e) (write_result e) f of
                   (Inl x, f') \<Rightarrow> (TestServerError (server_error_prefix @ exc_str x), f')
                 | (Inr saved, f') \<Rightarrow> (TestOk resp (record_id saved) rt (req_use_mock kvs), f')))"
  using assms by (simp add: test_endpoint_def request_record_def Let_def split: sum.split prod.split)

lemma total_seconds_neg [simp]: "total_seconds d < 0 \<longleftrightarrow> d < 0"
  by (simp add: total_seconds_def divide_less_0_iff)

lemma resolve_mock:
  "truthy um \<Longrightarrow> resolve e um m ty lt lh =
     (case generate_mock_response m ty lt lh of Inl x \<Rightarrow> Inl x | Inr s \<Rightarrow> Inr (JStr s, mock_latency))"
  by (simp add: resolve_def)

lemma resolve_real:
  "\<not> truthy um \<Longrightarrow> resolve e um m ty lt lh =
     (case call_real_api (transport e) ty lt lh of Inl x \<Rightarrow> Inl x | Inr r \<Rightarrow> Inr (r, total_seconds (clock_end e - clock_start e)))"
  by (simp add: resolve_def)

lemma test_endpoint_stored:
  assumes "truthy (req_prompt kvs)"
    and "resolve e (req_use_mock kvs) (req_model kvs) (req_type kvs) (req_time kvs) (req_hour kvs) = Inr (resp, rt)"
    and "load_test_history f = Loaded h" and "write_result e = WriteOk"
  shows "test_endpoint e (JsonReq (JDict kvs)) f =
           (TestOk resp (new_uuid e) rt (req_use_mock kvs),
            ListDoc (keep_last 100 (h @ [stamp (request_record kvs resp rt) (new_uuid e) (now_iso e)])))"
  using assms add_test_record_ok [OF assms(3)] by (simp add: test_endpoint_dict)

lemma add_test_record_ids:
  "set (stored_ids (snd (add_test_record r u t w f))) \<subseteq> set (stored_ids f) \<union> {u}"
proof (cases "load_test_history f")
  case (Loaded h)
  have "set (map record_id (keep_last 100 (h @ [stamp r u t]))) \<subseteq> set (map record_id h) \<union> {u}"
    using keep_last_set [of 100 "h @ [stamp r u t]"] by auto
  then show ?thesis using stored_ids_Loaded [OF Loaded]
    by (cases w) (auto simp: add_test_record_Loaded [OF Loaded] save_test_history_def)
next
  case (LoadedOther v)
  then show ?thesis by (auto simp: add_test_record_def)
qed

lemma test_endpoint_file:
  "\<exists>r. snd (test_endpoint e req f) \<in> {f, snd (add_test_record r (new_uuid e) (now_iso e) (write_result e) f)}"
proof (cases "\<exists>kvs. req = JsonReq (JDict kvs) \<and> truthy (req_prompt kvs)")
  case True
  then obtain kvs where req: "req = JsonReq (JDict kvs)" and p: "truthy (req_prompt kvs)" by blast
  show ?thesis
  proof (cases "resolve e (req_use_mock kvs) (req_model kvs) (req_type kvs) (req_time kvs) (req_hour kvs)")
    case (Inl x)
    then show ?thesis using req p by (simp add: test_endpoint_dict)
  next
    case (Inr v)
    obtain resp rt where v: "v = (resp, rt)" by (cases v)
    show ?thesis
    proof (rule exI [of _ "request_record kvs resp rt"])
      show "snd (test_endpoint e req f) \<in>
              {f, snd (add_test_record (request_record kvs resp rt) (new_uuid e) (now_iso e) (write_result e) f)}"
        using req p Inr v by (simp add: test_endpoint_dict split: sum.split prod.split)
    qed
  qed
next
  case False
  then have "snd (test_endpoint e req f) = f"
    by (auto simp: test_endpoint_def Let_def split: request_body.split jval.split)
  then show ?thesis by blast
qed

lemma test_endpoint_stored_ok:
  assumes "stored_ok f" and "new_uuid e \<notin> set (stored_ids f)"
  shows "stored_ok (snd (test_endpoint e req f)) \<and>
         set (stored_ids (snd (test_endpoint e req f))) \<subseteq> set (stored_ids f) \<union> {new_uuid e}"
proof -
  let ?add = "add_test_record"
  obtain r where "snd (test_endpoint e req f) \<in> {f, snd (?add r (new_uuid e) (now_iso e) (write_result e) f)}"
    using test_endpoint_file by blast
  then consider (same) "snd (test_endpoint e req f) = f"
    | (added) "snd (test_endpoint e req f) = snd (?add r (new_uuid e) (now_iso e) (write_result e) f)"
    by blast
  then show ?thesis
  proof cases
    case same
    then show ?thesis using assms(1) by auto
  next
    case added
    then show ?thesis
      using add_test_record_stored_ok [OF assms, of r] add_test_record_ids [of r "new_uuid e"] by simp
  qed
qed

lemma test_endpoint_TestOk:
  assumes "test_endpoint e req f = (TestOk resp u rt um, f')"
  shows "\<exists>h r. load_test_history f = Loaded h \<and> write_result e = WriteOk \<and> u = new_uuid e \<and>
               response r = resp \<and> response_time r = rt \<and>
               f' = ListDoc (keep_last 100 (h @ [stamp r (new_uuid e) (now_iso e)]))"
proof -
  obtain kvs where req: "req = JsonReq (JDict kvs)" and p: "truthy (req_prompt kvs)"
    using assms by (auto simp: test_endpoint_def Let_def split: request_body.splits jval.splits if_splits)
  obtain resp' rt' where res: "resolve e (req_use_mock kvs) (req_model kvs) (req_type kvs) (req_time kvs) (req_hour kvs)
                                 = Inr (resp', rt')"
    using assms req p by (auto simp: test_endpoint_dict split: sum.splits)
  let ?r = "request_record kvs resp' rt'"
  obtain x where add: "add_test_record ?r (new_uuid e) (now_iso e) (write_result e) f = (Inr x, f')"
    and out: "TestOk resp' (record_id x) rt' (req_use_mock kvs) = TestOk resp u rt um"
    using assms req p res by (auto simp: test_endpoint_dict split: sum.splits prod.splits)
  have "response ?r = resp' \<and> response_time ?r = rt'" by (simp add: request_record_def)
  then show ?thesis using add_test_record_Inr [OF add] out by auto
qed

lemma serve_Cons_file:
  "snd (serve ((e, req) # rs) f) = snd (serve rs (snd (test_endpoint e req f)))"
  by (simp add: Let_def split: prod.split)

lemma serve_stored_ok_ids:
  assumes "stored_ok f" and "distinct (map (new_uuid \<circ> fst) rs)"
    and "set (map (new_uuid \<circ> fst) rs) \<inter> set (stored_ids f) = {}"
  shows "stored_ok (snd (serve rs f)) \<and>
         set (stored_ids (snd (serve rs f))) \<subseteq> set (stored_ids f) \<union> set (map (new_uuid \<circ> fst) rs)"
  using assms
proof (induction rs arbitrary: f)
  case Nil
  then show ?case by simp
next
  case (Cons x rs)
  obtain e req where x: "x = (e, req)" by (cases x)
  let ?f' = "snd (test_endpoint e req f)"
  have fresh: "new_uuid e \<notin> set (stored_ids f)" using Cons.prems(3) x by auto
  have step: "stored_ok ?f' \<and> set (stored_ids ?f') \<subseteq> set (stored_ids f) \<union> {new_uuid e}"
    by (rule test_endpoint_stored_ok [OF Cons.prems(1) fresh])
  have d: "new_uuid e \<notin> set (map (new_uuid \<circ> fst) rs)" using Cons.prems(2) x by simp
  have "set (map (new_uuid \<circ> fst) rs) \<inter> set (stored_ids ?f') \<subseteq>
        set (map (new_uuid \<circ> fst) rs) \<inter> (set (stored_ids f) \<union> {new_uuid e})"
    using step by blast
  also have "\<dots> = {}" using d Cons.prems(3) x by auto
  finally have "set (map (new_uuid \<circ> fst) rs) \<inter> set (stored_ids ?f') = {}" by blast
  then have "stored_ok (snd (serve rs ?f')) \<and>
             set (stored_ids (snd (serve rs ?f'))) \<subseteq> set (stored_ids ?f') \<union> set (map (new_uuid \<circ> fst) rs)"
    using Cons.IH step Cons.prems(2) x by simp
  then show ?case using step unfolding x serve_Cons_file by auto
qed

subsection \<open>Properties of the handler\<close>

text \<open>
  C23: validation comes first. A request whose prompt is missing, \<open>null\<close> or empty is
  answered 400 before anything else happens: for every environment the reply is the
  same and the history file is untouched (no resolver runs, nothing is written).
\<close>

theorem test_endpoint_empty_prompt:
  assumes "\<not> truthy (req_prompt kvs)"
  shows "test_endpoint e (JsonReq (JDict kvs)) f = (TestBadRequest prompt_empty_text, f)"
  using assms by (simp add: test_endpoint_def Let_def)

theorem test_endpoint_empty_prompt_witness:
  "\<not> truthy (req_prompt [(''model'', JStr ''gpt-4''), (''use_mock'', JBool True)]) \<and>
   test_endpoint demo_env (JsonReq (JDict [(''model'', JStr ''gpt-4''), (''use_mock'', JBool True)])) NoFile =
     (TestBadRequest prompt_empty_text, NoFile)"
proof -
  have p: "\<not> truthy (req_prompt [(''model'', JStr ''gpt-4''), (''use_mock'', JBool True)])"
    by (simp add: py_get_def)
  show ?thesis using p test_endpoint_empty_prompt [OF p, of demo_env NoFile] by simp
qed

text \<open>
  C24: a mock request that resolves is stored and answered: the reply carries the mock
  text, the drawn id and the fixed latency of 0.5 s, and the file gains the record
  built from the request's fields, the last 100 records being kept.
\<close>

theorem test_endpoint_mock_success:
  assumes "truthy (req_prompt kvs)" and "truthy (req_use_mock kvs)"
    and "generate_mock_response (req_model kvs) (req_type kvs) (req_time kvs) (req_hour kvs) = Inr s"
    and "load_test_history f = Loaded h" and "write_result e = WriteOk"
  shows "test_endpoint e (JsonReq (JDict kvs)) f =
           (TestOk (JStr s) (new_uuid e) mock_latency (req_use_mock kvs),
            ListDoc (keep_last 100 (h @ [stamp (request_record kvs (JStr s) mock_latency) (new_uuid e) (now_iso e)])))"
  using assms(2,3) test_endpoint_stored [OF assms(1) _ assms(4,5)] by (simp add: resolve_mock)

theorem test_endpoint_mock_success_witness:
  "truthy (req_prompt [(''prompt'', JStr ''remind me''), (''use_mock'', JBool True), (''local_time'', JStr ''23:30'')]) \<and>
   truthy (req_use_mock [(''prompt'', JStr ''remind me''), (''use_mock'', JBool True), (''local_time'', JStr ''23:30'')]) \<and>
   generate_mock_response (JStr ''@cf/google/gemma-3-12b-it'') (JStr ''urge'') (JStr ''23:30'') JNone =
     Inr (gemma_urge ''23:30'') \<and>
   load_test_history NoFile = Loaded [] \<and> write_result demo_env = WriteOk \<and>
   test_endpoint demo_env
     (JsonReq (JDict [(''prompt'', JStr ''remind me''), (''use_mock'', JBool True), (''local_time'', JStr ''23:30'')])) NoFile =
   (TestOk (JStr (gemma_urge ''23:30'')) ''5f0c-demo'' (1 / 2) (JBool True),
    ListDoc [stamp (request_record [(''prompt'', JStr ''remind me''), (''use_mock'', JBool True), (''local_time'', JStr ''23:30'')]
                      (JStr (gemma_urge ''23:30'')) (1 / 2)) ''5f0c-demo'' ''2025-01-01T23:30:00''])"
proof -
  let ?kvs = "[(''prompt'', JStr ''remind me''), (''use_mock'', JBool True), (''local_time'', JStr ''23:30'')]"
  have p: "truthy (req_prompt ?kvs)" and u: "truthy (req_use_mock ?kvs)" by (simp_all add: py_get_def)
  have g0: "generate_mock_response (JStr ''@cf/google/gemma-3-12b-it'') (JStr ''urge'') (JStr ''23:30'') JNone =
            Inr (gemma_urge ''23:30'')"
    by (simp add: generate_eq_lookup_no_brace mock_eval)
  have g: "generate_mock_response (req_model ?kvs) (req_type ?kvs) (req_time ?kvs) (req_hour ?kvs) =
           Inr (gemma_urge ''23:30'')"
    using g0 by (simp add: py_get_def)
  have l: "load_test_history NoFile = Loaded []" by (simp add: load_test_history_def)
  have w: "write_result demo_env = WriteOk" by (simp add: demo_env_def)
  show ?thesis
    using p u g0 l w test_endpoint_mock_success [OF p u g l w]
    by (simp add: demo_env_def mock_latency_def py_get_def)
qed

text \<open>
  Mock mode performs no network call and reads no clock: the reply and the file
  are the same whatever the transport and the clock readings are.
\<close>

theorem test_endpoint_mock_ignores_network:
  assumes "truthy (req_use_mock kvs)"
  shows "test_endpoint (e\<lparr>transport := t, clock_start := a, clock_end := b\<rparr>) (JsonReq (JDict kvs)) f =
         test_endpoint e (JsonReq (JDict kvs)) f"
  using assms by (simp add: test_endpoint_def resolve_def Let_def split: sum.split prod.split)

theorem test_endpoint_mock_ignores_network_witness:
  "truthy (req_use_mock [(''prompt'', JStr ''hi''), (''use_mock'', JBool True)]) \<and>
   test_endpoint (demo_env\<lparr>transport := (\<lambda>_. TimeoutExc ''timed out''), clock_start := 7, clock_end := 3\<rparr>)
     (JsonReq (JDict [(''prompt'', JStr ''hi''), (''use_mock'', JBool True)])) NoFile =
   test_endpoint demo_env (JsonReq (JDict [(''prompt'', JStr ''hi''), (''use_mock'', JBool True)])) NoFile"
proof -
  have u: "truthy (req_use_mock [(''prompt'', JStr ''hi''), (''use_mock'', JBool True)])" by (simp add: py_get_def)
  show ?thesis using u test_endpoint_mock_ignores_network [OF u] by blast
qed

text \<open>
  C25: a real request whose worker answers 200 with a JSON object is stored and
  answered with the object's \<open>message\<close> (or the no-content text when it has none) and
  the time between the two clock readings.
\<close>

theorem test_endpoint_real_success:
  assumes "truthy (req_prompt kvs)" and "\<not> truthy (req_use_mock kvs)"
    and "transport e (api_request (req_type kvs) (req_time kvs) (req_hour kvs)) = Reply 200 (JsonBody (JDict rkvs))"
    and "load_test_history f = Loaded h" and "write_result e = WriteOk"
  shows "test_endpoint e (JsonReq (JDict kvs)) f =
           (TestOk (py_get rkvs ''message'' (JStr no_content_text)) (new_uuid e) (total_seconds (clock_end e - clock_start e)) (req_use_mock kvs),
            ListDoc (keep_last 100 (h @ [stamp (request_record kvs (py_get rkvs ''message'' (JStr no_content_text))
                                           (total_seconds (clock_end e - clock_start e))) (new_uuid e) (now_iso e)])))"
proof -
  have "resolve e (req_use_mock kvs) (req_model kvs) (req_type kvs) (req_time kvs) (req_hour kvs) =
        Inr (py_get rkvs ''message'' (JStr no_content_text), total_seconds (clock_end e - clock_start e))"
    using assms(2,3) by (simp add: resolve_real call_real_api_def)
  then show ?thesis by (rule test_endpoint_stored [OF assms(1) _ assms(4,5)])
qed

theorem test_endpoint_real_success_witness:
  "truthy (req_prompt [(''prompt'', JStr ''Is it late?''), (''type'', JStr ''praise'')]) \<and>
   \<not> truthy (req_use_mock [(''prompt'', JStr ''Is it late?''), (''type'', JStr ''praise'')]) \<and>
   transport demo_env (api_request (JStr ''praise'') JNone JNone) =
     Reply 200 (JsonBody (JDict [(''message'', JStr ''Time to sleep'')])) \<and>
   test_endpoint demo_env (JsonReq (JDict [(''prompt'', JStr ''Is it late?''), (''type'', JStr ''praise'')])) NoFile =
     (TestOk (JStr ''Time to sleep'') ''5f0c-demo'' (6 / 5) (JBool False),
      ListDoc [stamp (request_record [(''prompt'', JStr ''Is it late?''), (''type'', JStr ''praise'')]
                        (JStr ''Time to sleep'') (6 / 5)) ''5f0c-demo'' ''2025-01-01T23:30:00''])"
proof -
  let ?kvs = "[(''prompt'', JStr ''Is it late?''), (''type'', JStr ''praise'')]"
  have p: "truthy (req_prompt ?kvs)" and u: "\<not> truthy (req_use_mock ?kvs)" by (simp_all add: py_get_def)
  have t: "transport demo_env (api_request (req_type ?kvs) (req_time ?kvs) (req_hour ?kvs)) =
           Reply 200 (JsonBody (JDict [(''message'', JStr ''Time to sleep'')]))"
    by (simp add: demo_env_def)
  have l: "load_test_history NoFile = Loaded []" by (simp add: load_test_history_def)
  have w: "write_result demo_env = WriteOk" by (simp add: demo_env_def)
  show ?thesis
    using p u t test_endpoint_real_success [OF p u t l w] by (simp add: demo_env_def py_get_def total_seconds_def)
qed

text \<open>
  C26: the response time is the difference of two wall-clock readings
  (\<open>datetime.now()\<close>), not a monotonic duration: when the clock steps back during the
  call the request succeeds with a negative \<open>response_time\<close>, and that value is stored.
\<close>

theorem test_endpoint_negative_response_time:
  assumes "truthy (req_prompt kvs)" and "\<not> truthy (req_use_mock kvs)"
    and "transport e (api_request (req_type kvs) (req_time kvs) (req_hour kvs)) = Reply 200 (JsonBody (JDict rkvs))"
    and "clock_end e < clock_start e"
    and "load_test_history f = Loaded h" and "write_result e = WriteOk"
  shows "\<exists>r rt h'. test_endpoint e (JsonReq (JDict kvs)) f = (TestOk r (new_uuid e) rt (req_use_mock kvs), ListDoc h') \<and>
                 rt < 0 \<and> response_time (last h') = rt"
proof -
  let ?r = "py_get rkvs ''message'' (JStr no_content_text)" and ?rt = "total_seconds (clock_end e - clock_start e)"
  have "resolve e (req_use_mock kvs) (req_model kvs) (req_type kvs) (req_time kvs) (req_hour kvs) = Inr (?r, ?rt)"
    using assms(2,3) by (simp add: resolve_real call_real_api_def)
  then have "test_endpoint e (JsonReq (JDict kvs)) f =
      (TestOk ?r (new_uuid e) ?rt (req_use_mock kvs),
       ListDoc (keep_last 100 (h @ [stamp (request_record kvs ?r ?rt) (new_uuid e) (now_iso e)])))"
    by (rule test_endpoint_stored [OF assms(1) _ assms(5,6)])
  moreover have "response_time (last (keep_last 100 (h @ [stamp (request_record kvs ?r ?rt) (new_uuid e) (now_iso e)]))) = ?rt"
    by (simp add: keep_last_snoc stamp_def request_record_def)
  ultimately show ?thesis using assms(4) by auto
qed

theorem test_endpoint_negative_response_time_witness:
  "\<exists>r rt h'. test_endpoint (demo_env\<lparr>clock_start := 1000000, clock_end := 400000\<rparr>)
                (JsonReq (JDict [(''prompt'', JStr ''hi'')])) NoFile = (TestOk r ''5f0c-demo'' rt (JBool False), ListDoc h') \<and>
              rt < 0 \<and> response_time (last h') = rt"
proof -
  let ?e = "demo_env\<lparr>clock_start := 1000000, clock_end := 400000\<rparr>" and ?kvs = "[(''prompt'', JStr ''hi'')]"
  have p: "truthy (req_prompt ?kvs)" and u: "\<not> truthy (req_use_mock ?kvs)" by (simp_all add: py_get_def)
  have t: "transport ?e (api_request (req_type ?kvs) (req_time ?kvs) (req_hour ?kvs)) =
           Reply 200 (JsonBody (JDict [(''message'', JStr ''Time to sleep'')]))"
    by (simp add: demo_env_def)
  have c: "clock_end ?e < clock_start ?e" by (simp add: demo_env_def)
  have l: "load_test_history NoFile = Loaded []" by (simp add: load_test_history_def)
  have w: "write_result ?e = WriteOk" by (simp add: demo_env_def)
  show ?thesis
    using test_endpoint_negative_response_time [OF p u t c l w] by (simp add: demo_env_def py_get_def)
qed

text \<open>
  C27: when the resolver raises (mock lookup error, timeout, network error, non-200
  status, malformed reply) the request is answered 500 with the exception's text after
  the server-error prefix, and the history file is left as it was: nothing is stored.
\<close>

theorem test_endpoint_resolver_failure:
  assumes "truthy (req_prompt kvs)"
    and "resolve e (req_use_mock kvs) (req_model kvs) (req_type kvs) (req_time kvs) (req_hour kvs) = Inl x"
  shows "test_endpoint e (JsonReq (JDict kvs)) f = (TestServerError (server_error_prefix @ exc_str x), f)"
  using assms by (simp add: test_endpoint_dict)

theorem test_endpoint_resolver_failure_witness:
  "truthy (req_prompt [(''prompt'', JStr ''hi'')]) \<and>
   resolve (demo_env\<lparr>transport := (\<lambda>_. Reply 503 (JsonBody (JDict [(''error'', JStr ''rate limited'')])))\<rparr>)
     (JBool False) (JStr ''@cf/google/gemma-3-12b-it'') (JStr ''urge'') JNone JNone =
     Inl (Exc Exception (call_error_prefix @ status_error_msg 503 (JsonBody (JDict [(''error'', JStr ''rate limited'')])))) \<and>
   test_endpoint (demo_env\<lparr>transport := (\<lambda>_. Reply 503 (JsonBody (JDict [(''error'', JStr ''rate limited'')])))\<rparr>)
     (JsonReq (JDict [(''prompt'', JStr ''hi'')])) (ListDoc [stamp (demo_record ''a'') ''id-1'' ''t1'']) =
   (TestServerError (server_error_prefix @ call_error_prefix @
      status_error_msg 503 (JsonBody (JDict [(''error'', JStr ''rate limited'')]))),
    ListDoc [stamp (demo_record ''a'') ''id-1'' ''t1''])"
proof -
  let ?e = "demo_env\<lparr>transport := (\<lambda>_. Reply 503 (JsonBody (JDict [(''error'', JStr ''rate limited'')])))\<rparr>"
    and ?kvs = "[(''prompt'', JStr ''hi'')]"
  have p: "truthy (req_prompt ?kvs)" by (simp add: py_get_def)
  have r0: "resolve ?e (JBool False) (JStr ''@cf/google/gemma-3-12b-it'') (JStr ''urge'') JNone JNone =
     Inl (Exc Exception (call_error_prefix @ status_error_msg 503 (JsonBody (JDict [(''error'', JStr ''rate limited'')]))))"
    by (simp add: resolve_real call_real_api_status)
  have r: "resolve ?e (req_use_mock ?kvs) (req_model ?kvs) (req_type ?kvs) (req_time ?kvs) (req_hour ?kvs) =
     Inl (Exc Exception (call_error_prefix @ status_error_msg 503 (JsonBody (JDict [(''error'', JStr ''rate limited'')]))))"
    using r0 by (simp add: py_get_def)
  show ?thesis using p r0 test_endpoint_resolver_failure [OF p r] by simp
qed

text \<open>
  C28: the storing step, on each outcome of the write. The record is stored when the
  write succeeds; when the file cannot be opened the request is answered 500 and the
  file is unchanged; when the write fails after the file was truncated the request is
  answered 500 and the whole history is lost (the next read sees a garbled file, that
  is an empty history).
\<close>

theorem test_endpoint_storage_outcomes:
  assumes "truthy (req_prompt kvs)"
    and "resolve e (req_use_mock kvs) (req_model kvs) (req_type kvs) (req_time kvs) (req_hour kvs) = Inr (resp, rt)"
    and "load_test_history f = Loaded h"
  shows "test_endpoint e (JsonReq (JDict kvs)) f =
           (case write_result e of
              WriteOk \<Rightarrow> (TestOk resp (new_uuid e) rt (req_use_mock kvs),
                          ListDoc (keep_last 100 (h @ [stamp (request_record kvs resp rt) (new_uuid e) (now_iso e)])))
            | OpenFails m \<Rightarrow> (TestServerError (server_error_prefix @ exc_str (Exc OSError m)), f)
            | DumpFails m \<Rightarrow> (TestServerError (server_error_prefix @ exc_str (Exc OSError m)), Garbled))"
proof (cases "write_result e")
  case WriteOk
  then show ?thesis using test_endpoint_stored [OF assms] by simp
next
  case (OpenFails m)
  then show ?thesis using assms by (simp add: test_endpoint_dict add_test_record_open_fails)
next
  case (DumpFails m)
  then show ?thesis using assms by (simp add: test_endpoint_dict add_test_record_dump_fails)
qed

theorem test_endpoint_storage_outcomes_witness:
  "test_endpoint (demo_env\<lparr>write_result := DumpFails ''No space left on device''\<rparr>)
     (JsonReq (JDict [(''prompt'', JStr ''hi'')])) (ListDoc [stamp (demo_record ''a'') ''id-1'' ''t1'']) =
   (TestServerError (server_error_prefix @ ''No space left on device''), Garbled) \<and>
   load_test_history Garbled = Loaded []"
proof -
  let ?e = "demo_env\<lparr>write_result := DumpFails ''No space left on device''\<rparr>"
    and ?kvs = "[(''prompt'', JStr ''hi'')]" and ?f = "ListDoc [stamp (demo_record ''a'') ''id-1'' ''t1'']"
  have p: "truthy (req_prompt ?kvs)" by (simp add: py_get_def)
  have r: "resolve ?e (req_use_mock ?kvs) (req_model ?kvs) (req_type ?kvs) (req_time ?kvs) (req_hour ?kvs) =
           Inr (JStr ''Time to sleep'', 6 / 5)"
    by (simp add: resolve_real call_real_api_def demo_env_def py_get_def total_seconds_def)
  have l: "load_test_history ?f = Loaded [stamp (demo_record ''a'') ''id-1'' ''t1'']"
    by (simp add: load_test_history_def)
  show ?thesis using test_endpoint_storage_outcomes [OF p r l]
    by (simp add: demo_env_def load_test_history_def)
qed

text \<open>
  C29: the store invariant across a sequence of requests: served one after another from
  a well-formed file, with ids drawn fresh and distinct, the file stays a list of at most
  100 records with distinct ids, whatever each request and environment is.
\<close>

theorem serve_preserves_stored_ok:
  assumes "stored_ok f" and "distinct (map (new_uuid \<circ> fst) rs)"
    and "set (map (new_uuid \<circ> fst) rs) \<inter> set (stored_ids f) = {}"
  shows "stored_ok (snd (serve rs f))"
  using serve_stored_ok_ids [OF assms] by blast

theorem serve_preserves_stored_ok_witness:
  "stored_ok NoFile \<and>
   distinct (map (new_uuid \<circ> fst) [(demo_env, JsonReq (JDict [(''prompt'', JStr ''a'')])),
                                   (demo_env\<lparr>new_uuid := ''6a1d-demo''\<rparr>, JsonReq (JDict [(''prompt'', JStr ''b'')]))]) \<and>
   set (map (new_uuid \<circ> fst) [(demo_env, JsonReq (JDict [(''prompt'', JStr ''a'')])),
                              (demo_env\<lparr>new_uuid := ''6a1d-demo''\<rparr>, JsonReq (JDict [(''prompt'', JStr ''b'')]))])
     \<inter> set (stored_ids NoFile) = {} \<and>
   stored_ok (snd (serve [(demo_env, JsonReq (JDict [(''prompt'', JStr ''a'')])),
                          (demo_env\<lparr>new_uuid := ''6a1d-demo''\<rparr>, JsonReq (JDict [(''prompt'', JStr ''b'')]))] NoFile))"
proof -
  let ?rs = "[(demo_env, JsonReq (JDict [(''prompt'', JStr ''a'')])),
              (demo_env\<lparr>new_uuid := ''6a1d-demo''\<rparr>, JsonReq (JDict [(''prompt'', JStr ''b'')]))]"
  have s: "stored_ok NoFile" by (simp add: stored_ok_def)
  have d: "distinct (map (new_uuid \<circ> fst) ?rs)" by (simp add: demo_env_def)
  have i: "set (map (new_uuid \<circ> fst) ?rs) \<inter> set (stored_ids NoFile) = {}" by simp
  show ?thesis using s d i serve_preserves_stored_ok [OF s d i] by blast
qed

text \<open>
  C30: a body that is not JSON, or JSON that is not an object, makes the handler raise
  before validation (\<open>request.json\<close> fails, or \<open>data.get\<close> is not an attribute of a
  list, string, number or \<open>null\<close>): the reply is a 500, not the 400 of an invalid request,
  and the file is unchanged.
\<close>

theorem test_endpoint_malformed_body:
  assumes "\<forall>kvs. v \<noteq> JDict kvs"
  shows "test_endpoint e (BadJson m) f = (TestServerError (server_error_prefix @ m), f) \<and>
         test_endpoint e (JsonReq v) f =
           (TestServerError (server_error_prefix @ exc_str (no_attribute_error v ''get'')), f)"
  using assms by (cases v) (simp_all add: test_endpoint_def)

theorem test_endpoint_malformed_body_witness:
  "test_endpoint demo_env (BadJson ''400 Bad Request'') NoFile =
     (TestServerError (server_error_prefix @ ''400 Bad Request''), NoFile) \<and>
   test_endpoint demo_env (JsonReq (JList [JStr ''hi''])) NoFile =
     (TestServerError (server_error_prefix @ CHR 0x27 # ''list'' @ CHR 0x27 # '' object has no attribute '' @
                       CHR 0x27 # ''get'' @ [CHR 0x27]), NoFile)"
proof -
  have v: "\<forall>kvs. JList [JStr ''hi''] \<noteq> JDict kvs" by simp
  show ?thesis using test_endpoint_malformed_body [OF v, of demo_env "''400 Bad Request''" NoFile]
    by (simp add: no_attribute_error_def quoted_def)
qed

end
