(* ===== verification/Pagination.thy ===== *)
theory Pagination
  imports HistoryStore
begin

text \<open>
  \<open>get_history\<close> (\<^verbatim>\<open>GET /api/history\<close>, \<^verbatim>\<open>app.py\<close> lines 261--291): the query
  arguments \<open>page\<close> and \<open>per_page\<close> are read with \<open>request.args.get(.., type=int)\<close>
  (\<open>arg_int\<close>), the whole history is loaded, the slice
  \<open>history[(page - 1) * per_page : (page - 1) * per_page + per_page]\<close> is taken with
  Python's rules for negative and out-of-range bounds and reversed, and the page count
  is \<open>(len + per_page - 1) // per_page\<close>. Every exception of the body becomes the
  500 reply \<open>HistoryFailed\<close>.
\<close>

subsection \<open>The handler\<close>

datatype history_response =
    HistoryOk "entry list" int int int int \<comment> \<open>data, total, page, per_page, pages\<close>
  | HistoryFailed exc

text \<open>
  The exception \<open>history[start:end]\<close> and \<open>.reverse()\<close> raise on a history document
  that is not an array (CPython 3.11): a string slices but has no \<open>reverse\<close>, a
  dictionary cannot be indexed by a slice, a number or \<open>null\<close> is not subscriptable.
\<close>

fun not_list_error :: "jval \<Rightarrow> exc" where
  "not_list_error (JStr s) = no_attribute_error (JStr s) ''reverse''"
| "not_list_error (JDict kvs) = Exc TypeError (''unhashable type: '' @ quoted ''slice'')"
| "not_list_error v = Exc TypeError (quoted (py_type_name v) @ '' object is not subscriptable'')"

definition get_history :: "string option \<Rightarrow> string option \<Rightarrow> hist_file \<Rightarrow> history_response" where
  "get_history page_arg per_page_arg f =
     (let page = arg_int page_arg 1;
          per_page = arg_int per_page_arg 20
      in case load_test_history f of
           LoadedOther v \<Rightarrow> HistoryFailed (not_list_error v)
         | Loaded history \<Rightarrow>
             (let start = (page - 1) * per_page;
                  stop = start + per_page;
                  paginated = rev (py_slice history (Some start) (Some stop))
              in case py_floordiv (int (length history) + per_page - 1) per_page of
                   Inl e \<Rightarrow> HistoryFailed e
                 | Inr pages \<Rightarrow> HistoryOk paginated (int (length history)) page per_page pages))"

text \<open>The records a successful reply carries.\<close>

fun page_data :: "history_response \<Rightarrow> entry list" where
  "page_data (HistoryOk d _ _ _ _) = d"
| "page_data (HistoryFailed _) = []"

fun page_count :: "history_response \<Rightarrow> int" where
  "page_count (HistoryOk _ _ _ _ n) = n"
| "page_count (HistoryFailed _) = 0"

subsection \<open>Lemmas\<close>

lemma get_history_Loaded:
  assumes "load_test_history f = Loaded h" and "arg_int pa 1 = p" and "arg_int ka 20 = k"
  shows "get_history pa ka f =
           (case py_floordiv (int (length h) + k - 1) k of
              Inl e \<Rightarrow> HistoryFailed e
            | Inr n \<Rightarrow> HistoryOk (rev (py_slice h (Some ((p - 1) * k)) (Some ((p - 1) * k + k))))
                         (int (length h)) p k n)"
  using assms by (simp add: get_history_def Let_def)

lemma page_slice_pos:
  assumes "1 \<le> p" and "1 \<le> k"
  shows "py_slice h (Some ((p - 1) * k)) (Some ((p - 1) * k + k)) =
         take (nat k) (drop (nat (p - 1) * nat k) h)"
proof -
  have "nat ((p - 1) * k + k) - nat ((p - 1) * k) = nat k"
    using assms by (simp add: nat_add_distrib)
  moreover have "nat ((p - 1) * k) = nat (p - 1) * nat k"
    using assms by (simp add: nat_mult_distrib)
  ultimately show ?thesis using assms by (simp add: py_slice_nonneg)
qed

text \<open>\<open>(n + k - 1) // k\<close> is the least page count that covers \<open>n\<close> records.\<close>

lemma ceil_div_bounds:
  assumes "1 \<le> (k::int)" and "0 \<le> n"
  shows "k * ((n + k - 1) div k) \<ge> n \<and> k * ((n + k - 1) div k - 1) < n \<or> (n = 0 \<and> (n + k - 1) div k = 0)"
proof (cases "n = 0")
  case True
  have "(k - 1) div k = 0" using assms by (intro div_pos_pos_trivial) auto
  with True show ?thesis by simp
next
  case False
  have d: "k * ((n + k - 1) div k) + (n + k - 1) mod k = n + k - 1"
    by (simp add: mult_div_mod_eq)
  have m: "0 \<le> (n + k - 1) mod k" "(n + k - 1) mod k < k"
    using assms by simp_all
  from d m have "k * ((n + k - 1) div k) \<ge> n" by linarith
  moreover have "k * ((n + k - 1) div k - 1) = k * ((n + k - 1) div k) - k"
    by (simp add: right_diff_distrib)
  with d m have "k * ((n + k - 1) div k - 1) < n" by linarith
  ultimately show ?thesis by blast
qed

lemma page_count_covers:
  assumes "1 \<le> k"
  shows "length h \<le> nat ((int (length h) + k - 1) div k) * nat k"
proof -
  have "int (length h) \<le> k * ((int (length h) + k - 1) div k)"
    using ceil_div_bounds [OF assms, of "int (length h)"] by auto
  then show ?thesis using assms by (simp add: nat_mult_distrib [symmetric] mult.commute le_nat_iff)
qed

lemma blocks_cover:
  assumes "1 \<le> k"
  shows "concat (map (\<lambda>p. take (nat k) (drop (p * nat k) h)) [0..<nat ((int (length h) + k - 1) div k)]) = h"
  using page_count_covers [OF assms] assms by (simp add: take_drop_concat_blocks)

lemma get_history_pos:
  assumes "load_test_history f = Loaded h" and "arg_int pa 1 = p" and "arg_int ka 20 = k"
    and "1 \<le> p" and "1 \<le> k"
  shows "get_history pa ka f =
           HistoryOk (rev (take (nat k) (drop (nat (p - 1) * nat k) h))) (int (length h)) p k
             ((int (length h) + k - 1) div k)"
  using get_history_Loaded [OF assms(1-3)] page_slice_pos [OF assms(4,5)] assms(5)
  by (simp add: py_floordiv_pos)

lemma get_history_last_page:
  assumes "load_test_history f = Loaded h" and "h \<noteq> []" and "arg_int ka 20 = k" and "1 \<le> k"
  shows "hd (page_data (get_history (Some (dec_int (page_count (get_history None ka f)))) ka f)) = last h"
proof -
  let ?n = "(int (length h) + k - 1) div k"
  have one: "arg_int None 1 = 1" by (simp add: arg_int_def)
  have cnt: "page_count (get_history None ka f) = ?n"
    using get_history_pos [OF assms(1) one assms(3) _ assms(4)] by simp
  have b: "int (length h) \<le> k * ?n" "k * (?n - 1) < int (length h)"
    using ceil_div_bounds [OF assms(4), of "int (length h)"] assms(2) by auto
  have "0 < int (length h)" using assms(2) by simp
  then have "0 < k * ?n" using b(1) by linarith
  then have n1: "1 \<le> ?n" using assms(4) by (simp add: zero_less_mult_iff)
  have lo: "nat (?n - 1) * nat k < length h"
    using b(2) assms(4) n1 by (simp add: nat_mult_distrib [symmetric] mult.commute nat_less_iff)
  have hi: "length h - nat (?n - 1) * nat k \<le> nat k"
  proof -
    have "k * ?n = k * (?n - 1) + k" by (simp add: algebra_simps)
    then show ?thesis using b(1) n1 assms(4) by (simp add: nat_mult_distrib [symmetric] mult.commute nat_le_iff)
  qed
  have pg: "page_data (get_history (Some (dec_int ?n)) ka f) = rev (drop (nat (?n - 1) * nat k) h)"
    using get_history_pos [OF assms(1) arg_int_dec_int assms(3) n1 assms(4)] hi by simp
  show ?thesis using pg lo cnt by (simp add: hd_rev)
qed

subsection \<open>Properties of \<open>get_history\<close>\<close>

text \<open>
  C8: for a page \<open>p \<ge> 1\<close> and a page size \<open>k \<ge> 1\<close>, the reply holds the \<open>p\<close>-th
  block of \<open>k\<close> records of the history in file order, reversed; the total is the number
  of records and the page count is the least number of blocks that covers them.
\<close>

theorem get_history_returns_page:
  assumes "load_test_history f = Loaded h" and "arg_int pa 1 = p" and "arg_int ka 20 = k"
    and "1 \<le> p" and "1 \<le> k"
  shows "\<exists>n. get_history pa ka f =
              HistoryOk (rev (take (nat k) (drop (nat (p - 1) * nat k) h))) (int (length h)) p k n \<and>
              (int (length h) \<le> k * n \<and> k * (n - 1) < int (length h) \<or> (h = [] \<and> n = 0))"
  using get_history_pos [OF assms] ceil_div_bounds [OF assms(5), of "int (length h)"] by auto

theorem get_history_returns_page_witness:
  "load_test_history (ListDoc [stamp (demo_record ''a'') ''1'' ''t'', stamp (demo_record ''b'') ''2'' ''t'',
                                 stamp (demo_record ''c'') ''3'' ''t'']) =
     Loaded [stamp (demo_record ''a'') ''1'' ''t'', stamp (demo_record ''b'') ''2'' ''t'',
             stamp (demo_record ''c'') ''3'' ''t''] \<and>
   arg_int (Some ''2'') 1 = 2 \<and> arg_int (Some ''2'') 20 = 2 \<and> (1::int) \<le> 2 \<and>
   (\<exists>n. get_history (Some ''2'') (Some ''2'')
          (ListDoc [stamp (demo_record ''a'') ''1'' ''t'', stamp (demo_record ''b'') ''2'' ''t'',
                    stamp (demo_record ''c'') ''3'' ''t'']) =
        HistoryOk [stamp (demo_record ''c'') ''3'' ''t''] 3 2 2 n \<and>
        3 \<le> 2 * n \<and> 2 * (n - 1) < 3)"
proof -
  let ?h = "[stamp (demo_record ''a'') ''1'' ''t'', stamp (demo_record ''b'') ''2'' ''t'',
             stamp (demo_record ''c'') ''3'' ''t'']"
  have l: "load_test_history (ListDoc ?h) = Loaded ?h" by (simp add: save_load_roundtrip)
  have a: "arg_int (Some ''2'') 1 = 2" "arg_int (Some ''2'') 20 = 2"
    by (simp_all add: py_int_eval py_simps)
  show ?thesis
    using l a get_history_returns_page [OF l a(1) a(2)] by (simp add: numeral_3_eq_3)
qed

text \<open>
  C9: the pages partition the history. Reading pages \<open>1, 2, \<dots>\<close> up to the page count
  (the query arguments written as Python writes the numbers) and putting each page back
  in file order yields the whole history, each record once.
\<close>

theorem get_history_pages_partition:
  assumes "load_test_history f = Loaded h" and "arg_int ka 20 = k" and "1 \<le> k"
  shows "concat (map (\<lambda>i. rev (page_data (get_history (Some (dec_nat (Suc i))) ka f)))
                     [0..<nat (page_count (get_history None ka f))]) = h"
proof -
  have one: "arg_int None 1 = 1" by (simp add: arg_int_def)
  have cnt: "page_count (get_history None ka f) = (int (length h) + k - 1) div k"
    using get_history_pos [OF assms(1) one assms(2) _ assms(3)] by simp
  have pg: "rev (page_data (get_history (Some (dec_nat (Suc i))) ka f)) =
            take (nat k) (drop (i * nat k) h)" for i
    using get_history_pos [OF assms(1) arg_int_dec_nat assms(2) _ assms(3)] by simp
  show ?thesis using blocks_cover [OF assms(3), of h] by (simp add: cnt pg)
qed

theorem get_history_pages_partition_witness:
  "load_test_history (ListDoc [stamp (demo_record ''a'') ''1'' ''t'', stamp (demo_record ''b'') ''2'' ''t'',
                                 stamp (demo_record ''c'') ''3'' ''t'']) =
     Loaded [stamp (demo_record ''a'') ''1'' ''t'', stamp (demo_record ''b'') ''2'' ''t'',
             stamp (demo_record ''c'') ''3'' ''t''] \<and>
   arg_int (Some ''2'') 20 = 2 \<and> (1::int) \<le> 2 \<and>
   concat (map (\<lambda>i. rev (page_data (get_history (Some (dec_nat (Suc i))) (Some ''2'')
                    (ListDoc [stamp (demo_record ''a'') ''1'' ''t'', stamp (demo_record ''b'') ''2'' ''t'',
                              stamp (demo_record ''c'') ''3'' ''t'']))))
     [0..<nat (page_count (get_history None (Some ''2'')
                    (ListDoc [stamp (demo_record ''a'') ''1'' ''t'', stamp (demo_record ''b'') ''2'' ''t'',
                              stamp (demo_record ''c'') ''3'' ''t''])))]) =
   [stamp (demo_record ''a'') ''1'' ''t'', stamp (demo_record ''b'') ''2'' ''t'',
    stamp (demo_record ''c'') ''3'' ''t'']"
proof -
  let ?h = "[stamp (demo_record ''a'') ''1'' ''t'', stamp (demo_record ''b'') ''2'' ''t'',
             stamp (demo_record ''c'') ''3'' ''t'']"
  have l: "load_test_history (ListDoc ?h) = Loaded ?h" by (simp add: save_load_roundtrip)
  have a: "arg_int (Some ''2'') 20 = 2" by (simp add: py_int_eval py_simps)
  have k: "(1::int) \<le> 2" by simp
  show ?thesis using l a k get_history_pages_partition [OF l a k] by blast
qed

text \<open>
  C10: a page past the last one is empty, and not an error.
\<close>

theorem get_history_past_last_page_empty:
  assumes "load_test_history f = Loaded h" and "arg_int pa 1 = p" and "arg_int ka 20 = k"
    and "1 \<le> k" and "page_count (get_history pa ka f) < p"
  shows "\<exists>n. get_history pa ka f = HistoryOk [] (int (length h)) p k n"
proof -
  let ?n = "(int (length h) + k - 1) div k"
  have cnt: "page_count (get_history pa ka f) = ?n" if "1 \<le> p"
    using get_history_pos [OF assms(1-3) that assms(4)] by simp
  have "0 \<le> ?n" using assms(4) by (simp add: pos_imp_zdiv_nonneg_iff)
  have p: "1 \<le> p"
  proof (rule ccontr)
    assume "\<not> 1 \<le> p"
    then have "get_history pa ka f = HistoryOk (rev (py_slice h (Some ((p - 1) * k)) (Some ((p - 1) * k + k))))
                 (int (length h)) p k ?n"
      using get_history_Loaded [OF assms(1-3)] assms(4) by (simp add: py_floordiv_pos)
    then show False using assms(5) \<open>\<not> 1 \<le> p\<close> \<open>0 \<le> ?n\<close> by simp
  qed
  have "length h \<le> nat ?n * nat k" by (rule page_count_covers [OF assms(4)])
  moreover have "nat ?n \<le> nat (p - 1)" using assms(5) cnt [OF p] by simp
  ultimately have "length h \<le> nat (p - 1) * nat k"
    by (meson le_trans mult_le_mono1)
  then show ?thesis using get_history_pos [OF assms(1-3) p assms(4)] by simp
qed

theorem get_history_past_last_page_empty_witness:
  "load_test_history (ListDoc [stamp (demo_record ''a'') ''1'' ''t'']) = Loaded [stamp (demo_record ''a'') ''1'' ''t''] \<and>
   arg_int (Some ''5'') 1 = 5 \<and> arg_int None 20 = 20 \<and> (1::int) \<le> 20 \<and>
   page_count (get_history (Some ''5'') None (ListDoc [stamp (demo_record ''a'') ''1'' ''t''])) < 5 \<and>
   (\<exists>n. get_history (Some ''5'') None (ListDoc [stamp (demo_record ''a'') ''1'' ''t'']) = HistoryOk [] 1 5 20 n)"
proof -
  let ?h = "[stamp (demo_record ''a'') ''1'' ''t'']"
  have l: "load_test_history (ListDoc ?h) = Loaded ?h" by (simp add: save_load_roundtrip)
  have a: "arg_int (Some ''5'') 1 = 5" "arg_int None 20 = 20" by (simp_all add: py_int_eval py_simps)
  have k: "(1::int) \<le> 20" by simp
  have c: "page_count (get_history (Some ''5'') None (ListDoc ?h)) < 5"
    using get_history_pos [OF l a _ k] by simp
  show ?thesis using l a k c get_history_past_last_page_empty [OF l a k c] by simp
qed

text \<open>
  C11: the first page holds the oldest records, not the most recent ones: with more
  records than fit on a page, page 1 is the first \<open>k\<close> records of the file, reversed,
  and the newest record is not on it. (The spec promises the most recent first.)
\<close>

theorem get_history_first_page_oldest:
  assumes "load_test_history f = Loaded h" and "arg_int pa 1 = 1" and "arg_int ka 20 = k"
    and "1 \<le> k" and "nat k < length h" and "distinct h"
  shows "page_data (get_history pa ka f) = rev (take (nat k) h) \<and>
         last h \<notin> set (page_data (get_history pa ka f))"
proof -
  have d: "page_data (get_history pa ka f) = rev (take (nat k) h)"
    using get_history_pos [OF assms(1-3) _ assms(4)] by simp
  have ne: "drop (nat k) h \<noteq> []" using assms(5) by simp
  have "last (drop (nat k) h) \<in> set (drop (nat k) h)" using ne by (rule last_in_set)
  then have "last h \<in> set (drop (nat k) h)" using assms(5) by simp
  then have "last h \<notin> set (take (nat k) h)"
    using set_take_disj_set_drop_if_distinct [OF assms(6), of "nat k" "nat k"] by blast
  with d show ?thesis by simp
qed

theorem get_history_first_page_oldest_witness:
  "load_test_history (ListDoc [stamp (demo_record ''a'') ''1'' ''t'', stamp (demo_record ''b'') ''2'' ''t'']) =
     Loaded [stamp (demo_record ''a'') ''1'' ''t'', stamp (demo_record ''b'') ''2'' ''t''] \<and>
   arg_int None 1 = 1 \<and> arg_int (Some ''1'') 20 = 1 \<and> (1::int) \<le> 1 \<and>
   nat 1 < length [stamp (demo_record ''a'') ''1'' ''t'', stamp (demo_record ''b'') ''2'' ''t''] \<and>
   distinct [stamp (demo_record ''a'') ''1'' ''t'', stamp (demo_record ''b'') ''2'' ''t''] \<and>
   page_data (get_history None (Some ''1'')
     (ListDoc [stamp (demo_record ''a'') ''1'' ''t'', stamp (demo_record ''b'') ''2'' ''t''])) =
     [stamp (demo_record ''a'') ''1'' ''t''] \<and>
   stamp (demo_record ''b'') ''2'' ''t'' \<notin> set (page_data (get_history None (Some ''1'')
     (ListDoc [stamp (demo_record ''a'') ''1'' ''t'', stamp (demo_record ''b'') ''2'' ''t''])))"
proof -
  let ?h = "[stamp (demo_record ''a'') ''1'' ''t'', stamp (demo_record ''b'') ''2'' ''t'']"
  have l: "load_test_history (ListDoc ?h) = Loaded ?h" by (simp add: save_load_roundtrip)
  have a: "arg_int None 1 = 1" "arg_int (Some ''1'') 20 = 1" by (simp_all add: py_int_eval py_simps)
  have k: "(1::int) \<le> 1" and n: "nat 1 < length ?h" by simp_all
  have d: "distinct ?h" by (simp add: stamp_def demo_record_def)
  show ?thesis using l a k n d get_history_first_page_oldest [OF l a k n d] by simp
qed

text \<open>
  C12: pages numbered 0 or below are not rejected. Page 0 is empty; a negative page
  \<open>p\<close> is read from the end of the history by Python's negative slice bounds: it is
  the block that ends \<open>-p\<close> pages before the end of the file.
\<close>

theorem get_history_nonpositive_page:
  assumes "load_test_history f = Loaded h" and "arg_int pa 1 = p" and "arg_int ka 20 = k"
    and "1 \<le> k"
  shows "(p = 0 \<longrightarrow> page_data (get_history pa ka f) = []) \<and>
         (p < 0 \<and> (1 - p) * k \<le> int (length h) \<longrightarrow>
            page_data (get_history pa ka f) =
              rev (take (nat k) (drop (length h - nat ((1 - p) * k)) h)))"
proof (intro conjI impI)
  have g: "page_data (get_history pa ka f) =
             rev (py_slice h (Some ((p - 1) * k)) (Some ((p - 1) * k + k)))"
    using get_history_Loaded [OF assms(1-3)] assms(4) by (simp add: py_floordiv_pos)
  show "page_data (get_history pa ka f) = []" if "p = 0"
    using g that assms(4) by (simp add: py_slice_empty_hi_zero)
  assume neg: "p < 0 \<and> (1 - p) * k \<le> int (length h)"
  have pk: "p * k < 0" using neg assms(4) by (simp add: mult_neg_pos)
  have lo: "(p - 1) * k < 0" using neg assms(4) by (intro mult_neg_pos) auto
  have hi: "(p - 1) * k + k < 0" using pk by (simp add: algebra_simps)
  have "- ((p - 1) * k) \<le> int (length h)" using neg by (simp add: algebra_simps)
  then have "py_slice h (Some ((p - 1) * k)) (Some ((p - 1) * k + k)) =
             take (nat k) (drop (nat (int (length h) + (p - 1) * k)) h)"
    using lo hi assms(4) by (simp add: py_slice_neg)
  moreover have "nat (int (length h) + (p - 1) * k) = length h - nat ((1 - p) * k)"
  proof -
    have "int (length h) + (p - 1) * k = int (length h) - (1 - p) * k" by (simp add: algebra_simps)
    moreover have "0 \<le> (1 - p) * k" using neg assms(4) by simp
    ultimately show ?thesis by (simp add: nat_diff_distrib')
  qed
  ultimately show "page_data (get_history pa ka f) =
                     rev (take (nat k) (drop (length h - nat ((1 - p) * k)) h))"
    using g by simp
qed

theorem get_history_nonpositive_page_witness:
  "load_test_history (ListDoc [stamp (demo_record ''a'') ''1'' ''t'', stamp (demo_record ''b'') ''2'' ''t'',
                                 stamp (demo_record ''c'') ''3'' ''t'']) =
     Loaded [stamp (demo_record ''a'') ''1'' ''t'', stamp (demo_record ''b'') ''2'' ''t'',
             stamp (demo_record ''c'') ''3'' ''t''] \<and>
   arg_int (Some ''-1'') 1 = -1 \<and> arg_int (Some ''1'') 20 = 1 \<and> (1::int) \<le> 1 \<and>
   page_data (get_history (Some ''-1'') (Some ''1'')
     (ListDoc [stamp (demo_record ''a'') ''1'' ''t'', stamp (demo_record ''b'') ''2'' ''t'',
               stamp (demo_record ''c'') ''3'' ''t''])) = [stamp (demo_record ''b'') ''2'' ''t'']"
proof -
  let ?h = "[stamp (demo_record ''a'') ''1'' ''t'', stamp (demo_record ''b'') ''2'' ''t'',
             stamp (demo_record ''c'') ''3'' ''t'']"
  have l: "load_test_history (ListDoc ?h) = Loaded ?h" by (simp add: save_load_roundtrip)
  have a: "arg_int (Some ''-1'') 1 = -1" "arg_int (Some ''1'') 20 = 1"
    by (simp_all add: py_int_eval py_simps)
  have k: "(1::int) \<le> 1" by simp
  show ?thesis using l a k get_history_nonpositive_page [OF l a k] by (simp add: numeral_2_eq_2)
qed

text \<open>
  C13: \<open>per_page=0\<close> is not rejected by the argument parsing; the page count's floor
  division then raises \<open>ZeroDivisionError\<close> and the reply is the 500 error.
\<close>

theorem get_history_zero_per_page:
  assumes "load_test_history f = Loaded h" and "arg_int ka 20 = 0"
  shows "get_history pa ka f = HistoryFailed (Exc ZeroDivisionError ''integer division or modulo by zero'')"
  using get_history_Loaded [OF assms(1) refl assms(2)] by (simp add: py_floordiv_def)

theorem get_history_zero_per_page_witness:
  "load_test_history NoFile = Loaded [] \<and> arg_int (Some ''0'') 20 = 0 \<and>
   get_history None (Some ''0'') NoFile =
     HistoryFailed (Exc ZeroDivisionError ''integer division or modulo by zero'')"
proof -
  have l: "load_test_history NoFile = Loaded []" by (simp add: load_test_history_def)
  have a: "arg_int (Some ''0'') 20 = 0" by (simp add: py_int_eval py_simps)
  show ?thesis using l a get_history_zero_per_page [OF l a] by simp
qed

text \<open>
  C14: a negative page size is not rejected either. With \<open>per_page=-1\<close> page 1 is the
  slice \<open>history[0:-1]\<close>: every record but the newest, and the reported page count
  \<open>(n - 2) // -1 = 2 - n\<close> is negative once there are three records.
\<close>

theorem get_history_minus_one_per_page:
  assumes "load_test_history f = Loaded h" and "arg_int pa 1 = 1" and "arg_int ka 20 = -1"
  shows "get_history pa ka f = HistoryOk (rev (butlast h)) (int (length h)) 1 (-1) (2 - int (length h))"
proof -
  have "py_slice h (Some 0) (Some (-1)) = butlast h"
    by (cases "h = []") (simp_all add: py_slice_def py_norm_def butlast_conv_take nat_diff_distrib')
  moreover have "(int (length h) + -1 - 1) div -1 = 2 - int (length h)" by simp
  ultimately show ?thesis using get_history_Loaded [OF assms] by (simp add: py_floordiv_def)
qed

theorem get_history_minus_one_per_page_witness:
  "load_test_history (ListDoc [stamp (demo_record ''a'') ''1'' ''t'', stamp (demo_record ''b'') ''2'' ''t'',
                                 stamp (demo_record ''c'') ''3'' ''t'']) =
     Loaded [stamp (demo_record ''a'') ''1'' ''t'', stamp (demo_record ''b'') ''2'' ''t'',
             stamp (demo_record ''c'') ''3'' ''t''] \<and>
   arg_int None 1 = 1 \<and> arg_int (Some ''-1'') 20 = -1 \<and>
   get_history None (Some ''-1'')
     (ListDoc [stamp (demo_record ''a'') ''1'' ''t'', stamp (demo_record ''b'') ''2'' ''t'',
               stamp (demo_record ''c'') ''3'' ''t'']) =
   HistoryOk [stamp (demo_record ''b'') ''2'' ''t'', stamp (demo_record ''a'') ''1'' ''t''] 3 1 (-1) (-1)"
proof -
  let ?h = "[stamp (demo_record ''a'') ''1'' ''t'', stamp (demo_record ''b'') ''2'' ''t'',
             stamp (demo_record ''c'') ''3'' ''t'']"
  have l: "load_test_history (ListDoc ?h) = Loaded ?h" by (simp add: save_load_roundtrip)
  have a: "arg_int None 1 = 1" "arg_int (Some ''-1'') 20 = -1" by (simp_all add: py_int_eval py_simps)
  show ?thesis using l a get_history_minus_one_per_page [OF l a] by simp
qed


end
