(* ===== verification/Concurrency.thy ===== *)
theory Concurrency
  imports Pagination
begin

text \<open>
  Concurrent appends. \<open>add_test_record\<close> (\<^verbatim>\<open>app.py\<close> lines 32--44) is a
  read-modify-write of the history file with no lock, and the Flask server may run two
  requests at once. Each request's append is a worker that goes through the phases of the
  code: it reads the file and computes the new list (\<open>load_test_history\<close>, append, trim:
  lines 34--42), opens the file for writing, which truncates it (line 29), and writes the
  list (\<open>json.dump\<close>, line 30). \<open>cstep\<close> lets any worker take its next phase, so its
  reachable states are all interleavings. A truncated file is empty, which
  \<open>load_test_history\<close> reads as an empty history, so it is the state \<open>Garbled\<close>.

  The write of a worker is modelled as a whole: it either leaves the worker's list in the
  file or leaves unparseable content (a failed dump, or bytes written over a longer
  document another worker wrote after this worker's truncation). Letting every write end
  either way over-approximates the byte-level outcome, which keeps the invariant below
  sound; the runs used as counterexamples only take steps the real program takes.
\<close>

subsection \<open>Workers and steps\<close>

datatype worker =
    Ready test_record string string \<comment> \<open>record, drawn id, time stamp; nothing read yet\<close>
  | Holding "entry list" \<comment> \<open>file read, new list computed in memory\<close>
  | Opened "entry list" \<comment> \<open>file opened with mode \<open>'w'\<close>, hence truncated\<close>
  | Finished

text \<open>Lines 34--42: the list a worker computes from the history it read.\<close>

definition appended :: "test_record \<Rightarrow> string \<Rightarrow> string \<Rightarrow> entry list \<Rightarrow> entry list" where
  "appended r u t h =
     (let h1 = h @ [stamp r u t]
      in if length h1 > 100 then py_slice h1 (Some (-100)) None else h1)"

type_synonym conc_state = "hist_file \<times> worker list"

inductive cstep :: "conc_state \<Rightarrow> conc_state \<Rightarrow> bool" where
  c_load: "i < length ws \<Longrightarrow> ws ! i = Ready r u t \<Longrightarrow> load_test_history f = Loaded h \<Longrightarrow>
    cstep (f, ws) (f, ws[i := Holding (appended r u t h)])"
| c_load_other: "i < length ws \<Longrightarrow> ws ! i = Ready r u t \<Longrightarrow> load_test_history f = LoadedOther v \<Longrightarrow>
    cstep (f, ws) (f, ws[i := Finished])"
| c_open: "i < length ws \<Longrightarrow> ws ! i = Holding h \<Longrightarrow>
    cstep (f, ws) (Garbled, ws[i := Opened h])"
| c_open_fail: "i < length ws \<Longrightarrow> ws ! i = Holding h \<Longrightarrow>
    cstep (f, ws) (f, ws[i := Finished])"
| c_dump: "i < length ws \<Longrightarrow> ws ! i = Opened h \<Longrightarrow>
    cstep (f, ws) (ListDoc h, ws[i := Finished])"
| c_dump_garbled: "i < length ws \<Longrightarrow> ws ! i = Opened h \<Longrightarrow>
    cstep (f, ws) (Garbled, ws[i := Finished])"

code_pred cstep .

subsection \<open>The store invariant under interleaving\<close>

fun held :: "worker \<Rightarrow> entry list list" where
  "held (Holding h) = [h]"
| "held (Opened h) = [h]"
| "held _ = []"

fun pending :: "worker \<Rightarrow> string list" where
  "pending (Ready r u t) = [u]"
| "pending _ = []"

text \<open>
  The file and every list a worker holds are well-formed stores; the ids of the workers
  that have not read yet are distinct and occur neither in the file nor in a held list.
\<close>

definition conc_ok :: "conc_state \<Rightarrow> bool" where
  "conc_ok s =
     (case s of (f, ws) \<Rightarrow>
        stored_ok f \<and> list_all (\<lambda>h. stored_ok (ListDoc h)) (concat (map held ws)) \<and>
        distinct (concat (map pending ws)) \<and>
        list_all (\<lambda>u. u \<notin> set (stored_ids f) \<and> list_all (\<lambda>h. u \<notin> set (map record_id h)) (concat (map held ws)))
          (concat (map pending ws)))"

definition ready :: "test_record \<times> string \<times> string \<Rightarrow> worker" where
  "ready x = (case x of (r, u, t) \<Rightarrow> Ready r u t)"

text \<open>The states a single worker passes through, from its start to each possible end.\<close>

definition solo_reach :: "hist_file \<Rightarrow> test_record \<Rightarrow> string \<Rightarrow> string \<Rightarrow> conc_state \<Rightarrow> bool" where
  "solo_reach f r u t s \<longleftrightarrow>
     s = (f, [Ready r u t]) \<or>
     (\<exists>h. load_test_history f = Loaded h \<and>
          (s = (f, [Holding (appended r u t h)]) \<or> s = (Garbled, [Opened (appended r u t h)]))) \<or>
     (\<exists>w. s = (snd (add_test_record r u t w f), [Finished]))"

text \<open>How far a worker is from finishing: the steps it has left.\<close>

fun phase_rank :: "worker \<Rightarrow> nat" where
  "phase_rank (Ready r u t) = 3"
| "phase_rank (Holding h) = 2"
| "phase_rank (Opened h) = 1"
| "phase_rank Finished = 0"

definition rank :: "conc_state \<Rightarrow> nat" where
  "rank s = sum_list (map phase_rank (snd s))"

subsection \<open>Lemmas\<close>

lemma appended_keep_last: "appended r u t h = keep_last 100 (h @ [stamp r u t])"
  using trim_is_keep_last [of "h @ [stamp r u t]"] by (simp add: appended_def Let_def)

lemma concat_map_update:
  "i < length ws \<Longrightarrow>
   concat (map g (ws[i := x])) = concat (map g (take i ws)) @ g x @ concat (map g (drop (Suc i) ws))"
  by (simp add: upd_conv_take_nth_drop)

lemma concat_map_nth:
  "i < length ws \<Longrightarrow>
   concat (map g ws) = concat (map g (take i ws)) @ g (ws ! i) @ concat (map g (drop (Suc i) ws))"
  using id_take_nth_drop [of i ws] by (metis concat_map_update list_update_id)

lemma set_concat_map_update:
  "set (concat (map g (ws[i := x]))) \<subseteq> set (g x) \<union> set (concat (map g ws))"
  using set_update_subset_insert [of ws i x] by auto

lemma distinct_concat_map_remove:
  assumes "i < length ws" and "g x = []" and "distinct (concat (map g ws))"
  shows "distinct (concat (map g (ws[i := x]))) \<and>
         set (g (ws ! i)) \<inter> set (concat (map g (ws[i := x]))) = {} \<and>
         set (concat (map g (ws[i := x]))) \<subseteq> set (concat (map g ws))"
  using assms concat_map_nth [OF assms(1), of g] by (auto simp: concat_map_update)

lemma concat_map_update_same:
  "i < length ws \<Longrightarrow> g x = g (ws ! i) \<Longrightarrow> concat (map g (ws[i := x])) = concat (map g ws)"
proof -
  assume i: "i < length ws" and x: "g x = g (ws ! i)"
  have "(map g ws)[i := g (ws ! i)] = map g ws"
    using list_update_id [of "map g ws" i] i by simp
  then show ?thesis using x by (simp add: map_update)
qed


lemma conc_ok_iff:
  "conc_ok (f, ws) \<longleftrightarrow>
     stored_ok f \<and> (\<forall>h\<in>set (concat (map held ws)). stored_ok (ListDoc h)) \<and>
     distinct (concat (map pending ws)) \<and>
     (\<forall>u\<in>set (concat (map pending ws)). u \<notin> set (stored_ids f) \<and>
        (\<forall>h\<in>set (concat (map held ws)). u \<notin> set (map record_id h)))"
  by (simp add: conc_ok_def list_all_iff)

lemma appended_ok:
  assumes "load_test_history f = Loaded h" and "stored_ok f" and "u \<notin> set (stored_ids f)"
  shows "stored_ok (ListDoc (appended r u t h)) \<and>
         set (map record_id (appended r u t h)) \<subseteq> set (stored_ids f) \<union> {u}"
proof -
  have ids: "stored_ids f = map record_id h" by (rule stored_ids_Loaded [OF assms(1)])
  have "stored_ok (ListDoc (keep_last 100 (h @ [stamp r u t])))"
    using stored_ok_Loaded [OF assms(2,1)] assms(3) ids by (intro stored_ok_keep_last) simp_all
  moreover have "set (map record_id (keep_last 100 (h @ [stamp r u t]))) \<subseteq> set (stored_ids f) \<union> {u}"
    using keep_last_set [of 100 "h @ [stamp r u t]"] ids by auto
  ultimately show ?thesis by (simp add: appended_keep_last)
qed

lemma finish_conc_ok:
  assumes ok: "conc_ok (f, ws)" and i: "i < length ws" and f': "stored_ok f'"
    and fresh: "\<forall>u\<in>set (concat (map pending ws)). u \<notin> set (stored_ids f')"
  shows "conc_ok (f', ws[i := Finished])"
proof -
  have d: "distinct (concat (map pending ws))" using ok by (simp add: conc_ok_iff)
  have P: "distinct (concat (map pending (ws[i := Finished]))) \<and>
           set (concat (map pending (ws[i := Finished]))) \<subseteq> set (concat (map pending ws))"
    using distinct_concat_map_remove [OF i _ d, of Finished] by simp
  have H: "set (concat (map held (ws[i := Finished]))) \<subseteq> set (concat (map held ws))"
    using set_concat_map_update [of held ws i Finished] by simp
  show ?thesis using ok P H f' fresh unfolding conc_ok_iff by blast
qed

lemma finish_conc_ok_same:
  assumes "conc_ok (f, ws)" and "i < length ws"
  shows "conc_ok (f, ws[i := Finished])"
proof (rule finish_conc_ok [OF assms])
  show "stored_ok f" and "\<forall>u\<in>set (concat (map pending ws)). u \<notin> set (stored_ids f)"
    using assms(1) unfolding conc_ok_iff by blast+
qed

lemma cstep_conc_ok:
  "cstep s s' \<Longrightarrow> conc_ok s \<Longrightarrow> conc_ok s'"
proof (induction rule: cstep.induct)
  case (c_load i ws r u t f h)
  let ?ws = "ws[i := Holding (appended r u t h)]"
  have P: "distinct (concat (map pending ?ws)) \<and> u \<notin> set (concat (map pending ?ws)) \<and>
           set (concat (map pending ?ws)) \<subseteq> set (concat (map pending ws))"
    using distinct_concat_map_remove [of i ws pending "Holding (appended r u t h)"] c_load
    by (auto simp: conc_ok_iff)
  have H: "set (concat (map held ?ws)) \<subseteq> insert (appended r u t h) (set (concat (map held ws)))"
    using set_concat_map_update [of held ws i "Holding (appended r u t h)"] by simp
  have u: "u \<in> set (concat (map pending ws))"
    using c_load.hyps(1,2) concat_map_nth [OF c_load.hyps(1), of pending] by simp
  have A: "stored_ok (ListDoc (appended r u t h)) \<and>
           set (map record_id (appended r u t h)) \<subseteq> set (stored_ids f) \<union> {u}"
  proof -
    have "stored_ok f" and "u \<notin> set (stored_ids f)" using u c_load.prems unfolding conc_ok_iff by blast+
    then show ?thesis by (rule appended_ok [OF c_load.hyps(3)])
  qed
  show ?case using P H A u c_load.prems unfolding conc_ok_iff by blast
next
  case (c_load_other i ws r u t f v)
  then show ?case by (simp add: finish_conc_ok_same)
next
  case (c_open i ws h f)
  then show ?case
    by (simp add: conc_ok_iff concat_map_update_same stored_ok_def)
next
  case (c_open_fail i ws h f)
  then show ?case by (simp add: finish_conc_ok_same)
next
  case (c_dump i ws h f)
  have h: "h \<in> set (concat (map held ws))"
    using c_dump.hyps concat_map_nth [OF c_dump.hyps(1), of held] by simp
  have "stored_ok (ListDoc h)" and "\<forall>u\<in>set (concat (map pending ws)). u \<notin> set (stored_ids (ListDoc h))"
    using c_dump.prems h unfolding conc_ok_iff stored_ids.simps by blast+
  then show ?case by (rule finish_conc_ok [OF c_dump.prems c_dump.hyps(1)])
next
  case (c_dump_garbled i ws h f)
  then show ?case by (intro finish_conc_ok) (simp_all add: stored_ok_def)
qed

lemma reachable_conc_ok:
  "cstep\<^sup>*\<^sup>* s s' \<Longrightarrow> conc_ok s \<Longrightarrow> conc_ok s'"
  by (induction rule: rtranclp_induct) (auto intro: cstep_conc_ok)

lemma conc_ok_init:
  assumes "stored_ok f" and "distinct (map (fst \<circ> snd) rs)"
    and "set (map (fst \<circ> snd) rs) \<inter> set (stored_ids f) = {}"
  shows "conc_ok (f, map ready rs)"
proof -
  have p: "concat (map pending (map ready rs)) = map (fst \<circ> snd) rs"
    by (induction rs) (auto simp: ready_def)
  have h: "concat (map held (map ready rs)) = []"
    by (induction rs) (auto simp: ready_def)
  show ?thesis using assms unfolding conc_ok_iff p h by auto
qed

inductive_simps cstep_simps: "cstep s s'"

lemma add_test_record_file:
  "snd (add_test_record r u t w f) =
     (case load_test_history f of
        LoadedOther v \<Rightarrow> f
      | Loaded h \<Rightarrow> (case w of WriteOk \<Rightarrow> ListDoc (appended r u t h) | OpenFails m \<Rightarrow> f | DumpFails m \<Rightarrow> Garbled))"
proof (cases "load_test_history f")
  case (Loaded h)
  then show ?thesis
    by (simp add: add_test_record_Loaded appended_keep_last save_test_history_def split: write_outcome.split)
next
  case (LoadedOther v)
  then show ?thesis by (simp add: add_test_record_def)
qed

lemma solo_step:
  assumes "cstep s s'" and "solo_reach f r u t s"
  shows "solo_reach f r u t s'"
proof -
  have w: "\<exists>w. f' = snd (add_test_record r u t w f)" if "f' = f \<or> f' = Garbled \<or>
      (\<exists>h. load_test_history f = Loaded h \<and> f' = ListDoc (appended r u t h))"
      and "(\<exists>h. load_test_history f = Loaded h) \<or> f' = f" for f'
  proof (cases "load_test_history f")
    case (Loaded h)
    then show ?thesis using that
      by (auto simp: add_test_record_file intro: exI [of _ WriteOk] exI [of _ "OpenFails []"] exI [of _ "DumpFails []"])
  next
    case (LoadedOther v)
    then show ?thesis using that by (auto simp: add_test_record_file)
  qed
  show ?thesis using assms unfolding solo_reach_def cstep_simps
    by (elim disjE exE conjE) (auto simp: less_Suc_eq nth_Cons' intro!: w split: if_splits)
qed

lemma solo_reachable:
  "cstep\<^sup>*\<^sup>* (f, [Ready r u t]) s \<Longrightarrow> solo_reach f r u t s"
proof (induction rule: rtranclp_induct)
  case base
  then show ?case by (simp add: solo_reach_def)
next
  case (step s s')
  then show ?case using solo_step by blast
qed

lemma solo_runs:
  "cstep\<^sup>*\<^sup>* (f, [Ready r u t]) (snd (add_test_record r u t w f), [Finished])"
proof (cases "load_test_history f")
  case (Loaded h)
  let ?a = "appended r u t h"
  have 1: "cstep (f, [Ready r u t]) (f, [Holding ?a])"
    using c_load [of 0 "[Ready r u t]" r u t f h] Loaded by simp
  have 2: "cstep (f, [Holding ?a]) (Garbled, [Opened ?a])"
    using c_open [of 0 "[Holding ?a]" ?a f] by simp
  have 3: "cstep (Garbled, [Opened ?a]) (ListDoc ?a, [Finished])"
    using c_dump [of 0 "[Opened ?a]" ?a Garbled] by simp
  have g: "cstep (Garbled, [Opened ?a]) (Garbled, [Finished])"
    using c_dump_garbled [of 0 "[Opened ?a]" ?a Garbled] by simp
  have o: "cstep (f, [Holding ?a]) (f, [Finished])"
    using c_open_fail [of 0 "[Holding ?a]" ?a f] by simp
  show ?thesis
  proof (cases w)
    case WriteOk
    then show ?thesis using 1 2 3 Loaded by (simp add: add_test_record_file)
  next
    case (OpenFails m)
    then show ?thesis using 1 o Loaded by (simp add: add_test_record_file)
  next
    case (DumpFails m)
    then show ?thesis using 1 2 g Loaded by (simp add: add_test_record_file)
  qed
next
  case (LoadedOther v)
  then have "cstep (f, [Ready r u t]) (f, [Finished])"
    using c_load_other [of 0 "[Ready r u t]" r u t f v] by simp
  then show ?thesis using LoadedOther by (simp add: add_test_record_file)
qed

lemma lost_update_run:
  "cstep\<^sup>*\<^sup>* (NoFile, [Ready r1 u1 t1, Ready r2 u2 t2]) (ListDoc [stamp r2 u2 t2], [Finished, Finished])"
proof -
  let ?a1 = "appended r1 u1 t1 []" and ?a2 = "appended r2 u2 t2 []"
  have l: "load_test_history NoFile = Loaded []" by (simp add: load_test_history_def)
  have 1: "cstep (NoFile, [Ready r1 u1 t1, Ready r2 u2 t2]) (NoFile, [Holding ?a1, Ready r2 u2 t2])"
    using c_load [of 0 "[Ready r1 u1 t1, Ready r2 u2 t2]" r1 u1 t1 NoFile "[]"] l by simp
  have 2: "cstep (NoFile, [Holding ?a1, Ready r2 u2 t2]) (NoFile, [Holding ?a1, Holding ?a2])"
    using c_load [of 1 "[Holding ?a1, Ready r2 u2 t2]" r2 u2 t2 NoFile "[]"] l by simp
  have 3: "cstep (NoFile, [Holding ?a1, Holding ?a2]) (Garbled, [Opened ?a1, Holding ?a2])"
    using c_open [of 0 "[Holding ?a1, Holding ?a2]" ?a1 NoFile] by simp
  have 4: "cstep (Garbled, [Opened ?a1, Holding ?a2]) (ListDoc ?a1, [Finished, Holding ?a2])"
    using c_dump [of 0 "[Opened ?a1, Holding ?a2]" ?a1 Garbled] by simp
  have 5: "cstep (ListDoc ?a1, [Finished, Holding ?a2]) (Garbled, [Finished, Opened ?a2])"
    using c_open [of 1 "[Finished, Holding ?a2]" ?a2 "ListDoc ?a1"] by simp
  have 6: "cstep (Garbled, [Finished, Opened ?a2]) (ListDoc ?a2, [Finished, Finished])"
    using c_dump [of 1 "[Finished, Opened ?a2]" ?a2 Garbled] by simp
  have a2: "?a2 = [stamp r2 u2 t2]" by (simp add: appended_keep_last keep_last_def)
  have "cstep\<^sup>*\<^sup>* (NoFile, [Ready r1 u1 t1, Ready r2 u2 t2]) (ListDoc ?a2, [Finished, Finished])"
    using 1 2 3 4 5 6 by (meson converse_rtranclp_into_rtranclp rtranclp.rtrancl_refl)
  then show ?thesis by (simp only: a2)
qed

lemma sum_list_map_update:
  "i < length ws \<Longrightarrow>
   sum_list (map g (ws[i := x])) + g (ws ! i) = sum_list (map g ws) + (g x :: nat)"
proof -
  assume i: "i < length ws"
  have "sum_list (map g (take i ws @ ws ! i # drop (Suc i) ws)) = sum_list (map g ws)"
    using id_take_nth_drop [OF i, symmetric] by simp
  then show ?thesis using i by (simp add: upd_conv_take_nth_drop)
qed

lemma rank_update_less:
  "i < length ws \<Longrightarrow> phase_rank x < phase_rank (ws ! i) \<Longrightarrow> rank (f', ws[i := x]) < rank (f, ws)"
  using sum_list_map_update [of i ws phase_rank x] by (simp add: rank_def)

lemma cstep_rank: "cstep s s' \<Longrightarrow> rank s' < rank s"
  by (induction rule: cstep.induct) (simp_all add: rank_update_less)

lemma cstep_length: "cstep s s' \<Longrightarrow> length (snd s') = length (snd s)"
  by (induction rule: cstep.induct) simp_all

lemma rank_bound: "rank (f, ws) \<le> 3 * length ws"
proof (induction ws)
  case Nil
  then show ?case by (simp add: rank_def)
next
  case (Cons w ws)
  then show ?case by (cases w) (simp_all add: rank_def)
qed

lemma relpowp_rank: "(cstep ^^ k) s s' \<Longrightarrow> k + rank s' \<le> rank s"
proof (induction k arbitrary: s')
  case 0
  then show ?case by simp
next
  case (Suc k)
  then obtain s'' where "(cstep ^^ k) s s''" and "cstep s'' s'" by auto
  then show ?case using Suc.IH cstep_rank by fastforce
qed

lemma cstep_progress:
  assumes "i < length ws" and "ws ! i \<noteq> Finished"
  shows "\<exists>s'. cstep (f, ws) s'"
proof (cases "ws ! i")
  case (Ready r u t)
  then show ?thesis
  proof (cases "load_test_history f")
    case (Loaded h)
    then show ?thesis using c_load [OF assms(1) Ready] by blast
  next
    case (LoadedOther v)
    then show ?thesis using c_load_other [OF assms(1) Ready] by blast
  qed
next
  case (Holding h)
  then show ?thesis using c_open [OF assms(1)] by blast
next
  case (Opened h)
  then show ?thesis using c_dump [OF assms(1)] by blast
next
  case Finished
  then show ?thesis using assms(2) by simp
qed

lemma cstep_from_Finished:
  "cstep (f, ws) s' \<Longrightarrow> \<exists>i<length ws. ws ! i \<noteq> Finished"
  by (cases rule: cstep.cases) auto

lemma all_Finished_replicate:
  "list_all (\<lambda>w. w = Finished) ws \<Longrightarrow> ws = replicate (length ws) Finished"
  by (induction ws) auto

lemma reaches_all_Finished:
  "\<exists>f'. cstep\<^sup>*\<^sup>* s (f', replicate (length (snd s)) Finished)"
proof (induction s rule: measure_induct_rule [of rank])
  case (less s)
  obtain f ws where s: "s = (f, ws)" by (cases s)
  show ?case
  proof (cases "list_all (\<lambda>w. w = Finished) ws")
    case True
    then show ?thesis using s all_Finished_replicate [OF True] by (metis rtranclp.rtrancl_refl snd_conv)
  next
    case False
    then obtain i where "i < length ws" and "ws ! i \<noteq> Finished"
      by (auto simp: list_all_length)
    then obtain s' where st: "cstep s s'" using cstep_progress s by blast
    then obtain f' where "cstep\<^sup>*\<^sup>* s' (f', replicate (length (snd s')) Finished)"
      using less.IH cstep_rank by blast
    then show ?thesis using st cstep_length [OF st] by (metis converse_rtranclp_into_rtranclp)
  qed
qed

subsection \<open>Properties of interleaved appends\<close>

text \<open>
  C31: the store invariant under any interleaving. Whatever order the phases of
  concurrent appends take, starting from a well-formed file with fresh distinct ids, the
  file is at every moment absent, unreadable, or an array of at most 100 records with
  distinct ids. Races lose records; they never duplicate an id or overflow the cap.
\<close>

theorem interleaved_appends_keep_store_ok:
  assumes "stored_ok f" and "distinct (map (fst \<circ> snd) rs)"
    and "set (map (fst \<circ> snd) rs) \<inter> set (stored_ids f) = {}"
    and "cstep\<^sup>*\<^sup>* (f, map ready rs) s"
  shows "stored_ok (fst s)"
proof -
  have "conc_ok s" by (rule reachable_conc_ok [OF assms(4) conc_ok_init [OF assms(1-3)]])
  then show ?thesis by (cases s) (simp add: conc_ok_iff)
qed

theorem interleaved_appends_keep_store_ok_witness:
  "stored_ok NoFile \<and>
   distinct (map (fst \<circ> snd) [(demo_record ''a'', ''id-1'', ''t1''), (demo_record ''b'', ''id-2'', ''t2'')]) \<and>
   set (map (fst \<circ> snd) [(demo_record ''a'', ''id-1'', ''t1''), (demo_record ''b'', ''id-2'', ''t2'')])
     \<inter> set (stored_ids NoFile) = {} \<and>
   cstep\<^sup>*\<^sup>* (NoFile, map ready [(demo_record ''a'', ''id-1'', ''t1''), (demo_record ''b'', ''id-2'', ''t2'')])
     (ListDoc [stamp (demo_record ''b'') ''id-2'' ''t2''], [Finished, Finished]) \<and>
   stored_ok (fst (ListDoc [stamp (demo_record ''b'') ''id-2'' ''t2''], [Finished, Finished]))"
proof -
  let ?rs = "[(demo_record ''a'', ''id-1'', ''t1''), (demo_record ''b'', ''id-2'', ''t2'')]"
  have s: "stored_ok NoFile" by (simp add: stored_ok_def)
  have d: "distinct (map (fst \<circ> snd) ?rs)" by simp
  have i: "set (map (fst \<circ> snd) ?rs) \<inter> set (stored_ids NoFile) = {}" by simp
  have r: "cstep\<^sup>*\<^sup>* (NoFile, map ready ?rs) (ListDoc [stamp (demo_record ''b'') ''id-2'' ''t2''], [Finished, Finished])"
    using lost_update_run [of "demo_record ''a''" "''id-1''" "''t1''" "demo_record ''b''" "''id-2''" "''t2''"]
    by (simp add: ready_def)
  show ?thesis using s d i r interleaved_appends_keep_store_ok [OF s d i r] by blast
qed


text \<open>
  C33: a reader between an append's truncation and its write sees an empty history:
  for every history, an append reaches the truncated file, and \<open>GET /api/history\<close> on
  it answers a successful, empty first page with total 0.
\<close>

theorem concurrent_reader_sees_empty_history:
  "cstep\<^sup>*\<^sup>* (ListDoc h, [Ready r u t]) (Garbled, [Opened (appended r u t h)]) \<and>
   get_history None None Garbled = HistoryOk [] 0 1 20 0"
proof
  have 1: "cstep (ListDoc h, [Ready r u t]) (ListDoc h, [Holding (appended r u t h)])"
    using c_load [of 0 "[Ready r u t]" r u t "ListDoc h" h] by (simp add: load_test_history_def)
  have 2: "cstep (ListDoc h, [Holding (appended r u t h)]) (Garbled, [Opened (appended r u t h)])"
    using c_open [of 0 "[Holding (appended r u t h)]" "appended r u t h" "ListDoc h"] by simp
  show "cstep\<^sup>*\<^sup>* (ListDoc h, [Ready r u t]) (Garbled, [Opened (appended r u t h)])"
    using 1 2 by (meson converse_rtranclp_into_rtranclp rtranclp.rtrancl_refl)
  show "get_history None None Garbled = HistoryOk [] 0 1 20 0"
    by (simp add: get_history_def load_test_history_def py_slice_def py_floordiv_def arg_int_def Let_def)
qed






end
