(* ===== verification/IndexPage.thy ===== *)
theory IndexPage
  imports HistoryStore MockResponder
begin

text \<open>
  The test page and the process start-up. \<open>index\<close> (\<^verbatim>\<open>app.py\<close> lines 46--127)
  hands three values to \<open>render_template\<close>: the model catalogue (lines 50--73), the
  prompt templates (lines 76--119) and the recent tests \<open>load_test_history()[-5:]\<close>
  (line 122), which has no exception handler: a history document that cannot be sliced
  makes the page fail. The start-up block (lines 323--326) creates an empty history
  file when none exists. The HTML rendering is output and is not modelled.
\<close>

subsection \<open>Definitions\<close>

text \<open>A prompt template: the dictionary \<open>{id, name, type, template}\<close> of lines 77--118
  and 298--309.\<close>

record prompt_template =
  tpl_id :: string
  tpl_name :: string
  tpl_type :: string
  tpl_text :: string

text \<open>What \<open>load_test_history()[-5:]\<close> yields: a list of records, or, for a history
  document that is a JSON string, the string's last five characters.\<close>

datatype recent = RecentEntries "entry list" | RecentText string

text \<open>The exception of slicing a decoded document that is neither an array nor a string
  (CPython 3.11).\<close>

fun slice_error :: "jval \<Rightarrow> exc" where
  "slice_error (JDict kvs) = Exc TypeError (''unhashable type: '' @ quoted ''slice'')"
| "slice_error v = Exc TypeError (quoted (py_type_name v) @ '' object is not subscriptable'')"

definition index_recent_tests :: "hist_file \<Rightarrow> exc + recent" where
  "index_recent_tests f =
     (case load_test_history f of
        Loaded h \<Rightarrow> Inr (RecentEntries (py_slice h (Some (-5)) None))
      | LoadedOther (JStr s) \<Rightarrow> Inr (RecentText (py_slice s (Some (-5)) None))
      | LoadedOther v \<Rightarrow> Inl (slice_error v))"

text \<open>Lines 325--326: \<open>os.path.exists\<close> is false only when there is no file; then
  \<open>save_test_history([])\<close> runs, and its exception stops the start-up.\<close>

definition startup :: "write_outcome \<Rightarrow> hist_file \<Rightarrow> (exc + unit) \<times> hist_file" where
  "startup w f = (if f = NoFile then save_test_history w [] f else (Inr (), f))"

text \<open>Lines 50--73: the models offered, by provider, in the order of the dictionary.\<close>

definition index_models :: "(string \<times> string list) list" where
  "index_models =
     [(''Cloudflare Workers AI'',
        [''@cf/google/gemma-3-12b-it'', ''@cf/meta/llama-3.1-8b-instruct'', ''@cf/mistral/mistral-7b-instruct'', ''@cf/thebloke/codellama-7b-instruct'']),
      (''OpenAI'',
        [''gpt-3.5-turbo'', ''gpt-4'', ''gpt-4-turbo-preview'', ''gpt-4o'']),
      (''Anthropic Claude'',
        [''claude-3-opus'', ''claude-3-sonnet'', ''claude-3-haiku'', ''claude-2.1'']),
      (utf8 [0x5176, 0x4ED6, 0x6A21, 0x578B],
        [''custom-model-1'', ''custom-model-2''])]"

definition default_urge_text :: string where
  "default_urge_text =
     utf8 [0x4F60, 0x662F, 0x4E00, 0x4E2A, 0x7761, 0x7720, 0x6559, 0x7EC3, 0xFF0C, 0x901A,
       0x8FC7, 0x5BF9, 0x8BDD, 0x5E2E, 0x52A9, 0x7528, 0x6237, 0x5EFA, 0x7ACB, 0x826F,
       0x597D, 0x7684, 0x7761, 0x7720, 0x4E60, 0x60EF, 0x3002] @ [CHR 0x0A, CHR 0x0A] @
       utf8 [0x65F6, 0x95F4, 0x4FE1, 0x606F, 0xFF1A] @ [CHR 0x0A] @ ''- '' @ utf8 [0x7528,
       0x6237, 0x63D0, 0x4F9B, 0x7684, 0x672C, 0x5730, 0x65F6, 0x95F4, 0xFF1A] @
       ''{local_time}'' @ [CHR 0x0A] @ ''- '' @ utf8 [0x5DF2, 0x89E3, 0x6790, 0x7684,
       0x5C0F, 0x65F6, 0xFF08] @ ''24'' @ utf8 [0x5C0F, 0x65F6, 0x5236, 0xFF09, 0xFF1A] @
       ''{local_hour}'' @ [CHR 0x0A, CHR 0x0A] @ utf8 [0x91CD, 0x8981, 0xFF1A, 0x4E0D,
       0x8981, 0x731C, 0x6D4B, 0x6216, 0x751F, 0x6210, 0x672A, 0x63D0, 0x4F9B, 0x7684,
       0x5F53, 0x524D, 0x65F6, 0x95F4, 0xFF1B, 0x4EC5, 0x6839, 0x636E, 0x4E0A, 0x9762,
       0x63D0, 0x4F9B, 0x6216, 0x89E3, 0x6790, 0x5230, 0x7684, 0x65F6, 0x95F4, 0x5224,
       0x65AD, 0x3002] @ [CHR 0x0A, CHR 0x0A] @ utf8 [0x884C, 0x4E3A, 0x6307, 0x5BFC,
       0xFF1A] @ [CHR 0x0A] @ ''- '' @ utf8 [0x5982, 0x679C, 0x5DF2, 0x8FC7] @ ''23:00'' @
       utf8 [0xFF1A, 0x7528, 0x6E29, 0x548C, 0x4F46, 0x575A, 0x5B9A, 0x7684, 0x8BED,
       0x6C14, 0x7763, 0x4FC3, 0x7528, 0x6237, 0x4E0A, 0x5E8A, 0x4F11, 0x606F, 0xFF0C,
       0x907F, 0x514D, 0x8D23, 0x5907, 0xFF0C, 0x63D0, 0x4F9B] @ ''2-3'' @ utf8 [0x6761,
       0x5177, 0x4F53, 0x3001, 0x6613, 0x6267, 0x884C, 0x7684, 0x653E, 0x677E, 0x5EFA,
       0x8BAE, 0xFF08, 0x4F8B, 0x5982, 0x6E29, 0x548C, 0x4F38, 0x5C55, 0x3001, 0x6E10,
       0x8FDB, 0x6027, 0x808C, 0x8089, 0x653E, 0x677E, 0x3001] @ ''4-4-8'' @ utf8 [0x547C,
       0x5438, 0x6CD5, 0xFF09, 0x3002] @ [CHR 0x0A] @ ''- '' @ utf8 [0x5982, 0x679C,
       0x672A, 0x5230] @ ''23:00'' @ utf8 [0xFF1A, 0x7528, 0x5173, 0x5FC3, 0x7684, 0x8BED,
       0x6C14, 0x8BE2, 0x95EE, 0x767D, 0x5929, 0x7684, 0x4E8B, 0x60C5, 0x662F, 0x5426,
       0x5DF2, 0x5B8C, 0x6210, 0xFF1F, 0x662F, 0x5426, 0x51C6, 0x5907, 0x597D, 0x8FDB,
       0x884C, 0x7761, 0x524D, 0x4EEA, 0x5F0F, 0xFF1F, 0x5982, 0x679C, 0x7528, 0x6237,
       0x5C1A, 0x672A, 0x5B8C, 0x6210, 0xFF0C, 0x7ED9] @ ''1-2'' @ utf8 [0x6761, 0x53EF,
       0x884C, 0x7684, 0x5FEB, 0x901F, 0x6536, 0x5C3E, 0x5EFA, 0x8BAE, 0xFF0C, 0x5E76,
       0x7ED9] @ ''1-2'' @ utf8 [0x6761, 0x7B80, 0x5355, 0x7684, 0x7761, 0x524D, 0x51C6,
       0x5907, 0x5EFA, 0x8BAE, 0x3002] @ [CHR 0x0A, CHR 0x0A] @ utf8 [0x5176, 0x4ED6,
       0x8981, 0x6C42, 0xFF1A, 0x59CB, 0x7EC8, 0x4FDD, 0x6301, 0x5173, 0x5FC3, 0x3001,
       0x652F, 0x6301, 0x7684, 0x53E3, 0x543B, 0xFF1B, 0x56DE, 0x590D, 0x81EA, 0x7136,
       0x7B80, 0x77ED, 0x3001, 0x4E0D, 0x8D85, 0x8FC7] @ ''100'' @ utf8 [0x5B57, 0xFF1B,
       0x4E0D, 0x4F7F, 0x7528] @ ''Markdown'' @ utf8 [0x6216, 0x4EE3, 0x7801, 0x683C,
       0x5F0F, 0xFF1B, 0x4E0D, 0x8981, 0x63D0, 0x4F9B, 0x533B, 0x5B66, 0x8BCA, 0x65AD,
       0x6216, 0x5F3A, 0x5236, 0x6027, 0x6307, 0x4EE4, 0x3002]"

definition default_praise_text :: string where
  "default_praise_text =
     utf8 [0x4F60, 0x662F, 0x4E00, 0x4E2A, 0x7761, 0x7720, 0x6559, 0x7EC3, 0xFF0C, 0x4EFB,
       0x52A1, 0x662F, 0x901A, 0x8FC7, 0x5BF9, 0x8BDD, 0x5E2E, 0x52A9, 0x7528, 0x6237,
       0x6539, 0x5584, 0x7761, 0x7720, 0x4E60, 0x60EF, 0x3002] @ [CHR 0x0A, CHR 0x0A] @
       utf8 [0x7528, 0x6237, 0x51B3, 0x5B9A, 0x73B0, 0x5728, 0x5C31, 0x53BB, 0x7761,
       0x89C9, 0x3002, 0x8BF7, 0x79EF, 0x6781, 0x9F13, 0x52B1, 0x7528, 0x6237, 0x7684,
       0x8FD9, 0x4E2A, 0x51B3, 0x5B9A, 0xFF0C, 0x79F0, 0x8D5E, 0x4ED6, 0x4EEC, 0x7167,
       0x987E, 0x81EA, 0x5DF1, 0x5065, 0x5EB7, 0x7684, 0x884C, 0x4E3A, 0xFF0C, 0x5E76,
       0x795D, 0x613F, 0x4ED6, 0x4EEC, 0x6709, 0x4E2A, 0x597D, 0x68A6, 0x3002] @ [CHR 0x0A,
       CHR 0x0A] @ utf8 [0x4FDD, 0x6301, 0x8BED, 0x6C14, 0x6E29, 0x6696, 0x3001, 0x9F13,
       0x52B1, 0x3002, 0x56DE, 0x590D, 0x8981, 0x7B80, 0x77ED, 0xFF0C, 0x4E0D, 0x8D85,
       0x8FC7] @ ''40'' @ utf8 [0x5B57, 0x3002] @ [CHR 0x0A, CHR 0x0A] @ utf8 [0x91CD,
       0x8981, 0xFF1A, 0x4E0D, 0x8981, 0x731C, 0x6D4B, 0x6216, 0x751F, 0x6210, 0x672A,
       0x63D0, 0x4F9B, 0x7684, 0x5F53, 0x524D, 0x65F6, 0x95F4, 0xFF0C, 0x4EC5, 0x6839,
       0x636E, 0x4E0B, 0x9762, 0x7684, 0x5DF2, 0x63D0, 0x4F9B, 0x65F6, 0x95F4, 0x5224,
       0x65AD, 0x3002]"

definition gentle_reminder_text :: string where
  "gentle_reminder_text =
     utf8 [0x73B0, 0x5728, 0x5DF2, 0x7ECF] @ ''{local_time}'' @ utf8 [0x4E86, 0xFF0C,
       0x591C, 0x6DF1, 0x4E86, 0x3002, 0x8003, 0x8651, 0x5230, 0x60A8, 0x660E, 0x5929,
       0x8FD8, 0x9700, 0x8981, 0x7CBE, 0x529B, 0x5145, 0x6C9B, 0x5730, 0x5DE5, 0x4F5C,
       0xFF0C, 0x5EFA, 0x8BAE, 0x60A8, 0x5F00, 0x59CB, 0x51C6, 0x5907, 0x4F11, 0x606F,
       0x3002, 0x53EF, 0x4EE5, 0x5148, 0x505A, 0x51E0, 0x4E2A, 0x6DF1, 0x547C, 0x5438,
       0xFF0C, 0x653E, 0x677E, 0x4E00, 0x4E0B, 0x7D27, 0x5F20, 0x7684, 0x5FC3, 0x60C5,
       0x3002]"

definition detailed_guide_text :: string where
  "detailed_guide_text =
     utf8 [0x73B0, 0x5728, 0x662F] @ ''{local_time}'' @ utf8 [0xFF0C, 0x8BA9, 0x6211,
       0x4E3A, 0x60A8, 0x63D0, 0x4F9B, 0x4E00, 0x4E2A, 0x7B80, 0x5355, 0x7684, 0x7761,
       0x524D, 0x653E, 0x677E, 0x65B9, 0x6848, 0xFF1A] @ ''1'' @ utf8 [0xFF09, 0x8C03,
       0x6697, 0x623F, 0x95F4, 0x706F, 0x5149, 0xFF0C, 0x8425, 0x9020, 0x7761, 0x7720,
       0x6C1B, 0x56F4, 0xFF1B] @ ''2'' @ utf8 [0xFF09, 0x653E, 0x4E0B, 0x624B, 0x673A,
       0xFF0C, 0x907F, 0x514D, 0x84DD, 0x5149, 0x523A, 0x6FC0, 0xFF1B] @ ''3'' @ utf8
       [0xFF09, 0x505A] @ ''5'' @ utf8 [0x5206, 0x949F, 0x8F7B, 0x67D4, 0x4F38, 0x5C55,
       0xFF1B] @ ''4'' @ utf8 [0xFF09, 0x559D, 0x676F, 0x6E29, 0x6C34, 0x52A9, 0x7720,
       0x3002, 0x8FD9, 0x6837, 0x80FD, 0x8BA9, 0x60A8, 0x66F4, 0x5FEB, 0x8FDB, 0x5165,
       0x6DF1, 0x5EA6, 0x7761, 0x7720, 0x3002]"

text \<open>Lines 76--119: the prompt templates shown on the page.\<close>

definition index_prompt_templates :: "prompt_template list" where
  "index_prompt_templates =
     [\<lparr>tpl_id = ''default_urge'', tpl_name = utf8 [0x9ED8, 0x8BA4, 0x7763, 0x4FC3, 0x6A21, 0x5F0F], tpl_type = ''urge'', tpl_text = default_urge_text\<rparr>,
      \<lparr>tpl_id = ''default_praise'', tpl_name = utf8 [0x9ED8, 0x8BA4, 0x8868, 0x626C, 0x6A21, 0x5F0F], tpl_type = ''praise'', tpl_text = default_praise_text\<rparr>,
      \<lparr>tpl_id = ''gentle_reminder'', tpl_name = utf8 [0x6E29, 0x67D4, 0x63D0, 0x9192], tpl_type = ''urge'', tpl_text = gentle_reminder_text\<rparr>,
      \<lparr>tpl_id = ''detailed_guide'', tpl_name = utf8 [0x8BE6, 0x7EC6, 0x6307, 0x5BFC], tpl_type = ''urge'', tpl_text = detailed_guide_text\<rparr>]"

text \<open>
  \<open>index\<close> (lines 46--127): the three values handed to \<open>render_template\<close>, or the
  exception of line 122, which has no handler (Flask answers its own 500 page).
\<close>

definition index_page ::
  "hist_file \<Rightarrow> exc + ((string \<times> string list) list \<times> prompt_template list \<times> recent)" where
  "index_page f =
     (case index_recent_tests f of
        Inl e \<Rightarrow> Inl e
      | Inr recent_tests \<Rightarrow> Inr (index_models, index_prompt_templates, recent_tests))"

subsection \<open>Properties\<close>

lemma py_slice_last:
  "0 < n \<Longrightarrow> py_slice xs (Some (- int n)) None = keep_last n xs"
  using py_slice_suffix [of "int n" xs] by (simp add: keep_last_def)

lemma index_recent_Loaded:
  "load_test_history f = Loaded h \<Longrightarrow> index_recent_tests f = Inr (RecentEntries (keep_last 5 h))"
  using py_slice_last [of 5 h] by (simp add: index_recent_tests_def)

text \<open>
  The test page lists the five most recent records in file order (oldest of the
  five first, unlike \<open>GET /api/history\<close>), fails with the slicing exception on a history
  document that is neither an array nor a string, and the start-up creates an empty list
  file exactly when no file exists.
\<close>

theorem index_recent_and_startup:
  assumes "load_test_history f = Loaded h" and "\<forall>s. v \<noteq> JStr s"
  shows "index_recent_tests f = Inr (RecentEntries (keep_last 5 h)) \<and>
         index_recent_tests (OtherDoc v) = Inl (slice_error v) \<and>
         startup WriteOk NoFile = (Inr (), ListDoc []) \<and>
         (f \<noteq> NoFile \<longrightarrow> startup w f = (Inr (), f))"
  using index_recent_Loaded [OF assms(1)] assms(2)
  by (cases v) (simp_all add: index_recent_tests_def load_test_history_def startup_def save_test_history_def)

theorem index_recent_and_startup_witness:
  "load_test_history (ListDoc (map (\<lambda>i. stamp (demo_record ''p'') (dec_nat i) ''t'') [0..<7])) =
     Loaded (map (\<lambda>i. stamp (demo_record ''p'') (dec_nat i) ''t'') [0..<7]) \<and>
   (\<forall>s. JDict [] \<noteq> JStr s) \<and>
   ListDoc (map (\<lambda>i. stamp (demo_record ''p'') (dec_nat i) ''t'') [0..<7]) \<noteq> NoFile \<and>
   index_recent_tests (ListDoc (map (\<lambda>i. stamp (demo_record ''p'') (dec_nat i) ''t'') [0..<7])) =
     Inr (RecentEntries (drop 2 (map (\<lambda>i. stamp (demo_record ''p'') (dec_nat i) ''t'') [0..<7]))) \<and>
   index_recent_tests (OtherDoc (JDict [])) = Inl (Exc TypeError (''unhashable type: '' @ quoted ''slice'')) \<and>
   startup WriteOk NoFile = (Inr (), ListDoc []) \<and>
   startup WriteOk (ListDoc (map (\<lambda>i. stamp (demo_record ''p'') (dec_nat i) ''t'') [0..<7])) =
     (Inr (), ListDoc (map (\<lambda>i. stamp (demo_record ''p'') (dec_nat i) ''t'') [0..<7]))"
proof -
  let ?h = "map (\<lambda>i. stamp (demo_record ''p'') (dec_nat i) ''t'') [0..<7]"
  have l: "load_test_history (ListDoc ?h) = Loaded ?h" by (simp add: load_test_history_def)
  have v: "\<forall>s. JDict [] \<noteq> JStr s" by simp
  have k: "keep_last 5 ?h = drop 2 ?h" by (simp add: keep_last_def)
  show ?thesis
    using l v index_recent_and_startup [OF l v, of WriteOk] by (simp only: k) simp
qed

text \<open>
  C39: the models the page offers and the mock table. Every model of the mock table is
  offered on the page, and every other model the page offers (Mistral, CodeLlama, the
  other GPT and Claude versions, the custom models) gets, in mock mode, exactly the
  Gemma reply.
\<close>

theorem index_models_mock_fallback:
  "set (map fst (mock_responses lt)) \<subseteq> set (concat (map snd index_models)) \<and>
   (\<forall>m\<in>set (concat (map snd index_models)). m \<notin> set (map fst (mock_responses lt)) \<longrightarrow>
      generate_mock_response (JStr m) ty lt lh =
      generate_mock_response (JStr ''@cf/google/gemma-3-12b-it'') ty lt lh)"
proof
  show "set (map fst (mock_responses lt)) \<subseteq> set (concat (map snd index_models))"
    by (simp add: mock_responses_def index_models_def)
next
  have "py_dict_get (JStr m) (mock_responses lt) d = Inr d"
    if "m \<notin> set (map fst (mock_responses lt))" for m :: string and d
  proof -
    have "map_of (mock_responses lt) m = None" using that by (simp add: map_of_eq_None_iff)
    then show ?thesis by (simp add: py_dict_get_def)
  qed
  then show "\<forall>m\<in>set (concat (map snd index_models)). m \<notin> set (map fst (mock_responses lt)) \<longrightarrow>
      generate_mock_response (JStr m) ty lt lh =
      generate_mock_response (JStr ''@cf/google/gemma-3-12b-it'') ty lt lh"
    by (simp add: generate_mock_response_def py_dict_get_def Let_def mock_responses_def)
qed

theorem index_models_mock_fallback_witness:
  "''@cf/mistral/mistral-7b-instruct'' \<in> set (concat (map snd index_models)) \<and>
   ''@cf/mistral/mistral-7b-instruct'' \<notin> set (map fst (mock_responses (JStr ''23:30''))) \<and>
   generate_mock_response (JStr ''@cf/mistral/mistral-7b-instruct'') (JStr ''urge'') (JStr ''23:30'') JNone =
   generate_mock_response (JStr ''@cf/google/gemma-3-12b-it'') (JStr ''urge'') (JStr ''23:30'') JNone"
proof -
  have i: "''@cf/mistral/mistral-7b-instruct'' \<in> set (concat (map snd index_models))"
    by (simp add: index_models_def)
  have n: "''@cf/mistral/mistral-7b-instruct'' \<notin> set (map fst (mock_responses (JStr ''23:30'')))"
    by (simp add: mock_responses_def)
  show ?thesis
    using i n index_models_mock_fallback [of "JStr ''23:30''" "JStr ''urge''" JNone] by blast
qed

end
