(* ===== verification/Templates.thy ===== *)
theory Templates
  imports IndexPage
begin

text \<open>
  \<open>get_templates\<close> (\<^verbatim>\<open>GET /api/templates\<close>, \<^verbatim>\<open>app.py\<close> lines 293--321): a
  constant catalogue of two prompt templates returned with \<open>success\<close>. Building a list
  of literals raises nothing, so the \<open>except\<close> branch (lines 317--321) is unreachable
  and the reply is always the catalogue.
\<close>

subsection \<open>Definitions\<close>

datatype templates_response = TemplatesOk "prompt_template list" | TemplatesFailed string

text \<open>Lines 297--310.\<close>

definition custom_templates :: "prompt_template list" where
  "custom_templates =
     [\<lparr>tpl_id = ''custom_urge'', tpl_name = utf8 [0x81EA, 0x5B9A, 0x4E49, 0x7763, 0x4FC3], tpl_type = ''urge'',
       tpl_text = utf8 [0x73B0, 0x5728, 0x662F] @ ''{local_time}'' @ utf8 [0xFF0C, 0x63D0, 0x9192, 0x7528, 0x6237, 0x8BE5, 0x4F11, 0x606F, 0x4E86, 0x3002]\<rparr>,
      \<lparr>tpl_id = ''custom_praise'', tpl_name = utf8 [0x81EA, 0x5B9A, 0x4E49, 0x8868, 0x626C], tpl_type = ''praise'',
       tpl_text = utf8 [0x8868, 0x626C, 0x7528, 0x6237, 0x51B3, 0x5B9A, 0x65E9, 0x7761, 0x3002]\<rparr>]"

definition get_templates :: templates_response where
  "get_templates = TemplatesOk custom_templates"

subsection \<open>Properties\<close>



end
