(* ===== verification/Spec2Isabelle.thy ===== *)
theory Spec2Isabelle
  imports Orchestrator Concurrency Templates
begin

text \<open>
  A verification library for the sleep-coach API test tool of the repository
  NightOwlFix: the Flask module \<^verbatim>\<open>src/sleep-test-tool/app.py\<close>.

  \<^bold>\<open>The program.\<close> \<open>test_endpoint\<close> (\<^verbatim>\<open>POST /api/test\<close>) validates a JSON request,
  obtains a reply either from \<open>generate_mock_response\<close> (canned text per model and
  type) or from \<open>call_real_api\<close> (one HTTP POST to a remote worker), and stores the
  outcome through \<open>add_test_record\<close>, which reads the whole history file
  (\<open>load_test_history\<close>), appends, keeps the last 100 records and rewrites the file
  (\<open>save_test_history\<close>). \<open>get_history\<close> (\<^verbatim>\<open>GET /api/history\<close>) reads the file and
  returns one page of it. \<open>index\<close> shows the last five records next to static
  catalogues; \<open>get_templates\<close> returns a static catalogue; the start-up block creates
  an empty history file.

  \<^bold>\<open>Representation.\<close> Python strings are \<open>string\<close> holding their UTF-8 bytes (the
  Chinese literals are written \<open>utf8 [code points]\<close>); decoded JSON and the Python
  values the handlers touch are \<open>jval\<close>; every exception is a value \<open>exc\<close> (class and
  \<open>str(e)\<close>) on the left of a sum, so each \<open>raise\<close>, \<open>except\<close> and early
  \<open>return\<close> of the source is a branch of the model. The history file is an explicit
  state \<open>hist_file\<close> passed in and returned. What the program does not determine
  (the network, the clock, \<open>uuid4\<close>, the outcome of a write) is an input. Clock
  readings are integer microseconds, as \<open>datetime\<close> keeps them; a response time is
  the exact rational number of seconds its float stands for.

  \<^bold>\<open>Theories.\<close>
  \<^item> \<open>Prelude\<close>: UTF-8 encoding of code points, list lemmas, the collection
    \<open>py_simps\<close>.
  \<^item> \<open>PyLang\<close>: the Python semantics the module relies on: truthiness, \<open>dict.get\<close>
    (last binding wins), hashability, \<open>str\<close>/\<open>repr\<close>, slicing with negative bounds
    (\<open>py_slice\<close>), floor division with \<open>ZeroDivisionError\<close>, \<open>str.replace\<close> (a
    \<open>function\<close> with its termination measure), \<open>int()\<close> of a query argument
    (\<open>arg_int\<close>). C16: the round trip of a query argument.
  \<^item> \<open>HistoryFile\<close> (lines 14--30): the records \<open>test_record\<close> and \<open>entry\<close>, the file
    contents \<open>hist_file\<close>, \<open>load_test_history\<close> and \<open>save_test_history\<close> with the
    write outcome \<open>WriteOk\<close>, \<open>OpenFails\<close>, \<open>DumpFails\<close> (after truncation). C7: save
    then load.
  \<^item> \<open>HistoryStore\<close> (lines 32--44): \<open>add_test_record\<close> and the store's specification
    (\<open>keep_last\<close>, the invariant \<open>stored_ok\<close>: at most 100 records, distinct ids).
    C1--C6: an append, the invariant, FIFO eviction, the error paths, the loss of the
    whole history after a failed dump, sequential appends.
  \<^item> \<open>Pagination\<close> (lines 261--291): \<open>get_history\<close>. C8--C15: the page returned, the
    pages partitioning the history, empty pages past the end, page 1 holding the oldest
    records, nonpositive pages, \<open>per_page\<close> 0 and -1, a document that is not a list.
  \<^item> \<open>MockResponder\<close> (lines 229--259): the template table \<open>mock_responses\<close>, the
    lookups with their fallbacks and \<open>generate_mock_response\<close>; \<open>mock_lookup\<close> is the
    specification's lookup without substitution. C17--C19: equivalence with
    \<open>mock_lookup\<close> (the \<open>replace\<close> is dead on ordinary input), its effect when the time
    carries the placeholder, the errors on non-string arguments.
  \<^item> \<open>RealApi\<close> (lines 190--227): \<open>call_real_api\<close> against an abstract \<open>transport\<close>.
    C20--C22: the request sent, the status error message, the other failures (all a
    plain \<open>Exception\<close>).
  \<^item> \<open>Orchestrator\<close> (lines 129--188): \<open>test_endpoint\<close> with its environment \<open>env\<close>,
    \<open>resolve\<close> for lines 150--159, \<open>serve\<close> for requests one after another.
    C23--C30: validation first, mock and real success, negative response times,
    resolver and storage failures, the store invariant over a sequence of requests,
    malformed bodies.
  \<^item> \<open>Concurrency\<close>: the unsynchronised read-modify-write as the step relation
    \<open>cstep\<close> over the file and a list of workers in phases \<open>Ready\<close>, \<open>Holding\<close>,
    \<open>Opened\<close> (after truncation), \<open>Finished\<close>. C31--C37: the store invariant under
    every interleaving (rule induction, invariant \<open>conc_ok\<close>), a lost update, a reader
    seeing an empty history between truncation and write, the refinement of
    \<open>add_test_record\<close> by a worker running alone, termination (the phase measure
    \<open>rank\<close> decreases), at most three steps per append, and completion (no deadlock).
  \<^item> \<open>IndexPage\<close> (lines 46--127, 323--326): \<open>index_page\<close> with the model catalogue,
    the prompt templates and the recent records; the start-up file creation. C39: the
    offered models against the mock table.
  \<^item> \<open>Templates\<close> (lines 293--321): \<open>get_templates\<close>. C40: the types of both
    catalogues lie in the mock table, the ids are distinct.

  \<^bold>\<open>Across components.\<close> This theory composes the handlers through the
  file they share. C38: a test that \<open>test_endpoint\<close> reports stored (its reply
  \<open>TestOk\<close>) is read back by \<open>index\<close>, as the last of the recent records, and by
  \<open>get_history\<close>, at the head of the page numbered by the reported page count. The
  proof chains \<open>test_endpoint_TestOk\<close> (a success means the load read a list and the
  write completed), \<open>index_recent_Loaded\<close> and \<open>get_history_last_page\<close>.

  \<^bold>\<open>Bounds.\<close> No fuel is used: every loop of the source is a bounded list operation
  (slicing, \<open>map\<close>, \<open>concat\<close>), and \<open>str.replace\<close> is a total \<open>function\<close> proved
  terminating by the length of the subject. The concurrency model is over an arbitrary
  finite list of workers and arbitrary interleavings; its write is an over-approximation
  (a write may always end unparseable), which keeps the invariant sound, and its runs are
  finite (at most three steps per append).

  \<^bold>\<open>Not modelled.\<close> Flask routing, \<open>jsonify\<close> and status codes beyond the reply
  constructors; the HTML rendering of \<open>render_template\<close>; logging and console output;
  \<open>httpx\<close> and \<open>json\<close> themselves (the transport is an input, a file is its decoded
  value); the rounding of a response time to a binary float; a history file that
  is a JSON array of values other than the records \<open>add_test_record\<close> writes (the
  array elements are \<open>entry\<close> records); Unicode digits in query arguments.
\<close>


section \<open>Properties across components\<close>

text \<open>
  C38: a stored test is read back by both views. When \<^verbatim>\<open>POST /api/test\<close> answers
  with success, the record it stored carries the reply's id, text and response time;
  the next \<^verbatim>\<open>GET /\<close> lists it as the last of its recent records, and with the
  default page size the last page of \<^verbatim>\<open>GET /api/history\<close> (the page number being
  the reported page count) starts with it.
\<close>

theorem post_then_read_back:
  assumes "test_endpoint e req f = (TestOk resp u rt um, f')"
  shows "\<exists>x rs. record_id x = u \<and> response x = resp \<and> response_time x = rt \<and>
           index_recent_tests f' = Inr (RecentEntries rs) \<and> last rs = x \<and>
           hd (page_data (get_history (Some (dec_int (page_count (get_history None None f')))) None f')) = x"
proof -
  obtain h r where l: "load_test_history f = Loaded h" and u: "u = new_uuid e"
    and r: "response r = resp" "response_time r = rt"
    and f': "f' = ListDoc (keep_last 100 (h @ [stamp r (new_uuid e) (now_iso e)]))"
    using Orchestrator.test_endpoint_TestOk [OF assms] by blast
  let ?x = "stamp r (new_uuid e) (now_iso e)"
  let ?h = "keep_last 100 (h @ [?x])"
  have l': "load_test_history f' = Loaded ?h" using f' by (simp add: save_load_roundtrip)
  have ne: "?h \<noteq> []" by (simp add: keep_last_def)
  have last: "last ?h = ?x" by simp
  have k: "arg_int None 20 = 20" by (simp add: arg_int_def)
  show ?thesis
    using index_recent_Loaded [OF l'] get_history_last_page [OF l' ne k] ne last u r
    by (intro exI [of _ ?x] exI [of _ "keep_last 5 ?h"]) (simp add: stamp_def)
qed

text \<open>A request in mock mode on a fresh file, read back by both views.\<close>

theorem post_then_read_back_witness:
  "test_endpoint demo_env
     (JsonReq (JDict [(''prompt'', JStr ''remind me''), (''use_mock'', JBool True), (''local_time'', JStr ''23:30'')])) NoFile =
   (TestOk (JStr (gemma_urge ''23:30'')) ''5f0c-demo'' (1 / 2) (JBool True),
    ListDoc [stamp (request_record [(''prompt'', JStr ''remind me''), (''use_mock'', JBool True), (''local_time'', JStr ''23:30'')]
                      (JStr (gemma_urge ''23:30'')) (1 / 2)) ''5f0c-demo'' ''2025-01-01T23:30:00'']) \<and>
   (\<exists>x rs. record_id x = ''5f0c-demo'' \<and> response x = JStr (gemma_urge ''23:30'') \<and> response_time x = 1 / 2 \<and>
      index_recent_tests
        (ListDoc [stamp (request_record [(''prompt'', JStr ''remind me''), (''use_mock'', JBool True), (''local_time'', JStr ''23:30'')]
                      (JStr (gemma_urge ''23:30'')) (1 / 2)) ''5f0c-demo'' ''2025-01-01T23:30:00'']) =
        Inr (RecentEntries rs) \<and> last rs = x)"
proof -
  let ?kvs = "[(''prompt'', JStr ''remind me''), (''use_mock'', JBool True), (''local_time'', JStr ''23:30'')]"
  let ?f' = "ListDoc [stamp (request_record ?kvs (JStr (gemma_urge ''23:30'')) (1 / 2)) ''5f0c-demo'' ''2025-01-01T23:30:00'']"
  have p: "truthy (req_prompt ?kvs)" by (simp add: py_get_def)
  have g: "generate_mock_response (req_model ?kvs) (req_type ?kvs) (req_time ?kvs) (req_hour ?kvs) =
           Inr (gemma_urge ''23:30'')"
    by (simp add: py_get_def generate_eq_lookup_no_brace mock_eval)
  have res: "resolve demo_env (req_use_mock ?kvs) (req_model ?kvs) (req_type ?kvs) (req_time ?kvs) (req_hour ?kvs) =
             Inr (JStr (gemma_urge ''23:30''), 1 / 2)"
    using g by (simp add: resolve_mock py_get_def mock_latency_def)
  have l: "load_test_history NoFile = Loaded []" by (simp add: load_test_history_def)
  have w: "write_result demo_env = WriteOk" by (simp add: demo_env_def)
  have t: "test_endpoint demo_env (JsonReq (JDict ?kvs)) NoFile =
             (TestOk (JStr (gemma_urge ''23:30'')) ''5f0c-demo'' (1 / 2) (JBool True), ?f')"
    using test_endpoint_stored [OF p res l w] by (simp add: demo_env_def py_get_def keep_last_def)
  show ?thesis using t post_then_read_back [OF t] by auto
qed

end
